(* ===== verification/Prelude.thy ===== *)
theory Prelude
  imports Main "HOL-Library.Sublist" "HOL-Library.Multiset"
begin

text \<open>
  The Python built-ins that the sync scripts call, as executable HOL functions.
  A Python \<open>str\<close> is a sequence of Unicode code points; it is modelled as a list of
  natural numbers (\<open>pystr\<close>), and \<open>pys ''abc''\<close> turns an ASCII literal of the
  source into that representation.  Non-ASCII characters of the source (the bullet
  \<open>\<bullet>\<close>, the box-drawing glyphs, the dashes) are written by their code points.
  The built-ins modelled here are \<open>str.isspace\<close> (and the regular expression class
  \<open>\s\<close>, which Python defines by it), \<open>str.lower\<close> on ASCII, \<open>str.strip\<close>,
  \<open>str.startswith\<close>, the operator \<open>in\<close> on strings, \<open>str.split(sep)\<close>,
  \<open>str.split()\<close>, \<open>str.join\<close>, and a \<open>dict\<close> with its insertion order.
\<close>

named_theorems py_simps "evaluation rules of the model of the Python built-ins"

type_synonym pychar = nat
type_synonym pystr = "pychar list"

definition pys :: "string \<Rightarrow> pystr" where
  [py_simps]: "pys s = map of_char s"

text \<open>A \<open>pathlib.Path\<close> that is absolute (all paths of the scripts are: they are
  built from \<open>Path.cwd()\<close>) is the list of its components below the root.\<close>

type_synonym path = "pystr list"

subsection \<open>Character classes\<close>

text \<open>
  \<open>str.isspace\<close> and the regular expression class \<open>\s\<close> of a \<open>str\<close> pattern agree:
  tab to carriage return, the four information separators, space, NEL, NBSP and the
  Unicode space separators and line/paragraph separators.
\<close>

definition py_isspace :: "pychar \<Rightarrow> bool" where
  [py_simps]: "py_isspace c \<longleftrightarrow>
     (9 \<le> c \<and> c \<le> 13) \<or> (28 \<le> c \<and> c \<le> 32) \<or> c = 133 \<or> c = 160 \<or> c = 5760 \<or>
     (8192 \<le> c \<and> c \<le> 8202) \<or> c = 8232 \<or> c = 8233 \<or> c = 8239 \<or> c = 8287 \<or> c = 12288"

text \<open>The regular expression classes \<open>\d\<close> and \<open>\w\<close>, on their ASCII members.\<close>

definition re_digit :: "pychar \<Rightarrow> bool" where
  [py_simps]: "re_digit c \<longleftrightarrow> 48 \<le> c \<and> c \<le> 57"

definition re_word :: "pychar \<Rightarrow> bool" where
  [py_simps]: "re_word c \<longleftrightarrow> re_digit c \<or> (65 \<le> c \<and> c \<le> 90) \<or> (97 \<le> c \<and> c \<le> 122) \<or> c = 95"

definition py_lower_char :: "pychar \<Rightarrow> pychar" where
  [py_simps]: "py_lower_char c = (if 65 \<le> c \<and> c \<le> 90 then c + 32 else c)"

definition py_lower :: "pystr \<Rightarrow> pystr" where
  [py_simps]: "py_lower s = map py_lower_char s"

subsection \<open>Stripping\<close>

definition py_lstrip :: "pystr \<Rightarrow> pystr" where
  [py_simps]: "py_lstrip s = dropWhile py_isspace s"

definition py_rstrip :: "pystr \<Rightarrow> pystr" where
  [py_simps]: "py_rstrip s = rev (dropWhile py_isspace (rev s))"

definition py_strip :: "pystr \<Rightarrow> pystr" where
  [py_simps]: "py_strip s = py_rstrip (py_lstrip s)"

subsection \<open>Prefixes and substrings\<close>

text \<open>\<open>py_startswith s p\<close> is \<open>s.startswith(p)\<close>; \<open>py_in n h\<close> is \<open>n in h\<close>.\<close>

fun py_startswith :: "pystr \<Rightarrow> pystr \<Rightarrow> bool" where
  "py_startswith s [] = True"
| "py_startswith [] (p # ps) = False"
| "py_startswith (c # cs) (p # ps) = (c = p \<and> py_startswith cs ps)"

fun py_in :: "pystr \<Rightarrow> pystr \<Rightarrow> bool" where
  "py_in n [] = (n = [])"
| "py_in n (c # cs) = (py_startswith (c # cs) n \<or> py_in n cs)"

subsection \<open>Splitting and joining\<close>

text \<open>\<open>py_split d s\<close> is \<open>s.split(d)\<close> for a one-character separator: it keeps empty
  pieces, and the empty string gives one empty piece.\<close>

fun py_split :: "pychar \<Rightarrow> pystr \<Rightarrow> pystr list" where
  "py_split d [] = [[]]"
| "py_split d (c # cs) =
     (if c = d then [] # py_split d cs
      else (case py_split d cs of [] \<Rightarrow> [[c]] | w # ws \<Rightarrow> (c # w) # ws))"

text \<open>\<open>py_join sep ws\<close> is \<open>sep.join(ws)\<close>.\<close>

fun py_join :: "pystr \<Rightarrow> pystr list \<Rightarrow> pystr" where
  "py_join sep [] = []"
| "py_join sep [w] = w"
| "py_join sep (w # v # ws) = w @ sep @ py_join sep (v # ws)"

text \<open>\<open>py_split_ws s\<close> is \<open>s.split()\<close>: maximal runs of non-space characters.\<close>

function py_split_ws :: "pystr \<Rightarrow> pystr list" where
  "py_split_ws s =
     (let t = dropWhile py_isspace s in
      if t = [] then [] else takeWhile (Not \<circ> py_isspace) t # py_split_ws (dropWhile (Not \<circ> py_isspace) t))"
  by pat_completeness auto
termination
proof (relation "measure length")
  fix s t
  assume t: "t = dropWhile py_isspace s" and ne: "t \<noteq> []"
  have nc: "\<not> py_isspace (hd t)"
    using t ne by (simp add: hd_dropWhile)
  have "length (dropWhile (Not \<circ> py_isspace) t) < length t"
    using ne nc by (cases t) (simp_all add: length_dropWhile_le le_imp_less_Suc)
  moreover have "length t \<le> length s"
    using t by (simp add: length_dropWhile_le)
  ultimately show "(dropWhile (Not \<circ> py_isspace) t, s) \<in> measure length"
    by simp
qed simp

declare py_split_ws.simps [simp del]

subsection \<open>Dictionaries\<close>

text \<open>
  A Python \<open>dict\<close> remembers the order in which its keys were first inserted; it is an
  association list with distinct keys.  \<open>d[k] = v\<close> overwrites the value in place
  when \<open>k\<close> is present and appends the pair otherwise.
\<close>

type_synonym ('k, 'v) pydict = "('k \<times> 'v) list"

fun py_dict_set :: "'k \<Rightarrow> 'v \<Rightarrow> ('k, 'v) pydict \<Rightarrow> ('k, 'v) pydict" where
  "py_dict_set k v [] = [(k, v)]"
| "py_dict_set k v ((k', v') # d) =
     (if k = k' then (k, v) # d else (k', v') # py_dict_set k v d)"

definition py_dict_keys :: "('k, 'v) pydict \<Rightarrow> 'k list" where
  [py_simps]: "py_dict_keys d = map fst d"

definition py_dict_wf :: "('k, 'v) pydict \<Rightarrow> bool" where
  "py_dict_wf d \<longleftrightarrow> distinct (map fst d)"

subsection \<open>Sorting\<close>

text \<open>
  \<open>xs.sort(key=k, reverse=True)\<close>.  CPython's \<open>list.sort\<close> reverses the list, sorts it
  stably in ascending order of the key, and reverses the result; its stable sort is the
  unique stable sorted permutation, which \<open>sort_key\<close> (insertion sort) computes too.
\<close>

definition py_sort_reverse :: "('a \<Rightarrow> 'k::linorder) \<Rightarrow> 'a list \<Rightarrow> 'a list" where
  "py_sort_reverse k xs = rev (sort_key k (rev xs))"

(* ------------------------------------------------------------------------ *)

subsection \<open>Lemmas: stripping\<close>

lemma dropWhile_snoc_keep: "\<not> P y \<Longrightarrow> dropWhile P (xs @ [y]) = dropWhile P xs @ [y]"
  by (induction xs) auto

lemma py_lstrip_no_space: "py_lstrip s = c # r \<Longrightarrow> \<not> py_isspace c"
  using hd_dropWhile [of py_isspace s] by (simp add: py_lstrip_def)

lemma py_strip_Nil_iff: "py_strip s = [] \<longleftrightarrow> (\<forall>c \<in> set s. py_isspace c)"
proof -
  have "(\<forall>x \<in> set (dropWhile py_isspace s). py_isspace x) \<longleftrightarrow> (\<forall>c \<in> set s. py_isspace c)"
    by (induction s) auto
  then show ?thesis
    by (simp add: py_strip_def py_rstrip_def py_lstrip_def)
qed

lemma py_strip_sublist: "sublist (py_strip s) s"
proof -
  have "suffix (dropWhile py_isspace s) s"
    unfolding suffix_def by (metis takeWhile_dropWhile_id)
  moreover have "prefix (rev (dropWhile py_isspace (rev t))) t" for t :: pystr
    unfolding prefix_def by (metis rev_append rev_rev_ident takeWhile_dropWhile_id)
  ultimately show ?thesis
    unfolding py_strip_def py_rstrip_def py_lstrip_def
    by (meson prefix_imp_sublist sublist_order.order_trans suffix_imp_sublist)
qed

lemma py_strip_Cons:
  assumes "py_lstrip s = c # r"
  shows "py_strip s = c # py_rstrip r"
proof -
  have "\<not> py_isspace c" using assms by (rule py_lstrip_no_space)
  then have "dropWhile py_isspace (rev r @ [c]) = dropWhile py_isspace (rev r) @ [c]"
    by (rule dropWhile_snoc_keep)
  then show ?thesis
    using assms by (simp add: py_strip_def py_rstrip_def)
qed

lemma py_strip_no_lead: "py_strip s = c # r \<Longrightarrow> \<not> py_isspace c"
proof -
  assume h: "py_strip s = c # r"
  have "py_lstrip s \<noteq> []"
    using h by (auto simp: py_strip_def py_rstrip_def)
  then obtain c' r' where l: "py_lstrip s = c' # r'" by (cases "py_lstrip s") auto
  then have "\<not> py_isspace c'" by (rule py_lstrip_no_space)
  moreover have "c = c'"
    using h py_strip_Cons [OF l] by simp
  ultimately show ?thesis by simp
qed

lemma py_lstrip_fix: "x = [] \<or> \<not> py_isspace (hd x) \<Longrightarrow> py_lstrip x = x"
  by (cases x) (auto simp: py_lstrip_def)

lemma py_rstrip_fix: "x = [] \<or> \<not> py_isspace (last x) \<Longrightarrow> py_rstrip x = x"
  by (cases "rev x") (auto simp: py_rstrip_def hd_rev)

lemma py_strip_no_trail: "py_strip s \<noteq> [] \<Longrightarrow> \<not> py_isspace (last (py_strip s))"
  using hd_dropWhile [of py_isspace "rev (py_lstrip s)"]
  by (simp add: py_strip_def py_rstrip_def last_rev)

lemma py_strip_idem [simp]: "py_strip (py_strip s) = py_strip s"
proof (cases "py_strip s")
  case Nil
  have "py_strip [] = []" by (simp add: py_strip_def py_rstrip_def py_lstrip_def)
  with Nil show ?thesis by simp
next
  case (Cons c r)
  then have "py_lstrip (py_strip s) = py_strip s"
    using py_strip_no_lead [OF Cons] by (simp add: py_lstrip_fix)
  moreover have "py_rstrip (py_strip s) = py_strip s"
    using Cons py_strip_no_trail [of s] by (simp add: py_rstrip_fix)
  ultimately show ?thesis
    by (simp add: py_strip_def [of "py_strip s"])
qed

lemma suffix_dropWhile_self: "suffix (dropWhile P xs) xs"
  unfolding suffix_def by (metis takeWhile_dropWhile_id)

lemma py_lower_length [simp]: "length (py_lower s) = length s"
  by (simp add: py_lower_def)

lemma py_lower_idem [simp]: "py_lower (py_lower s) = py_lower s"
  by (simp add: py_lower_def py_lower_char_def comp_def)

subsection \<open>Lemmas: prefixes and substrings\<close>

lemma py_startswith_prefix [simp]: "py_startswith s p \<longleftrightarrow> prefix p s"
  by (induction s p rule: py_startswith.induct) auto

lemma py_in_sublist: "py_in n h \<longleftrightarrow> sublist n h"
  by (induction n h rule: py_in.induct) (auto simp: sublist_Cons_right)

lemma py_in_mono_left: "py_in n h \<Longrightarrow> sublist h h' \<Longrightarrow> py_in n h'"
  by (meson py_in_sublist sublist_order.order_trans)

subsection \<open>Lemmas: splitting and joining\<close>

lemma py_split_not_Nil [simp]: "py_split d s \<noteq> []"
  by (induction s) (auto split: list.split)

lemma py_join_split [py_simps]: "py_join [d] (py_split d s) = s"
proof (induction s)
  case Nil
  then show ?case by simp
next
  case (Cons c cs)
  show ?case
  proof (cases "c = d")
    case True
    with Cons.IH show ?thesis
      by (cases "py_split d cs") auto
  next
    case False
    then obtain w ws where "py_split d cs = w # ws"
      by (cases "py_split d cs") auto
    with False Cons.IH show ?thesis
      by (cases ws) auto
  qed
qed

lemma py_split_no_sep: "w \<in> set (py_split d s) \<Longrightarrow> d \<notin> set w"
proof (induction s arbitrary: w)
  case Nil
  then show ?case by simp
next
  case (Cons c cs)
  then show ?case
    by (auto split: if_splits list.splits)
qed

lemma py_split_hd_prefix: "py_split d s = w # ws \<Longrightarrow> prefix w s"
proof (induction s arbitrary: w ws)
  case Nil
  then show ?case by simp
next
  case (Cons c cs)
  show ?case
  proof (cases "c = d")
    case True
    with Cons.prems show ?thesis by simp
  next
    case False
    then obtain v vs where v: "py_split d cs = v # vs"
      by (cases "py_split d cs") auto
    with False Cons.prems have "w = c # v" by simp
    moreover have "prefix v cs" using Cons.IH [OF v] .
    ultimately show ?thesis by simp
  qed
qed

lemma py_split_sublist: "w \<in> set (py_split d s) \<Longrightarrow> sublist w s"
proof (induction s arbitrary: w)
  case Nil
  then show ?case by simp
next
  case (Cons c cs)
  show ?case
  proof (cases "c = d")
    case True
    with Cons show ?thesis by (auto intro: sublist_Cons_right [THEN iffD2])
  next
    case False
    then obtain v vs where v: "py_split d cs = v # vs"
      by (cases "py_split d cs") auto
    with False Cons.prems have "w = c # v \<or> w \<in> set vs" by simp
    then show ?thesis
    proof
      assume "w = c # v"
      with py_split_hd_prefix [OF v] show ?thesis
        by (simp add: prefix_imp_sublist)
    next
      assume "w \<in> set vs"
      with v Cons.IH have "sublist w cs" by simp
      then show ?thesis by (simp add: sublist_Cons_right)
    qed
  qed
qed

lemma py_split_no_sep_join: "d \<notin> set s \<Longrightarrow> py_split d s = [s]"
  by (induction s) auto

lemma py_split_append_sep: "d \<notin> set w \<Longrightarrow> py_split d (w @ d # r) = w # py_split d r"
  by (induction w) auto

lemma py_split_join: "ws \<noteq> [] \<Longrightarrow> list_all (\<lambda>w. d \<notin> set w) ws \<Longrightarrow> py_split d (py_join [d] ws) = ws"
  by (induction "[d]" ws rule: py_join.induct) (auto simp: py_split_no_sep_join py_split_append_sep)

lemma py_split_length: "length (py_split d s) = Suc (count_list s d)"
  by (induction s) (auto split: list.split)

subsection \<open>Lemmas: dictionaries\<close>

lemma map_of_py_dict_set [simp]: "map_of (py_dict_set k v d) = (map_of d)(k \<mapsto> v)"
  by (induction d) (auto simp: fun_eq_iff)

lemma keys_py_dict_set:
  "map fst (py_dict_set k v d) = (if k \<in> set (map fst d) then map fst d else map fst d @ [k])"
  by (induction d) (auto simp: image_iff, fastforce)

lemma py_dict_wf_set: "py_dict_wf d \<Longrightarrow> py_dict_wf (py_dict_set k v d)"
  by (simp add: py_dict_wf_def keys_py_dict_set)

lemma set_keys_py_dict_set [simp]: "set (map fst (py_dict_set k v d)) = insert k (set (map fst d))"
  by (auto simp: keys_py_dict_set)

lemma py_dict_set_twice: "py_dict_set k a (py_dict_set k b d) = py_dict_set k a d"
  by (induction d) auto

lemma py_dict_set_new: "k \<notin> set (map fst d) \<Longrightarrow> py_dict_set k v d = d @ [(k, v)]"
  by (induction d) auto

subsection \<open>Lemmas: sorting\<close>

lemma mset_py_sort_reverse [simp]: "mset (py_sort_reverse k xs) = mset xs"
  by (simp add: py_sort_reverse_def)

lemma set_py_sort_reverse [simp]: "set (py_sort_reverse k xs) = set xs"
  by (metis mset_py_sort_reverse set_mset_mset)

lemma py_sort_reverse_desc: "sorted_wrt (\<ge>) (map k (py_sort_reverse k xs))"
proof -
  have "sorted (map k (sort_key k (rev xs)))" by simp
  then show ?thesis
    by (simp add: py_sort_reverse_def rev_map [symmetric] sorted_wrt_rev)
qed

lemma py_sort_reverse_stable:
  "filter (\<lambda>y. k y = v) (py_sort_reverse k xs) = filter (\<lambda>y. k y = v) xs"
proof -
  have "filter (\<lambda>y. k y = v) (sort_key k (rev xs)) = filter (\<lambda>y. k y = v) (rev xs)"
    by (rule sort_key_stable)
  then show ?thesis
    by (simp add: py_sort_reverse_def rev_filter [symmetric])
qed

text \<open>The reverse-sort-reverse implementation is the stable sort on the negated key.\<close>

lemma py_sort_reverse_eq:
  fixes k :: "'a \<Rightarrow> 'k::linordered_ab_group_add"
  shows "py_sort_reverse k xs = sort_key (\<lambda>x. - k x) xs"
proof (rule properties_for_sort_key [symmetric])
  show "mset (py_sort_reverse k xs) = mset xs" by simp
  show "filter (\<lambda>x. - k y = - k x) (py_sort_reverse k xs) = filter (\<lambda>x. - k y = - k x) xs" for y
    using py_sort_reverse_stable [of k "k y" xs] by (simp add: eq_commute)
  have "sorted_wrt (\<ge>) (map k (py_sort_reverse k xs))" by (rule py_sort_reverse_desc)
  then show "sorted (map (\<lambda>x. - k x) (py_sort_reverse k xs))"
    by (simp add: sorted_wrt_map)
qed

text \<open>A stable sort by \<open>f\<close> of a list ordered by \<open>g\<close> is ordered by \<open>f\<close> first and
  \<open>g\<close> second.\<close>

lemma insort_key_lex:
  assumes "sorted_wrt (\<lambda>a b. f a < f b \<or> (f a = f b \<and> g a < g b)) ys"
    and "\<forall>y \<in> set ys. g x < g y"
  shows "sorted_wrt (\<lambda>a b. f a < f b \<or> (f a = f b \<and> g a < g b)) (insort_key f x ys)"
  using assms
proof (induction ys)
  case Nil
  then show ?case by simp
next
  case (Cons y ys)
  show ?case
  proof (cases "f x \<le> f y")
    case True
    have "f y \<le> f z" if "z \<in> set ys" for z
      using Cons.prems(1) that by auto
    with True Cons.prems show ?thesis by force
  next
    case False
    with Cons show ?thesis by (auto simp: set_insort_key)
  qed
qed

lemma sort_key_lex:
  "sorted_wrt (\<lambda>a b. g a < g b) xs \<Longrightarrow>
   sorted_wrt (\<lambda>a b. f a < f b \<or> (f a = f b \<and> g a < g b)) (sort_key f xs)"
  by (induction xs) (simp_all add: insort_key_lex)

lemma find_append_case:
  "find P (xs @ ys) = (case find P xs of None \<Rightarrow> find P ys | Some x \<Rightarrow> Some x)"
  by (induction xs) simp_all


lemma find_Some_set: "find P xs = Some x \<Longrightarrow> x \<in> set xs"
  by (induction xs) (auto split: if_splits)

end
