(* ===== verification/Section_Extractor.thy ===== *)
theory Section_Extractor
  imports Prelude
begin

text \<open>
  The line-oriented extractors of \<open>ContextParser\<close> in \<open>src/docs/rules/scripts/sync.py\<close>:
  the section trigger patterns of \<open>__init__\<close>, the section scanner
  \<open>_extract_section_items\<close> (a two-field state machine run over the document's lines),
  the list-item regular expressions it applies, \<open>_extract_inline_rules\<close> and
  \<open>_extract_purpose\<close>.  Each regular expression is translated into the predicate or the
  rewrite it computes under Python's backtracking semantics, written next to it.
\<close>

subsection \<open>Section trigger patterns\<close>

text \<open>
  \<open>self.section_patterns\<close>: each pattern is an alternation of words followed by a colon,
  compiled with \<open>re.I\<close> and used with \<open>search\<close>.  Its alternatives are listed
  literally (\<open>rules?\<close> is \<open>rule\<close> or \<open>rules\<close>), so a search is: one of them occurs
  in the lower-cased line.
\<close>

definition section_patterns :: "(pystr \<times> pystr list) list" where
  "section_patterns =
    [(pys ''purpose'', map pys [''purpose:'', ''overview:'', ''about:'', ''description:'']),
     (pys ''rules'', map pys [''rule:'', ''rules:'', ''requirement:'', ''requirements:'',
                              ''constraint:'', ''constraints:'']),
     (pys ''workflow'', map pys [''workflow:'', ''process:'', ''procedure:'', ''procedures:'']),
     (pys ''structure'', map pys [''structure:'', ''organization:'', ''layout:'']),
     (pys ''never'', map pys [''never:'', ''don't:'', ''avoid:'', ''prohibited:'']),
     (pys ''always'', map pys [''always:'', ''must:'', ''required:'', ''mandatory:'']),
     (pys ''tech'', map pys [''tech:'', ''technology:'', ''technologies:'', ''stack:'',
                             ''tool:'', ''tools:''])]"

definition pattern_search :: "pystr list \<Rightarrow> pystr \<Rightarrow> bool" where
  "pattern_search alts line = list_ex (\<lambda>a. py_in a (py_lower line)) alts"

subsection \<open>List items\<close>

text \<open>
  The common tail \<open>\s+(.+)\<close> of the item and inline-rule patterns: at least one space,
  then at least one character that is not a newline (\<open>.\<close> without \<open>DOTALL\<close>).
  Backtracking may hand spaces of the run to \<open>.+\<close>, so the tail matches as soon as some
  character after the first space is not a newline.
\<close>

fun re_ws_plus_dot :: "pystr \<Rightarrow> bool" where
  "re_ws_plus_dot (c # d # r) = (py_isspace c \<and> (if d = 10 then re_ws_plus_dot (d # r) else True))"
| "re_ws_plus_dot _ = False"

text \<open>The bullet class \<open>[-*+\<bullet>]\<close>: hyphen, asterisk, plus and U+2022.\<close>

definition bullet_marker :: "pychar \<Rightarrow> bool" where
  "bullet_marker c \<longleftrightarrow> c = 45 \<or> c = 42 \<or> c = 43 \<or> c = 8226"

text \<open>\<open>re.match(r'^\s*[-*+\<bullet>]\s+(.+)', line)\<close>: the first non-space character is a
  marker, followed by the tail.\<close>

definition bullet_match :: "pystr \<Rightarrow> bool" where
  "bullet_match line =
     (case py_lstrip line of [] \<Rightarrow> False | m # r \<Rightarrow> bullet_marker m \<and> re_ws_plus_dot r)"

text \<open>\<open>re.sub(r'^\s*[-*+\<bullet>]\s+', '', line)\<close>: the anchored prefix (greedy, so every
  space after the marker) is removed when it is there; otherwise the line is unchanged.\<close>

definition bullet_sub :: "pystr \<Rightarrow> pystr" where
  "bullet_sub line =
     (case py_lstrip line of
        m # c # r \<Rightarrow> if bullet_marker m \<and> py_isspace c then dropWhile py_isspace r else line
      | _ \<Rightarrow> line)"

text \<open>\<open>re.match(r'^\s*\d+\.\s+(.+)', line)\<close> and the matching \<open>re.sub\<close>.\<close>

definition numbered_match :: "pystr \<Rightarrow> bool" where
  "numbered_match line =
     (let t = py_lstrip line; r = dropWhile re_digit t in
      takeWhile re_digit t \<noteq> [] \<and>
      (case r of [] \<Rightarrow> False | c # r' \<Rightarrow> c = 46 \<and> re_ws_plus_dot r'))"

definition numbered_sub :: "pystr \<Rightarrow> pystr" where
  "numbered_sub line =
     (let t = py_lstrip line; r = dropWhile re_digit t in
      if takeWhile re_digit t = [] then line
      else (case r of
              c # d # r' \<Rightarrow> if c = 46 \<and> py_isspace d then dropWhile py_isspace r' else line
            | _ \<Rightarrow> line))"

text \<open>The item a list line contributes before the \<open>if item:\<close> test: the bullet branch
  first, the numbered branch only when the bullet pattern does not match (\<open>elif\<close>).\<close>

definition list_item :: "pystr \<Rightarrow> pystr option" where
  "list_item line =
     (if bullet_match line then Some (py_strip (bullet_sub line))
      else if numbered_match line then Some (py_strip (numbered_sub line))
      else None)"

subsection \<open>The section scanner\<close>

text \<open>
  The loop of \<open>_extract_section_items\<close> keeps \<open>in_section\<close> and \<open>items\<close>.  One
  iteration: a line matching the trigger opens the section and is skipped
  (\<open>continue\<close>); inside a section a line whose stripped form starts with \<open>#\<close> closes it;
  any other line inside contributes its list item when the item is not empty.
\<close>

text \<open>\<open>line.strip().startswith('#')\<close>: the heading test that ends a section.\<close>

definition is_heading :: "pystr \<Rightarrow> bool" where
  "is_heading line \<longleftrightarrow> py_startswith (py_strip line) (pys ''#'')"

record section_scan =
  in_section :: bool
  items :: "pystr list"

definition section_step :: "pystr list \<Rightarrow> section_scan \<Rightarrow> pystr \<Rightarrow> section_scan" where
  "section_step pat st line =
     (if pattern_search pat line then st\<lparr>in_section := True\<rparr>
      else if in_section st then
        (if is_heading line then st\<lparr>in_section := False\<rparr>
         else (case list_item line of
                 Some item \<Rightarrow> if item \<noteq> [] then st\<lparr>items := items st @ [item]\<rparr> else st
               | None \<Rightarrow> st))
      else st)"

definition section_start :: section_scan where
  "section_start = \<lparr>in_section = False, items = []\<rparr>"

text \<open>\<open>self.section_patterns.get(section_type)\<close> is \<open>None\<close> for an unknown section
  type, and the method returns the empty list.\<close>

definition extract_section_items :: "pystr \<Rightarrow> pystr \<Rightarrow> pystr list" where
  "extract_section_items content section_type =
     (case map_of section_patterns section_type of
        None \<Rightarrow> []
      | Some pat \<Rightarrow> items (foldl (section_step pat) section_start (py_split 10 content)))"

subsection \<open>Inline rules\<close>

text \<open>
  \<open>(MUST|NEVER|ALWAYS|REQUIRED|PROHIBITED|CRITICAL)[:]*\s+(.+)\<close> with \<open>re.I\<close>, used
  with \<open>search\<close>: at some position one of the words starts (in any case), then any
  number of colons, then the tail.  A colon is not a space, so the colon run is taken
  whole.
\<close>

definition imperative_keywords :: "pystr list" where
  "imperative_keywords =
     map pys [''must'', ''never'', ''always'', ''required'', ''prohibited'', ''critical'']"

definition imperative_at :: "pystr \<Rightarrow> bool" where
  "imperative_at s =
     list_ex (\<lambda>kw. py_startswith (py_lower s) kw \<and>
                   re_ws_plus_dot (dropWhile (\<lambda>c. c = 58) (drop (length kw) s)))
       imperative_keywords"

fun imperative_search :: "pystr \<Rightarrow> bool" where
  "imperative_search [] = False"
| "imperative_search (c # cs) = (imperative_at (c # cs) \<or> imperative_search cs)"

text \<open>The loop appends \<open>line.strip()\<close> for every matching line, in document order.\<close>

definition extract_inline_rules :: "pystr \<Rightarrow> pystr list" where
  "extract_inline_rules content = map py_strip (filter imperative_search (py_split 10 content))"

subsection \<open>Purpose\<close>

text \<open>
  \<open>_extract_purpose\<close>: over the first 20 lines, every line that is not blank and does not
  start with \<open>#\<close> (unstripped: an indented heading counts) contributes its stripped
  form; the loop breaks as soon as three lines are collected.
\<close>

definition purpose_line :: "pystr \<Rightarrow> bool" where
  "purpose_line line \<longleftrightarrow> py_strip line \<noteq> [] \<and> \<not> py_startswith line (pys ''#'')"

fun purpose_loop :: "pystr list \<Rightarrow> pystr list \<Rightarrow> pystr list" where
  "purpose_loop acc [] = acc"
| "purpose_loop acc (line # ls) =
     (let acc' = (if purpose_line line then acc @ [py_strip line] else acc) in
      if 3 \<le> length acc' then acc' else purpose_loop acc' ls)"

definition extract_purpose :: "pystr list \<Rightarrow> pystr" where
  "extract_purpose lines = py_join (pys '' '') (purpose_loop [] (take 20 lines))"

(* ------------------------------------------------------------------------ *)

subsection \<open>The items a line contributes\<close>

text \<open>What one line inside an open section adds to \<open>items\<close>.\<close>

definition line_contrib :: "pystr \<Rightarrow> pystr list" where
  "line_contrib line =
     (case list_item line of Some item \<Rightarrow> if item \<noteq> [] then [item] else [] | None \<Rightarrow> [])"

lemmas section_eval = section_patterns_def pattern_search_def list_item_def bullet_match_def
  bullet_sub_def numbered_match_def numbered_sub_def is_heading_def line_contrib_def
  section_start_def section_step_def bullet_marker_def imperative_at_def imperative_keywords_def
  purpose_line_def

lemma section_step_eq:
  "section_step pat st line =
     (if pattern_search pat line then st\<lparr>in_section := True\<rparr>
      else if in_section st then
        (if is_heading line then st\<lparr>in_section := False\<rparr>
         else st\<lparr>items := items st @ line_contrib line\<rparr>)
      else st)"
  by (simp add: section_step_def line_contrib_def split: option.split)

lemma suffix_py_lstrip: "suffix (py_lstrip s) s"
  by (simp add: py_lstrip_def suffix_dropWhile_self)

lemma suffix_bullet_sub: "suffix (bullet_sub line) line"
proof -
  have "suffix (dropWhile py_isspace r) line" if "py_lstrip line = m # c # r" for m c r
  proof -
    have "suffix r (py_lstrip line)" using that by (simp add: suffix_def)
    then show ?thesis
      using suffix_dropWhile_self suffix_py_lstrip by (metis suffix_order.order_trans)
  qed
  then show ?thesis
    by (auto simp: bullet_sub_def split: list.split)
qed

lemma suffix_numbered_sub: "suffix (numbered_sub line) line"
proof -
  have "suffix (dropWhile py_isspace r') line"
    if "dropWhile re_digit (py_lstrip line) = c # d # r'" for c d r'
  proof -
    have "suffix r' (dropWhile re_digit (py_lstrip line))" using that by (simp add: suffix_def)
    then show ?thesis
      using suffix_dropWhile_self suffix_py_lstrip by (metis suffix_order.order_trans)
  qed
  then show ?thesis
    by (auto simp: numbered_sub_def Let_def split: list.split)
qed

lemma list_item_shape:
  assumes "list_item line = Some item"
  shows "py_strip item = item \<and> sublist item line"
proof -
  obtain t where t: "item = py_strip t" and "suffix t line"
    using assms suffix_bullet_sub suffix_numbered_sub
    by (auto simp: list_item_def split: if_splits)
  then show ?thesis
    by (meson py_strip_idem py_strip_sublist suffix_imp_sublist sublist_order.order_trans)
qed

lemma line_contrib_shape:
  "item \<in> set (line_contrib line) \<Longrightarrow> item \<noteq> [] \<and> py_strip item = item \<and> sublist item line"
  using list_item_shape by (auto simp: line_contrib_def split: option.splits if_splits)

subsection \<open>Runs of the scanner\<close>

lemma scan_items_subset:
  "set (items (foldl (section_step pat) st ls))
     \<subseteq> set (items st) \<union> (\<Union>l \<in> set ls. set (line_contrib l))"
proof (induction ls arbitrary: st)
  case Nil
  then show ?case by simp
next
  case (Cons l ls)
  have "set (items (section_step pat st l)) \<subseteq> set (items st) \<union> set (line_contrib l)"
    by (auto simp: section_step_eq)
  with Cons.IH [of "section_step pat st l"] show ?case by auto
qed

lemma scan_inside:
  "in_section st \<Longrightarrow> list_all (\<lambda>l. \<not> pattern_search pat l \<and> \<not> is_heading l) ls \<Longrightarrow>
   foldl (section_step pat) st ls = st\<lparr>items := items st @ concat (map line_contrib ls)\<rparr>"
  by (induction ls arbitrary: st) (simp_all add: section_step_eq)

lemma scan_outside:
  "\<not> in_section st \<Longrightarrow> list_all (\<lambda>l. \<not> pattern_search pat l) ls \<Longrightarrow>
   foldl (section_step pat) st ls = st"
  by (induction ls arbitrary: st) (simp_all add: section_step_eq)

lemma scan_open_close:
  assumes "pattern_search pat t"
    and "list_all (\<lambda>l. \<not> pattern_search pat l \<and> \<not> is_heading l) body"
    and "\<not> pattern_search pat h" and "is_heading h"
  shows "foldl (section_step pat) st (t # body @ [h]) =
           st\<lparr>in_section := False, items := items st @ concat (map line_contrib body)\<rparr>"
proof -
  have "foldl (section_step pat) st [t] = st\<lparr>in_section := True\<rparr>"
    using assms(1) by (simp add: section_step_eq)
  then have "foldl (section_step pat) st (t # body) =
               st\<lparr>in_section := True, items := items st @ concat (map line_contrib body)\<rparr>"
    using scan_inside [of "st\<lparr>in_section := True\<rparr>" pat body] assms(2) by simp
  then show ?thesis
    using assms(3,4) by (simp add: section_step_eq)
qed

subsection \<open>Loop of the purpose extractor\<close>

lemma purpose_loop_take:
  "length acc < 3 \<Longrightarrow> purpose_loop acc ls = take 3 (acc @ map py_strip (filter purpose_line ls))"
proof (induction ls arbitrary: acc)
  case Nil
  then show ?case by simp
next
  case (Cons l ls)
  show ?case
  proof (cases "purpose_line l")
    case True
    show ?thesis
    proof (cases "3 \<le> Suc (length acc)")
      case True
      with Cons.prems have "length acc = 2" by simp
      with \<open>purpose_line l\<close> show ?thesis by simp
    next
      case False
      with \<open>purpose_line l\<close> Cons.IH [of "acc @ [py_strip l]"] show ?thesis by simp
    qed
  next
    case False
    with Cons show ?thesis by simp
  qed
qed

lemma section_item_line:
  "item \<in> set (extract_section_items content ty) \<Longrightarrow>
     \<exists>l \<in> set (py_split 10 content). item \<in> set (line_contrib l)"
proof (cases "map_of section_patterns ty")
  case (Some pat)
  assume "item \<in> set (extract_section_items content ty)"
  with Some scan_items_subset [of pat section_start "py_split 10 content"] show ?thesis
    by (auto simp: extract_section_items_def section_start_def)
qed (simp add: extract_section_items_def)

(* ------------------------------------------------------------------------ *)

subsection \<open>Properties of the extractors\<close>

text \<open>
  C6. A section is the list lines between its trigger line and the next heading: for a
  document made of lines without a trigger, a trigger line, list lines that are neither
  triggers nor headings, a heading, and trigger-free lines, the scanner returns exactly
  the non-empty items of the list lines between the trigger and the heading, in document
  order, and nothing from the lines after the heading.
\<close>

theorem extract_section_block:
  assumes pat: "map_of section_patterns ty = Some pat"
    and pre: "list_all (\<lambda>l. \<not> pattern_search pat l) pre"
    and trig: "pattern_search pat t"
    and body: "list_all (\<lambda>l. \<not> pattern_search pat l \<and> \<not> is_heading l) body"
    and head: "\<not> pattern_search pat h \<and> is_heading h"
    and rest: "list_all (\<lambda>l. \<not> pattern_search pat l) rest"
    and lines: "list_all (\<lambda>l. 10 \<notin> set l) (pre @ t # body @ h # rest)"
  shows "extract_section_items (py_join [10] (pre @ t # body @ h # rest)) ty =
           concat (map line_contrib body)"
proof -
  let ?step = "section_step pat"
  have split: "py_split 10 (py_join [10] (pre @ t # body @ h # rest)) = pre @ t # body @ h # rest"
    using lines by (simp add: py_split_join)
  have s1: "foldl ?step section_start pre = section_start"
    using pre by (simp add: scan_outside section_start_def)
  have s2: "foldl ?step section_start (t # body @ [h]) =
              section_start\<lparr>items := concat (map line_contrib body)\<rparr>"
    using scan_open_close [OF trig body] head by (simp add: section_start_def)
  have s3: "foldl ?step (section_start\<lparr>items := concat (map line_contrib body)\<rparr>) rest =
              section_start\<lparr>items := concat (map line_contrib body)\<rparr>"
    using rest by (simp add: scan_outside section_start_def)
  have "pre @ t # body @ h # rest = pre @ (t # body @ [h]) @ rest" by simp
  then have "foldl ?step section_start (pre @ t # body @ h # rest) =
               section_start\<lparr>items := concat (map line_contrib body)\<rparr>"
    using s1 s2 s3 by (simp only: foldl_append)
  then show ?thesis
    using pat split by (simp add: extract_section_items_def)
qed

theorem extract_section_block_witness:
  "extract_section_items
     (py_join [10] (map pys [''Rules:'', ''- a'', ''- b'', ''- c'', ''# Next'', ''- d'']))
     (pys ''rules'') = [pys ''a'', pys ''b'', pys ''c'']"
  using extract_section_block [of "pys ''rules''" "the (map_of section_patterns (pys ''rules''))"
     "[]" "pys ''Rules:''" "map pys [''- a'', ''- b'', ''- c'']" "pys ''# Next''" "[pys ''- d'']"]
  by (simp add: section_eval py_simps)

text \<open>
  C7. Every extracted section item is non-empty, already stripped, and occurs verbatim in
  the document.
\<close>

theorem extract_section_items_shape:
  assumes "item \<in> set (extract_section_items content ty)"
  shows "item \<noteq> [] \<and> py_strip item = item \<and> sublist item content"
proof -
  obtain l where l: "l \<in> set (py_split 10 content)" and i: "item \<in> set (line_contrib l)"
    using section_item_line [OF assms] by blast
  from line_contrib_shape [OF i] py_split_sublist [OF l] show ?thesis
    by (meson sublist_order.order_trans)
qed

theorem extract_section_items_shape_witness:
  "pys ''b'' \<noteq> [] \<and> py_strip (pys ''b'') = pys ''b'' \<and>
   sublist (pys ''b'') (pys ''Rules:\<newline>- a\<newline>- b'')"
  using extract_section_items_shape
      [of "pys ''b''" "pys ''Rules:\<newline>- a\<newline>- b''" "pys ''rules''"]
  by (simp add: section_eval py_simps extract_section_items_def)

text \<open>
  C14. The purpose loop with its early \<open>break\<close> computes the first three stripped
  non-blank, non-heading lines among the first twenty, joined by spaces.
\<close>

theorem extract_purpose_spec:
  "extract_purpose lines =
     py_join (pys '' '') (take 3 (map py_strip (filter purpose_line (take 20 lines))))"
  by (simp add: extract_purpose_def purpose_loop_take)

text \<open>
  A single line carrying an imperative keyword followed by text is captured whole:
  \<open>_extract_inline_rules\<close> of that line is the line itself, stripped, once.
\<close>

theorem extract_inline_rules_line:
  "10 \<notin> set s \<Longrightarrow> imperative_search s \<Longrightarrow> extract_inline_rules s = [py_strip s]"
  by (simp add: extract_inline_rules_def py_split_no_sep_join)

theorem extract_inline_rules_line_witness:
  "extract_inline_rules (pys ''MUST: use feature branches'') = [pys ''MUST: use feature branches'']"
  using extract_inline_rules_line [of "pys ''MUST: use feature branches''"]
  by (simp add: section_eval py_simps)

text \<open>
  Finding: a list item that itself contains a trigger of its own section (for an
  always-section, "required:" or "must:") matches the trigger pattern, reopens the
  section and is skipped by \<open>continue\<close>: the item is lost.
\<close>

theorem trigger_item_dropped:
  "extract_section_items (pys ''Always:\<newline>- Required: run tests\<newline>- Use feature branches'')
     (pys ''always'') = [pys ''Use feature branches'']"
  by (simp add: extract_section_items_def section_eval py_simps)

end
