(* ===== verification/Structure_Extractor.thy ===== *)
theory Structure_Extractor
  imports Prelude
begin

text \<open>
  \<open>ContextParser._extract_structure\<close> of \<open>src/docs/rules/scripts/sync.py\<close>: the
  fenced code blocks of the document are found with
  \<open>re.findall(r'```(?:bash|text|tree)?\n(.*?)\n```', content, re.DOTALL)\<close>; every block
  that contains a tree glyph is split into lines, and in each line
  \<open>re.search(r'[B]\s*[D]+\s*(\w+)/?', line)\<close> (\<open>B\<close> the branch class, \<open>D\<close> the dash class below) names a directory,
  recorded in a dictionary with the value \<open>"directory"\<close>.  The box-drawing characters
  are U+251C (9500), U+2514 (9492) and U+2500 (9472); the branch class holds U+251C, U+2514
  and the vertical bar (124); the dash class holds the hyphen
  (45), the en dash U+2013 (8211) and the em dash U+2014 (8212).
\<close>

subsection \<open>Fenced code blocks\<close>

definition fence :: pystr where
  "fence = [96, 96, 96]"

text \<open>The lazy body \<open>(.*?)\<close> followed by \<open>\n```\<close>: the shortest body after which
  the closing fence follows; the result is the body and the text after the fence.\<close>

fun find_close :: "pystr \<Rightarrow> (pystr \<times> pystr) option" where
  "find_close [] = None"
| "find_close (c # cs) =
     (if py_startswith (c # cs) (10 # fence) then Some ([], drop 4 (c # cs))
      else map_option (\<lambda>(g, r). (c # g, r)) (find_close cs))"

definition code_langs :: "pystr list" where
  "code_langs = map pys [''bash'', ''text'', ''tree'']"

text \<open>The optional group \<open>(?:bash|text|tree)?\<close> is tried first.  When it matches, the
  text after it starts with a letter, so falling back to the empty alternative (which
  needs a newline right after the fence) cannot succeed; the match at this position then
  stands or falls with the group.\<close>

definition lang_rest :: "pystr \<Rightarrow> pystr" where
  "lang_rest r =
     (case filter (py_startswith r) code_langs of [] \<Rightarrow> r | l # _ \<Rightarrow> drop (length l) r)"

definition fence_match :: "pystr \<Rightarrow> (pystr \<times> pystr) option" where
  "fence_match s =
     (if py_startswith s fence then
        (case lang_rest (drop 3 s) of
           c # body \<Rightarrow> if c = 10 then find_close body else None
         | [] \<Rightarrow> None)
      else None)"

text \<open>\<open>re.findall\<close>: scan left to right; after a match continue behind it, otherwise one
  character further.  A match is never empty, so the text shrinks in every call.\<close>

function findall_blocks :: "pystr \<Rightarrow> pystr list" where
  "findall_blocks [] = []"
| "findall_blocks (c # cs) =
     (case fence_match (c # cs) of
        Some (g, r) \<Rightarrow> g # findall_blocks r
      | None \<Rightarrow> findall_blocks cs)"
  by pat_completeness auto
termination
proof (relation "measure length")
  have close: "find_close s = Some (g, r) \<Longrightarrow> length r < length s" for s g r
    by (induction s arbitrary: g) (auto split: if_splits)
  have lang: "length (lang_rest r) \<le> length r" for r
    by (simp add: lang_rest_def split: list.split)
  fix c cs x g r
  assume m: "fence_match (c # cs) = Some x" and x: "(g, r) = x"
  then obtain d body where "lang_rest (drop 3 (c # cs)) = d # body" and "find_close body = Some (g, r)"
    by (auto simp: fence_match_def split: if_splits list.splits)
  then have "length r < length body" and "length body < length (drop 3 (c # cs))"
    using close lang [of "drop 3 (c # cs)"] by fastforce+
  then show "(r, c # cs) \<in> measure length" by simp
qed simp_all

subsection \<open>Tree lines\<close>

definition tree_glyphs :: "pystr list" where
  "tree_glyphs = [[9500, 9472, 9472], [9492, 9472, 9472], pys ''|--'']"

definition has_tree_glyph :: "pystr \<Rightarrow> bool" where
  "has_tree_glyph m = list_ex (\<lambda>g. py_in g m) tree_glyphs"

definition tree_branch :: "pychar \<Rightarrow> bool" where
  "tree_branch c \<longleftrightarrow> c = 9500 \<or> c = 9492 \<or> c = 124"

definition tree_dash :: "pychar \<Rightarrow> bool" where
  "tree_dash c \<longleftrightarrow> c = 45 \<or> c = 8211 \<or> c = 8212"

text \<open>The pattern at one position.  Spaces, dashes and word characters are disjoint
  classes, so every quantifier takes its whole run and no backtracking changes the
  outcome; the group \<open>(\w+)\<close> is the whole run of word characters.\<close>

definition tree_entry_at :: "pystr \<Rightarrow> pystr option" where
  "tree_entry_at s =
     (case s of
        [] \<Rightarrow> None
      | c # r \<Rightarrow>
          if tree_branch c then
            (let r1 = dropWhile py_isspace r in
             if takeWhile tree_dash r1 = [] then None
             else (let w = takeWhile re_word (dropWhile py_isspace (dropWhile tree_dash r1)) in
                   if w = [] then None else Some w))
          else None)"

fun tree_entry_search :: "pystr \<Rightarrow> pystr option" where
  "tree_entry_search [] = None"
| "tree_entry_search (c # cs) =
     (case tree_entry_at (c # cs) of Some w \<Rightarrow> Some w | None \<Rightarrow> tree_entry_search cs)"

text \<open>The two loops: over the blocks, and over the lines of a block with a glyph.\<close>

definition structure_line :: "(pystr, pystr) pydict \<Rightarrow> pystr \<Rightarrow> (pystr, pystr) pydict" where
  "structure_line d line =
     (case tree_entry_search line of
        Some dir_name \<Rightarrow> py_dict_set dir_name (pys ''directory'') d
      | None \<Rightarrow> d)"

definition structure_block :: "(pystr, pystr) pydict \<Rightarrow> pystr \<Rightarrow> (pystr, pystr) pydict" where
  "structure_block d m =
     (if has_tree_glyph m then foldl structure_line d (py_split 10 m) else d)"

definition extract_structure :: "pystr \<Rightarrow> (pystr, pystr) pydict" where
  "extract_structure content = foldl structure_block [] (findall_blocks content)"

text \<open>What the dictionary satisfies: its keys are distinct, every value is
  \<open>"directory"\<close>, every key is a non-empty run of word characters taken from the
  document.\<close>

definition structure_ok :: "pystr \<Rightarrow> (pystr, pystr) pydict \<Rightarrow> bool" where
  "structure_ok content d \<longleftrightarrow>
     py_dict_wf d \<and>
     list_all (\<lambda>(k, v). v = pys ''directory'' \<and> k \<noteq> [] \<and> list_all re_word k \<and> sublist k content) d"

(* ------------------------------------------------------------------------ *)

subsection \<open>Fenced blocks: shape of a match\<close>

lemmas structure_eval = fence_def fence_match_def lang_rest_def code_langs_def tree_glyphs_def
  has_tree_glyph_def tree_branch_def tree_dash_def tree_entry_at_def structure_line_def
  structure_block_def extract_structure_def

lemma find_close_Some: "find_close s = Some (g, r) \<Longrightarrow> s = g @ 10 # fence @ r"
proof (induction s arbitrary: g)
  case Nil
  then show ?case by simp
next
  case (Cons c cs)
  show ?case
  proof (cases "prefix (10 # fence) (c # cs)")
    case True
    with Cons.prems show ?thesis by (auto simp: prefix_def fence_def)
  next
    case False
    with Cons.prems obtain g' where "find_close cs = Some (g', r)" and "g = c # g'"
      by auto
    with Cons.IH show ?thesis by simp
  qed
qed

lemma fence_no_overlap:
  "\<not> sublist (10 # fence) (c # g) \<Longrightarrow> \<not> prefix (10 # fence) (c # g @ 10 # fence @ r)"
  apply (cases g rule: list.exhaust; simp add: fence_def)
  apply (rename_tac a g1, case_tac g1; simp)
  apply (rename_tac b g2, case_tac g2; simp)
  apply (auto simp: sublist_Cons_right)
  done

lemma find_close_first:
  "\<not> sublist (10 # fence) g \<Longrightarrow> find_close (g @ 10 # fence @ r) = Some (g, r)"
proof (induction g)
  case Nil
  then show ?case by (simp add: fence_def)
next
  case (Cons c g)
  then have "\<not> sublist (10 # fence) g" by (auto simp: sublist_Cons_right)
  with Cons.IH fence_no_overlap [OF Cons.prems, of r] show ?case by simp
qed
lemma fence_match_Some:
  assumes "fence_match s = Some (g, r)"
  shows "sublist g s \<and> suffix r s"
proof -
  have ne: "py_startswith s fence" using assms by (simp add: fence_match_def split: if_splits)
  then obtain d body where l: "lang_rest (drop 3 s) = d # body" and c: "find_close body = Some (g, r)"
    using assms by (auto simp: fence_match_def split: list.splits if_splits)
  have "suffix (lang_rest t) t" for t
    by (auto simp: lang_rest_def suffix_drop split: list.split)
  then have "suffix (d # body) (drop 3 s)" using l by metis
  then have sb: "suffix body s"
    by (meson suffix_ConsD suffix_drop suffix_order.order_trans)
  have "body = g @ 10 # fence @ r" using c by (rule find_close_Some)
  then have "sublist g body \<and> suffix r body" by (auto simp: suffix_def)
  with sb show ?thesis
    by (meson suffix_imp_sublist sublist_order.order_trans suffix_order.order_trans)
qed

lemma findall_blocks_sublist: "g \<in> set (findall_blocks s) \<Longrightarrow> sublist g s"
proof (induction s rule: findall_blocks.induct)
  case 1
  then show ?case by simp
next
  case (2 c cs)
  show ?case
  proof (cases "fence_match (c # cs)")
    case None
    with "2.IH"(1) "2.prems" show ?thesis by (simp add: sublist_Cons_right)
  next
    case (Some m)
    obtain g' r where m: "m = (g', r)" by (cases m)
    with Some "2.prems" have "g = g' \<or> g \<in> set (findall_blocks r)" by simp
    moreover have "sublist g' (c # cs) \<and> suffix r (c # cs)"
      using Some m fence_match_Some by simp
    moreover have "g \<in> set (findall_blocks r) \<Longrightarrow> sublist g r"
      using "2.IH"(2) Some m by simp
    ultimately show ?thesis
      by (meson suffix_imp_sublist sublist_order.order_trans)
  qed
qed

subsection \<open>Tree lines: shape of an entry\<close>

lemma tree_entry_at_Some:
  assumes "tree_entry_at s = Some w"
  shows "w \<noteq> [] \<and> list_all re_word w \<and> sublist w s \<and> list_ex tree_dash s"
proof -
  obtain c r where s: "s = c # r" using assms by (cases s) (auto simp: tree_entry_at_def)
  let ?r1 = "dropWhile py_isspace r"
  have dash: "takeWhile tree_dash ?r1 \<noteq> []"
    and w: "w = takeWhile re_word (dropWhile py_isspace (dropWhile tree_dash ?r1))" and "w \<noteq> []"
    using assms s by (auto simp: tree_entry_at_def Let_def split: if_splits)
  have "suffix (dropWhile py_isspace (dropWhile tree_dash ?r1)) r"
    by (meson suffix_dropWhile_self suffix_order.order_trans)
  then have "sublist w r"
    using w takeWhile_is_prefix by (metis prefix_imp_sublist suffix_imp_sublist sublist_order.order_trans)
  moreover have "list_ex tree_dash r"
  proof -
    obtain x xs where "takeWhile tree_dash ?r1 = x # xs"
      using dash by (cases "takeWhile tree_dash ?r1") auto
    then have "x \<in> set (takeWhile tree_dash ?r1)" by simp
    then have "x \<in> set r \<and> tree_dash x"
      by (auto dest: set_takeWhileD set_dropWhileD)
    then show ?thesis by (auto simp: list_ex_iff)
  qed
  moreover have "list_all re_word w"
    using w by (auto simp: list_all_iff dest: set_takeWhileD)
  ultimately show ?thesis
    using \<open>w \<noteq> []\<close> s by (simp add: sublist_Cons_right)
qed

lemma tree_entry_search_Some:
  "tree_entry_search s = Some w \<Longrightarrow> w \<noteq> [] \<and> list_all re_word w \<and> sublist w s \<and> list_ex tree_dash s"
proof (induction s)
  case Nil
  then show ?case by simp
next
  case (Cons c cs)
  show ?case
  proof (cases "tree_entry_at (c # cs)")
    case (Some w')
    with Cons.prems tree_entry_at_Some [OF Some] show ?thesis by simp
  next
    case None
    with Cons.prems Cons.IH show ?thesis by (auto simp: sublist_Cons_right)
  qed
qed

lemma foldl_fixed: "(\<And>x. x \<in> set xs \<Longrightarrow> f a x = a) \<Longrightarrow> foldl f a xs = a"
  by (induction xs) auto

lemma structure_line_ok:
  assumes "structure_ok c d" and "sublist line c"
  shows "structure_ok c (structure_line d line)"
proof (cases "tree_entry_search line")
  case None
  with assms show ?thesis by (simp add: structure_line_def)
next
  case (Some w)
  then have "w \<noteq> [] \<and> list_all re_word w \<and> sublist w line"
    by (simp add: tree_entry_search_Some)
  then have "w \<noteq> [] \<and> list_all re_word w \<and> sublist w c"
    using assms(2) by (meson sublist_order.order_trans)
  moreover have "list_all P (py_dict_set k v d)" if "list_all P d" "P (k, v)" for P k v
    using that by (induction d) auto
  ultimately show ?thesis
    using assms(1) Some by (simp add: structure_line_def structure_ok_def py_dict_wf_set)
qed

lemma structure_block_ok:
  assumes "structure_ok c d" and "sublist m c"
  shows "structure_ok c (structure_block d m)"
proof -
  have "structure_ok c (foldl structure_line d ls)"
    if "structure_ok c d" "\<forall>l \<in> set ls. sublist l c" for d ls
    using that by (induction ls arbitrary: d) (simp_all add: structure_line_ok)
  moreover have "\<forall>l \<in> set (py_split 10 m). sublist l c"
    using assms(2) py_split_sublist by (meson sublist_order.order_trans)
  ultimately show ?thesis
    using assms(1) by (simp add: structure_block_def)
qed

lemma no_dash_no_entry: "\<not> list_ex tree_dash c \<Longrightarrow> sublist l c \<Longrightarrow> tree_entry_search l = None"
  using tree_entry_search_Some
  by (metis list_ex_iff not_None_eq set_mono_sublist subsetD)

lemma structure_fold_ok:
  "structure_ok content d \<Longrightarrow> \<forall>m \<in> set bs. sublist m content \<Longrightarrow>
     structure_ok content (foldl structure_block d bs)"
  by (induction bs arbitrary: d) (simp_all add: structure_block_ok)

lemma structure_ok_empty: "structure_ok content []"
  by (simp add: structure_ok_def py_dict_wf_def)

(* ------------------------------------------------------------------------ *)

subsection \<open>Properties of the structure extractor\<close>

text \<open>
  C15. The structure mapping is a well-formed dictionary: distinct keys, each a non-empty
  word taken from the document, each mapped to \<open>"directory"\<close>.
\<close>

theorem extract_structure_ok: "structure_ok content (extract_structure content)"
  using structure_fold_ok [OF structure_ok_empty] findall_blocks_sublist
  by (simp add: extract_structure_def)

text \<open>
  A fenced block printed with a bare opening fence is read back: a document that is
  exactly one block whose body contains no closing fence yields that body as its only
  code block.
\<close>

theorem findall_blocks_single:
  "\<not> sublist (10 # fence) g \<Longrightarrow> findall_blocks (fence @ 10 # g @ 10 # fence) = [g]"
proof -
  assume g: "\<not> sublist (10 # fence) g"
  have "find_close (g @ 10 # fence @ []) = Some (g, [])"
    using g by (rule find_close_first)
  then have "fence_match (fence @ 10 # g @ 10 # fence) = Some (g, [])"
    by (simp add: fence_match_def lang_rest_def code_langs_def pys_def fence_def)
  then show ?thesis
    by (simp add: fence_def)
qed

theorem findall_blocks_single_witness:
  "findall_blocks (pys ''```\<newline>|-- content/\<newline>```'') = [pys ''|-- content/'']"
  using findall_blocks_single [of "pys ''|-- content/''"]
  by (simp add: fence_def pys_def sublist_Cons_right)

text \<open>
  C30. The directory pattern needs a hyphen, an en dash or an em dash after the branch
  glyph, but the trees printed by \<open>tree\<close> draw their branches with U+2500, which is
  none of them: a document without such a dash yields an empty structure mapping,
  whatever tree it draws.
\<close>

theorem extract_structure_needs_dash:
  "\<not> list_ex tree_dash content \<Longrightarrow> extract_structure content = []"
proof -
  assume nd: "\<not> list_ex tree_dash content"
  have "structure_block d m = d" if "sublist m content" for d m
  proof -
    have "structure_line d l = d" if "l \<in> set (py_split 10 m)" for l
    proof -
      have "sublist l content"
        using that \<open>sublist m content\<close> py_split_sublist by (meson sublist_order.order_trans)
      with nd show ?thesis by (simp add: structure_line_def no_dash_no_entry)
    qed
    then show ?thesis by (simp add: structure_block_def foldl_fixed)
  qed
  then show ?thesis
    by (simp add: extract_structure_def foldl_fixed findall_blocks_sublist)
qed

theorem extract_structure_needs_dash_witness:
  "extract_structure
     (pys ''```\<newline>'' @ [9500, 9472, 9472] @ pys '' content/\<newline>'' @
      [9492, 9472, 9472] @ pys '' docs/\<newline>```'') = []"
  using extract_structure_needs_dash
  by (simp add: tree_dash_def pys_def)

text \<open>
  Finding: the closing fence of a block in a language other than bash, text or tree
  (here python) is taken as the opening fence of a bare block, which then ends at the
  opening fence of the next block; the tree block that follows is never seen, and the
  structure mapping stays empty although the same tree block alone gives \<open>content\<close>.
\<close>

theorem fence_misaligned_after_other_language:
  "findall_blocks (pys ''```python\<newline>x = 1\<newline>```\<newline>\<newline>```\<newline>|-- content/\<newline>```'') = [[]] \<and>
   extract_structure (pys ''```python\<newline>x = 1\<newline>```\<newline>\<newline>```\<newline>|-- content/\<newline>```'') = [] \<and>
   extract_structure (pys ''```\<newline>|-- content/\<newline>```'') = [(pys ''content'', pys ''directory'')]"
  by (simp add: structure_eval py_simps)

end
