(* ===== verification/Context_Parser.thy ===== *)
theory Context_Parser
  imports Section_Extractor Structure_Extractor
begin

text \<open>
  \<open>ProjectContext\<close> and \<open>ContextParser.parse\<close> of \<open>src/docs/rules/scripts/sync.py\<close>:
  the dataclass is a record with the source's fields, and \<open>parse\<close> builds it in the
  order the method assigns the fields.  The inline rules are appended to the section
  rules at the end; nothing sorts them.
\<close>

record project_context =
  path :: path
  purpose :: pystr
  rules :: "pystr list"
  workflows :: "pystr list"
  structure_map :: "(pystr, pystr) pydict"
  never_rules :: "pystr list"
  always_rules :: "pystr list"
  technologies :: "pystr list"
  raw_content :: pystr

definition parse :: "pystr \<Rightarrow> path \<Rightarrow> project_context" where
  "parse content file_path =
     (let lines = py_split 10 content;
          context = \<lparr>path = file_path, purpose = [], rules = [], workflows = [], structure_map = [],
                     never_rules = [], always_rules = [], technologies = [],
                     raw_content = content\<rparr>;
          context = context\<lparr>purpose := extract_purpose lines\<rparr>;
          context = context\<lparr>rules := extract_section_items content (pys ''rules''),
                             workflows := extract_section_items content (pys ''workflow''),
                             never_rules := extract_section_items content (pys ''never''),
                             always_rules := extract_section_items content (pys ''always''),
                             technologies := extract_section_items content (pys ''tech'')\<rparr>;
          context = context\<lparr>structure_map := extract_structure content\<rparr>
      in context\<lparr>rules := rules context @ extract_inline_rules content\<rparr>)"

text \<open>What every parsed context satisfies: the rule and item lists hold non-empty,
  stripped strings that occur in the document, and the structure mapping is
  well formed.\<close>

definition item_ok :: "pystr \<Rightarrow> pystr \<Rightarrow> bool" where
  "item_ok content r \<longleftrightarrow> r \<noteq> [] \<and> py_strip r = r \<and> sublist r content"

definition context_wf :: "project_context \<Rightarrow> bool" where
  "context_wf ctx \<longleftrightarrow>
     list_all (item_ok (raw_content ctx))
       (rules ctx @ workflows ctx @ never_rules ctx @ always_rules ctx @ technologies ctx) \<and>
     structure_ok (raw_content ctx) (structure_map ctx)"

(* ------------------------------------------------------------------------ *)

subsection \<open>Inline rules are items of the document\<close>

lemmas parse_eval = extract_section_items_def extract_inline_rules_def extract_purpose_def
  section_eval structure_eval py_simps

lemma imperative_at_lead: "imperative_at (c # cs) \<Longrightarrow> \<not> py_isspace c"
  by (auto simp: imperative_at_def imperative_keywords_def py_simps split: if_splits)

lemma imperative_search_non_blank: "imperative_search s \<Longrightarrow> py_strip s \<noteq> []"
proof (induction s)
  case Nil
  then show ?case by simp
next
  case (Cons c cs)
  show ?case
  proof (cases "imperative_at (c # cs)")
    case True
    then have "\<not> py_isspace c" by (rule imperative_at_lead)
    then show ?thesis by (simp add: py_strip_Nil_iff)
  next
    case False
    with Cons have "py_strip cs \<noteq> []" by simp
    then show ?thesis by (auto simp: py_strip_Nil_iff)
  qed
qed

lemma extract_inline_rules_ok: "r \<in> set (extract_inline_rules content) \<Longrightarrow> item_ok content r"
proof -
  assume "r \<in> set (extract_inline_rules content)"
  then obtain l where l: "l \<in> set (py_split 10 content)" "imperative_search l" and r: "r = py_strip l"
    by (auto simp: extract_inline_rules_def)
  have "sublist r content"
    using r py_strip_sublist py_split_sublist [OF l(1)] by (meson sublist_order.order_trans)
  with r imperative_search_non_blank [OF l(2)] show ?thesis
    by (simp add: item_ok_def)
qed

lemma extract_section_items_ok: "r \<in> set (extract_section_items content ty) \<Longrightarrow> item_ok content r"
proof -
  assume "r \<in> set (extract_section_items content ty)"
  then obtain l where l: "l \<in> set (py_split 10 content)" and i: "r \<in> set (line_contrib l)"
    using section_item_line by blast
  from line_contrib_shape [OF i] py_split_sublist [OF l] show ?thesis
    by (meson sublist_order.order_trans item_ok_def)
qed

lemma extract_structure_wf: "structure_ok content (extract_structure content)"
  using structure_fold_ok [OF structure_ok_empty] findall_blocks_sublist
  by (simp add: extract_structure_def)

lemma parse_fields:
  "path (parse content p) = p"
  "raw_content (parse content p) = content"
  "purpose (parse content p) = extract_purpose (py_split 10 content)"
  "rules (parse content p) = extract_section_items content (pys ''rules'') @ extract_inline_rules content"
  "workflows (parse content p) = extract_section_items content (pys ''workflow'')"
  "never_rules (parse content p) = extract_section_items content (pys ''never'')"
  "always_rules (parse content p) = extract_section_items content (pys ''always'')"
  "technologies (parse content p) = extract_section_items content (pys ''tech'')"
  "structure_map (parse content p) = extract_structure content"
  by (simp_all add: parse_def Let_def)

(* ------------------------------------------------------------------------ *)

subsection \<open>Properties of the parser\<close>

text \<open>
  C8. Every context \<open>parse\<close> builds is well formed: all its rules and section items are
  non-empty stripped strings occurring in the document, and its structure mapping has
  distinct word keys mapped to \<open>"directory"\<close>.
\<close>

theorem parse_wf: "context_wf (parse content p)"
  using extract_inline_rules_ok extract_section_items_ok extract_structure_wf
  by (auto simp: context_wf_def parse_fields list_all_iff)

text \<open>
  The empty document parses to the empty context: no purpose, rules, items or
  structure, and no error.
\<close>

theorem parse_empty:
  "parse [] p = \<lparr>path = p, purpose = [], rules = [], workflows = [], structure_map = [],
                 never_rules = [], always_rules = [], technologies = [], raw_content = []\<rparr>"
  by (simp add: parse_def extract_section_items_def extract_inline_rules_def extract_purpose_def
      extract_structure_def section_eval py_simps)

end
