(* ===== verification/Environment.thy ===== *)
theory Environment
  imports Prelude
begin

text \<open>
  The interface between the sync scripts and the operating system: the working
  directory, the file system as \<open>pathlib\<close> sees it, and the three \<open>git\<close> queries run
  through \<open>subprocess.run\<close>.  A query is \<open>None\<close> when \<open>subprocess.run\<close> raises (no \<open>git\<close>
  executable); otherwise it has a return code and the decoded standard output.  The
  environment does not change during one run of the checks, so every call of the same
  query within a run sees the same answer.  The path operations are those of
  \<open>pathlib.PurePosixPath\<close>.
\<close>

datatype fs_node = File "nat list" | Dir

datatype git_query = GitBranchShowCurrent | GitLogOneline5 | GitStatusPorcelain

record proc_result =
  returncode :: int
  stdout :: pystr

record sys_env =
  cwd :: path
  fs :: "path \<Rightarrow> fs_node option"
  git :: "git_query \<Rightarrow> proc_result option"

definition path_exists :: "sys_env \<Rightarrow> path \<Rightarrow> bool" where
  "path_exists env p \<longleftrightarrow> fs env p \<noteq> None"

definition path_is_file :: "sys_env \<Rightarrow> path \<Rightarrow> bool" where
  "path_is_file env p \<longleftrightarrow> (case fs env p of Some (File _) \<Rightarrow> True | _ \<Rightarrow> False)"

text \<open>\<open>PurePath.parent\<close>: the root is its own parent.\<close>

definition path_parent :: "path \<Rightarrow> path" where
  "path_parent p = butlast p"

text \<open>\<open>PurePath.parents\<close>: \<open>parents[i]\<close> is the ancestor \<open>i + 1\<close> levels up; the root
  has none.\<close>

definition path_parents :: "path \<Rightarrow> path list" where
  "path_parents p = map (\<lambda>i. take (length p - Suc i) p) [0..<length p]"

text \<open>\<open>str(path)\<close> of an absolute POSIX path.\<close>

definition path_str :: "path \<Rightarrow> pystr" where
  "path_str p = (if p = [] then pys ''/'' else concat (map (\<lambda>c. pys ''/'' @ c) p))"

text \<open>\<open>p / "a/b"\<close> for a relative path given by its components.\<close>

definition path_join :: "path \<Rightarrow> pystr list \<Rightarrow> path" where
  "path_join p rel = p @ rel"

(* ------------------------------------------------------------------------ *)

subsection \<open>Ancestors\<close>

lemma take_strict_prefix: "i < length p \<Longrightarrow> strict_prefix (take i p) p"
proof -
  assume i: "i < length p"
  then have "length (take i p) < length p" by simp
  then have "take i p \<noteq> p" by auto
  then show ?thesis by (simp add: strict_prefix_def take_is_prefix)
qed

lemma strict_prefix_take: "strict_prefix q p \<Longrightarrow> \<exists>i < length p. q = take i p"
proof -
  assume sp: "strict_prefix q p"
  then obtain r where p: "p = q @ r" and "r \<noteq> []"
    by (auto simp: strict_prefix_def prefix_def)
  then have "length q < length p" and "q = take (length q) p" by simp_all
  then show ?thesis by blast
qed

lemma path_parents_iff: "q \<in> set (path_parents p) \<longleftrightarrow> strict_prefix q p"
proof
  assume "q \<in> set (path_parents p)"
  then obtain i where "i < length p" and "q = take (length p - Suc i) p"
    by (auto simp: path_parents_def)
  then show "strict_prefix q p"
    by (simp add: take_strict_prefix)
next
  assume "strict_prefix q p"
  then obtain j where j: "j < length p" "q = take j p"
    using strict_prefix_take by blast
  let ?i = "length p - Suc j"
  have q: "q = take (length p - Suc ?i) p" using j by simp
  have "?i \<in> set [0..<length p]" using j by simp
  then have "take (length p - Suc ?i) p \<in> (\<lambda>i. take (length p - Suc i) p) ` set [0..<length p]"
    by (rule imageI)
  then show "q \<in> set (path_parents p)"
    unfolding path_parents_def set_map q .
qed

lemma ancestor_or_self_iff: "q \<in> set (path_parents p) \<or> q = p \<longleftrightarrow> prefix q p"
  by (auto simp: path_parents_iff prefix_order.le_less)


subsection \<open>Parents\<close>

lemma path_parent_eq_iff: "path_parent p = p \<longleftrightarrow> p = []"
  by (cases p rule: rev_cases) (simp_all add: path_parent_def)

lemma take_butlast_shift:
  "take (length (butlast p) - k) (butlast p) = take (length p - Suc k) p"
  by (cases p rule: rev_cases) simp_all

end
