(* ===== verification/Alignment_Checker.thy ===== *)
theory Alignment_Checker
  imports Context_Parser Environment
begin

text \<open>
  \<open>AlignmentLevel\<close>, \<open>AlignmentIssue\<close> and \<open>AlignmentChecker\<close> of
  \<open>src/docs/rules/scripts/sync.py\<close>.  The checker object holds the parsed context and a
  list of issues (\<open>self.context\<close> is \<open>checker_context\<close>: \<open>context\<close> is an Isabelle
  keyword); \<open>check_current_state\<close> empties the list and runs four checks, each of
  which may append issues, then returns the list.  The object's state is passed
  explicitly; \<open>Path.cwd()\<close>, \<open>(Path.cwd() / '.git').exists()\<close> and
  \<open>git branch --show-current\<close> are read from the environment of \<open>Environment\<close>.
\<close>

datatype alignment_level = ALIGNED | SUGGESTION | WARNING | CRITICAL

record alignment_issue =
  level :: alignment_level
  category :: pystr
  description :: pystr
  suggestion :: pystr
  context_reference :: "pystr option"

record alignment_checker =
  checker_context :: project_context
  issues :: "alignment_issue list"

definition new_checker :: "project_context \<Rightarrow> alignment_checker" where
  "new_checker ctx = \<lparr>checker_context = ctx, issues = []\<rparr>"

definition add_issue :: "alignment_issue \<Rightarrow> alignment_checker \<Rightarrow> alignment_checker" where
  "add_issue i ck = ck\<lparr>issues := issues ck @ [i]\<rparr>"

subsection \<open>The four checks\<close>

definition location_issue :: "path \<Rightarrow> alignment_issue" where
  "location_issue context_dir =
     \<lparr>level = WARNING, category = pys ''location'',
      description = pys ''Working directory may not align with project root'',
      suggestion = pys ''Consider navigating to '' @ path_str context_dir,
      context_reference = None\<rparr>"

definition check_directory_alignment :: "sys_env \<Rightarrow> alignment_checker \<Rightarrow> alignment_checker" where
  "check_directory_alignment env ck =
     (let cwd = cwd env; context_dir = path_parent (path (checker_context ck)) in
      if context_dir \<notin> set (path_parents cwd) \<and> context_dir \<noteq> cwd
      then add_issue (location_issue context_dir) ck else ck)"

definition workflow_issue :: "pystr \<Rightarrow> alignment_issue" where
  "workflow_issue rule =
     \<lparr>level = CRITICAL, category = pys ''workflow'',
      description = pys ''Working directly on main branch'',
      suggestion = pys ''Create a feature branch before making changes'',
      context_reference = Some rule\<rparr>"

definition mentions_branch :: "pystr \<Rightarrow> bool" where
  "mentions_branch rule \<longleftrightarrow>
     py_in (pys ''feature branch'') (py_lower rule) \<or> py_in (pys ''branch'') (py_lower rule)"

text \<open>One iteration of the loop over \<open>always_rules + workflows\<close>: for a rule about
  branches, \<open>git branch --show-current\<close> runs; if it raises, \<open>except: pass\<close> skips the
  rule; its return code is not looked at.\<close>

definition git_rule_step :: "sys_env \<Rightarrow> alignment_checker \<Rightarrow> pystr \<Rightarrow> alignment_checker" where
  "git_rule_step env ck rule =
     (if mentions_branch rule then
        (case git env GitBranchShowCurrent of
           None \<Rightarrow> ck
         | Some result \<Rightarrow>
             (let current_branch = py_strip (stdout result) in
              if current_branch = pys ''main'' \<or> current_branch = pys ''master''
              then add_issue (workflow_issue rule) ck else ck))
      else ck)"

definition check_git_workflow :: "sys_env \<Rightarrow> alignment_checker \<Rightarrow> alignment_checker" where
  "check_git_workflow env ck =
     (if \<not> path_exists env (path_join (cwd env) [pys ''.git'']) then ck
      else foldl (git_rule_step env) ck (always_rules (checker_context ck) @ workflows (checker_context ck)))"

definition rules_issue :: "pystr list \<Rightarrow> alignment_issue" where
  "rules_issue never =
     \<lparr>level = SUGGESTION, category = pys ''rules'',
      description = pys ''Project has critical NEVER rules'',
      suggestion = pys ''Review never rules: '' @ py_join (pys ''; '') (take 2 never),
      context_reference = None\<rparr>"

definition check_rule_compliance :: "alignment_checker \<Rightarrow> alignment_checker" where
  "check_rule_compliance ck =
     (if never_rules (checker_context ck) \<noteq> [] then add_issue (rules_issue (never_rules (checker_context ck))) ck
      else ck)"

definition structure_issue :: alignment_issue where
  "structure_issue =
     \<lparr>level = SUGGESTION, category = pys ''structure'',
      description = pys ''Project uses specific directory structure'',
      suggestion = pys ''Ensure files are created in appropriate directories'',
      context_reference = None\<rparr>"

definition check_file_operations :: "alignment_checker \<Rightarrow> alignment_checker" where
  "check_file_operations ck =
     (if structure_map (checker_context ck) \<noteq> [] then
        (if pys ''content'' \<in> set (map fst (structure_map (checker_context ck)))
         then add_issue structure_issue ck else ck)
      else ck)"

text \<open>\<open>check_current_state\<close>: reset, the four checks in the source's order, and the
  list returned together with the updated checker.\<close>

definition check_current_state ::
    "sys_env \<Rightarrow> alignment_checker \<Rightarrow> alignment_issue list \<times> alignment_checker" where
  "check_current_state env ck =
     (let ck = ck\<lparr>issues := []\<rparr>;
          ck = check_directory_alignment env ck;
          ck = check_git_workflow env ck;
          ck = check_rule_compliance ck;
          ck = check_file_operations ck
      in (issues ck, ck))"

subsection \<open>The specification of the checks\<close>

text \<open>
  What the spec promises: a pure function of the context and the environment, the
  concatenation of what each check emits, in the fixed order.
\<close>

definition directory_issues :: "sys_env \<Rightarrow> project_context \<Rightarrow> alignment_issue list" where
  "directory_issues env ctx =
     (if prefix (path_parent (path ctx)) (cwd env) then []
      else [location_issue (path_parent (path ctx))])"

definition branch_is_main :: "sys_env \<Rightarrow> bool" where
  "branch_is_main env \<longleftrightarrow>
     (case git env GitBranchShowCurrent of
        None \<Rightarrow> False
      | Some r \<Rightarrow> py_strip (stdout r) \<in> {pys ''main'', pys ''master''})"

definition workflow_issues :: "sys_env \<Rightarrow> project_context \<Rightarrow> alignment_issue list" where
  "workflow_issues env ctx =
     (if path_exists env (cwd env @ [pys ''.git'']) \<and> branch_is_main env
      then map workflow_issue (filter mentions_branch (always_rules ctx @ workflows ctx))
      else [])"

definition rule_issues :: "project_context \<Rightarrow> alignment_issue list" where
  "rule_issues ctx = (if never_rules ctx = [] then [] else [rules_issue (never_rules ctx)])"

definition structure_issues :: "project_context \<Rightarrow> alignment_issue list" where
  "structure_issues ctx =
     (if pys ''content'' \<in> set (map fst (structure_map ctx)) then [structure_issue] else [])"

definition alignment_spec :: "sys_env \<Rightarrow> project_context \<Rightarrow> alignment_issue list" where
  "alignment_spec env ctx =
     directory_issues env ctx @ workflow_issues env ctx @ rule_issues ctx @ structure_issues ctx"

(* ------------------------------------------------------------------------ *)

subsection \<open>Each check appends what the specification says\<close>

lemma add_issue_simps [simp]:
  "checker_context (add_issue i ck) = checker_context ck"
  "issues (add_issue i ck) = issues ck @ [i]"
  by (simp_all add: add_issue_def)

lemma check_directory_alignment_eq:
  "check_directory_alignment env ck =
     ck\<lparr>issues := issues ck @ directory_issues env (checker_context ck)\<rparr>"
  using ancestor_or_self_iff [of "path_parent (path (checker_context ck))" "cwd env"]
  by (auto simp: check_directory_alignment_def directory_issues_def add_issue_def Let_def)

lemma git_rule_step_eq:
  "git_rule_step env ck rule =
     ck\<lparr>issues := issues ck @
        (if branch_is_main env \<and> mentions_branch rule then [workflow_issue rule] else [])\<rparr>"
  by (auto simp: git_rule_step_def branch_is_main_def add_issue_def Let_def split: option.split)

lemma foldl_git_rule_step:
  "foldl (git_rule_step env) ck rs =
     ck\<lparr>issues := issues ck @
        (if branch_is_main env then map workflow_issue (filter mentions_branch rs) else [])\<rparr>"
  by (induction rs arbitrary: ck) (simp_all add: git_rule_step_eq)

lemma check_git_workflow_eq:
  "check_git_workflow env ck = ck\<lparr>issues := issues ck @ workflow_issues env (checker_context ck)\<rparr>"
  by (simp add: check_git_workflow_def workflow_issues_def foldl_git_rule_step path_join_def)

lemma check_rule_compliance_eq:
  "check_rule_compliance ck = ck\<lparr>issues := issues ck @ rule_issues (checker_context ck)\<rparr>"
  by (simp add: check_rule_compliance_def rule_issues_def add_issue_def)

lemma check_file_operations_eq:
  "check_file_operations ck = ck\<lparr>issues := issues ck @ structure_issues (checker_context ck)\<rparr>"
  by (auto simp: check_file_operations_def structure_issues_def add_issue_def)

lemmas check_eqs = check_directory_alignment_eq check_git_workflow_eq check_rule_compliance_eq
  check_file_operations_eq

lemma check_current_state_issues:
  "fst (check_current_state env ck) = alignment_spec env (checker_context ck)"
  by (simp add: check_current_state_def check_eqs alignment_spec_def Let_def)

lemma issue_levels:
  "level (location_issue d) = WARNING" "level (workflow_issue r) = CRITICAL"
  "level (rules_issue n) = SUGGESTION" "level structure_issue = SUGGESTION"
  "category (location_issue d) = pys ''location''"
  by (simp_all add: location_issue_def workflow_issue_def rules_issue_def structure_issue_def)

(* ------------------------------------------------------------------------ *)

subsection \<open>Properties of the checker\<close>

text \<open>
  C1. \<open>check_current_state\<close> refines the specification: whatever issues the checker held
  before, it returns the concatenation of the directory, git-workflow, rule and
  structure issues, in that order, none of the checks suppressing another; the checker
  keeps its context and holds exactly the returned list.
\<close>

theorem check_current_state_spec:
  "check_current_state env ck =
     (alignment_spec env (checker_context ck),
      ck\<lparr>issues := alignment_spec env (checker_context ck)\<rparr>)"
  by (simp add: check_current_state_def check_eqs alignment_spec_def Let_def)

text \<open>
  C3. A location warning is reported exactly when the context file's directory is
  neither the working directory nor one of its ancestors, and then exactly once.
\<close>

theorem location_warning_iff:
  "filter (\<lambda>i. category i = pys ''location'') (fst (check_current_state env ck)) =
     (if prefix (path_parent (path (checker_context ck))) (cwd env) then []
      else [location_issue (path_parent (path (checker_context ck)))])"
proof -
  have "category (workflow_issue r) \<noteq> pys ''location''" for r
    by (simp add: workflow_issue_def pys_def)
  moreover have "category (rules_issue n) \<noteq> pys ''location''" for n
    by (simp add: rules_issue_def pys_def)
  moreover have "category structure_issue \<noteq> pys ''location''"
    by (simp add: structure_issue_def pys_def)
  ultimately show ?thesis
    by (auto simp: check_current_state_issues alignment_spec_def directory_issues_def
        workflow_issues_def rule_issues_def structure_issues_def issue_levels filter_empty_conv)
qed

text \<open>
  C4. The critical issues are exactly one workflow issue per always-rule or workflow
  item mentioning "branch", in that order and naming the rule, when a \<open>.git\<close> entry
  exists in the working directory and the current branch is \<open>main\<close> or \<open>master\<close>; in
  every other state there is none.
\<close>

theorem critical_issues_iff:
  "filter (\<lambda>i. level i = CRITICAL) (fst (check_current_state env ck)) =
     (if path_exists env (cwd env @ [pys ''.git'']) \<and> branch_is_main env
      then map workflow_issue
             (filter mentions_branch (always_rules (checker_context ck) @ workflows (checker_context ck)))
      else [])"
  by (simp add: check_current_state_issues alignment_spec_def directory_issues_def
      workflow_issues_def rule_issues_def structure_issues_def issue_levels comp_def filter_map)

text \<open>
  The spec's examples of the directory check: with the context file at
  \<open>/proj/README.md\<close>, working in \<open>/proj/src\<close> raises no location issue, and working in
  \<open>/other\<close> raises exactly one, a warning.
\<close>

theorem directory_check_examples:
  "directory_issues \<lparr>cwd = [pys ''proj'', pys ''src''], fs = \<lambda>_. None, git = \<lambda>_. None\<rparr>
     (parse [] [pys ''proj'', pys ''README.md'']) = [] \<and>
   map level (directory_issues \<lparr>cwd = [pys ''other''], fs = \<lambda>_. None, git = \<lambda>_. None\<rparr>
     (parse [] [pys ''proj'', pys ''README.md''])) = [WARNING]"
  by (simp add: directory_issues_def parse_fields path_parent_def issue_levels pys_def)

text \<open>
  The spec's example of the git workflow check: with the always-rule "Always create a
  feature branch before changes", a \<open>.git\<close> directory in the working directory and the
  branch \<open>main\<close>, the whole check reports exactly one issue, the critical workflow issue
  naming that rule; on the branch \<open>feature/x\<close> it reports none.
\<close>

theorem git_workflow_examples:
  "fst (check_current_state
          \<lparr>cwd = [pys ''proj''], fs = (\<lambda>p. if p = [pys ''proj'', pys ''.git''] then Some Dir else None),
           git = \<lambda>_. Some \<lparr>returncode = 0, stdout = pys ''main\<newline>''\<rparr>\<rparr>
          (new_checker (parse (pys ''Always:\<newline>- Always create a feature branch before changes'')
                               [pys ''proj'', pys ''README.md''])))
     = [workflow_issue (pys ''Always create a feature branch before changes'')] \<and>
   fst (check_current_state
          \<lparr>cwd = [pys ''proj''], fs = (\<lambda>p. if p = [pys ''proj'', pys ''.git''] then Some Dir else None),
           git = \<lambda>_. Some \<lparr>returncode = 0, stdout = pys ''feature/x\<newline>''\<rparr>\<rparr>
          (new_checker (parse (pys ''Always:\<newline>- Always create a feature branch before changes'')
                               [pys ''proj'', pys ''README.md''])))
     = []"
  by (simp add: check_current_state_issues alignment_spec_def new_checker_def parse_fields
      directory_issues_def workflow_issues_def rule_issues_def structure_issues_def
      branch_is_main_def mentions_branch_def path_exists_def path_parent_def
      parse_eval)

text \<open>
  Finding: the git check looks for \<open>.git\<close> in the working directory only.  Working
  on \<open>main\<close> from the subdirectory \<open>src\<close> of the project, which the directory check
  accepts, the branch rule is never checked and no issue at all is reported.
\<close>

theorem git_check_skipped_in_subdirectory:
  "fst (check_current_state
          \<lparr>cwd = [pys ''proj'', pys ''src''],
           fs = (\<lambda>p. if p = [pys ''proj'', pys ''.git''] then Some Dir else None),
           git = \<lambda>_. Some \<lparr>returncode = 0, stdout = pys ''main\<newline>''\<rparr>\<rparr>
          (new_checker (parse (pys ''Always:\<newline>- Always create a feature branch before changes'')
                               [pys ''proj'', pys ''README.md''])))
     = []"
  by (simp add: check_current_state_issues alignment_spec_def new_checker_def parse_fields
      directory_issues_def workflow_issues_def rule_issues_def structure_issues_def
      path_exists_def path_parent_def parse_eval)

text \<open>
  Finding: one critical issue is emitted per rule that mentions branches, not one per
  check: two such rules on \<open>main\<close> give two critical issues.
\<close>

theorem workflow_issue_per_rule:
  "length (filter (\<lambda>i. level i = CRITICAL) (fst (check_current_state
          \<lparr>cwd = [pys ''proj''], fs = (\<lambda>p. if p = [pys ''proj'', pys ''.git''] then Some Dir else None),
           git = \<lambda>_. Some \<lparr>returncode = 0, stdout = pys ''main''\<rparr>\<rparr>
          (new_checker (parse (pys ''Workflow:\<newline>- Branch from main\<newline>- Merge the branch by PR'')
                               [pys ''proj'', pys ''README.md'']))))) = 2"
  by (simp add: check_current_state_issues alignment_spec_def new_checker_def parse_fields
      directory_issues_def workflow_issues_def rule_issues_def structure_issues_def
      branch_is_main_def mentions_branch_def path_exists_def path_parent_def issue_levels
      parse_eval)

end
