(* ===== verification/Text_IO.thy ===== *)
theory Text_IO
  imports Environment
begin

text \<open>
  \<open>Path.read_text(encoding='utf-8')\<close>: the file's bytes are decoded by Python's strict
  UTF-8 codec (no overlong forms, no surrogates, nothing above U+10FFFF; any other byte
  sequence raises \<open>UnicodeDecodeError\<close>), and the text layer translates universal
  newlines: \<open>\r\n\<close> and a lone \<open>\r\<close> both become \<open>\n\<close>.  A missing path raises
  \<open>FileNotFoundError\<close>, a directory \<open>IsADirectoryError\<close>.  The exceptions are those of
  the \<open>OSError\<close> family the scripts can meet, and the codec's \<open>UnicodeDecodeError\<close>.
\<close>

datatype io_error =
  FileNotFoundError | IsADirectoryError | NotADirectoryError | FileExistsError | UnicodeDecodeError

definition utf8_cont :: "nat \<Rightarrow> bool" where
  "utf8_cont b \<longleftrightarrow> 128 \<le> b \<and> b < 192"

fun utf8_decode :: "nat list \<Rightarrow> pystr option" where
  "utf8_decode [] = Some []"
| "utf8_decode (b # bs) =
     (if b < 128 then map_option (Cons b) (utf8_decode bs)
      else if 194 \<le> b \<and> b \<le> 223 then
        (case bs of
           c1 # rest \<Rightarrow>
             if utf8_cont c1 then map_option (Cons ((b - 192) * 64 + (c1 - 128))) (utf8_decode rest)
             else None
         | [] \<Rightarrow> None)
      else if 224 \<le> b \<and> b \<le> 239 then
        (case bs of
           c1 # c2 # rest \<Rightarrow>
             if utf8_cont c1 \<and> utf8_cont c2 \<and> (if b = 224 then 160 \<le> c1 else True) \<and>
                (if b = 237 then c1 < 160 else True)
             then map_option (Cons ((b - 224) * 4096 + (c1 - 128) * 64 + (c2 - 128)))
                    (utf8_decode rest)
             else None
         | _ \<Rightarrow> None)
      else if 240 \<le> b \<and> b \<le> 244 then
        (case bs of
           c1 # c2 # c3 # rest \<Rightarrow>
             if utf8_cont c1 \<and> utf8_cont c2 \<and> utf8_cont c3 \<and> (if b = 240 then 144 \<le> c1 else True) \<and>
                (if b = 244 then c1 < 144 else True)
             then map_option
                    (Cons ((b - 240) * 262144 + (c1 - 128) * 4096 + (c2 - 128) * 64 + (c3 - 128)))
                    (utf8_decode rest)
             else None
         | _ \<Rightarrow> None)
      else None)"

fun translate_newlines :: "pystr \<Rightarrow> pystr" where
  "translate_newlines [] = []"
| "translate_newlines [c] = [if c = 13 then 10 else c]"
| "translate_newlines (c # d # cs) =
     (if c = 13 \<and> d = 10 then 10 # translate_newlines cs
      else (if c = 13 then 10 else c) # translate_newlines (d # cs))"

definition read_bytes :: "sys_env \<Rightarrow> path \<Rightarrow> io_error + nat list" where
  "read_bytes env p =
     (case fs env p of
        None \<Rightarrow> Inl FileNotFoundError
      | Some Dir \<Rightarrow> Inl IsADirectoryError
      | Some (File bytes) \<Rightarrow> Inr bytes)"

definition read_text :: "sys_env \<Rightarrow> path \<Rightarrow> io_error + pystr" where
  "read_text env p =
     (case read_bytes env p of
        Inl e \<Rightarrow> Inl e
      | Inr bytes \<Rightarrow>
          (case utf8_decode bytes of
             None \<Rightarrow> Inl UnicodeDecodeError
           | Some s \<Rightarrow> Inr (translate_newlines s)))"

text \<open>The encoder, and the code points it can encode: the scalar values.\<close>

definition utf8_encode_char :: "pychar \<Rightarrow> nat list" where
  "utf8_encode_char c =
     (if c < 128 then [c]
      else if c < 2048 then [192 + c div 64, 128 + c mod 64]
      else if c < 65536 then [224 + c div 4096, 128 + (c div 64) mod 64, 128 + c mod 64]
      else [240 + c div 262144, 128 + (c div 4096) mod 64, 128 + (c div 64) mod 64, 128 + c mod 64])"

definition utf8_encode :: "pystr \<Rightarrow> nat list" where
  "utf8_encode s = concat (map utf8_encode_char s)"

definition scalar_value :: "pychar \<Rightarrow> bool" where
  "scalar_value c \<longleftrightarrow> c < 1114112 \<and> (c < 55296 \<or> 57343 < c)"

(* ------------------------------------------------------------------------ *)

subsection \<open>The codec\<close>

lemma utf8_cont_sub: "utf8_cont b \<Longrightarrow> b - 128 < 64"
  unfolding utf8_cont_def by arith

lemma utf8_decode_encode_char:
  assumes "scalar_value c"
  shows "utf8_decode (utf8_encode_char c @ rest) = map_option (Cons c) (utf8_decode rest)"
proof -
  have m: "c mod 64 < 64" "c div 64 mod 64 < 64" "c div 4096 mod 64 < 64" by simp_all
  have d1: "c div 64 = c div 64 div 64 * 64 + c div 64 mod 64" by simp
  have d2: "c div 64 div 64 = c div 4096" by (simp add: div_mult2_eq [symmetric])
  have d3: "c div 4096 div 64 = c div 262144" by (simp add: div_mult2_eq [symmetric])
  have e2: "c = c div 64 * 64 + c mod 64" by simp
  have e3: "c = c div 4096 * 4096 + c div 64 mod 64 * 64 + c mod 64"
    using d1 d2 e2 by linarith
  have e4: "c = c div 262144 * 262144 + c div 4096 mod 64 * 4096 + c div 64 mod 64 * 64 + c mod 64"
  proof -
    have "c div 4096 = c div 262144 * 64 + c div 4096 mod 64"
      using div_mult_mod_eq [of "c div 4096" 64] d3 by simp
    then show ?thesis using e3 by linarith
  qed
  consider "c < 128" | "128 \<le> c" "c < 2048" | "2048 \<le> c" "c < 65536" | "65536 \<le> c"
    by linarith
  then show ?thesis
  proof cases
    case 1 then show ?thesis by (simp add: utf8_encode_char_def)
  next
    case 2
    then have "2 \<le> c div 64" "c div 64 < 32" by auto
    with 2 m show ?thesis
      by (simp add: utf8_encode_char_def utf8_cont_def)
  next
    case 3
    have h: "c div 4096 \<le> 15" using 3 by simp
    have h0: "c div 4096 = 0 \<Longrightarrow> 32 \<le> c div 64 mod 64" using 3 e3 m by linarith
    have h13: "c div 4096 = 13 \<Longrightarrow> c div 64 mod 64 < 32"
      using 3 e3 m assms unfolding scalar_value_def by linarith
    have "utf8_encode_char c = [224 + c div 4096, 128 + c div 64 mod 64, 128 + c mod 64]"
      using 3 by (simp add: utf8_encode_char_def)
    with 3 m h h0 h13 e3 [symmetric] show ?thesis
      by (simp add: utf8_cont_def)
  next
    case 4
    have "c < 5 * 262144" using assms by (simp add: scalar_value_def)
    then have h: "c div 262144 \<le> 4" by (simp add: div_less_iff_less_mult)
    have h0: "c div 262144 = 0 \<Longrightarrow> 16 \<le> c div 4096 mod 64" using 4 e4 m by linarith
    have h4: "c div 262144 = 4 \<Longrightarrow> c div 4096 mod 64 < 16"
      using e4 m assms unfolding scalar_value_def by linarith
    have "utf8_encode_char c = [240 + c div 262144, 128 + c div 4096 mod 64, 128 + c div 64 mod 64,
                                128 + c mod 64]"
      using 4 by (simp add: utf8_encode_char_def)
    with 4 m h h0 h4 e4 [symmetric] show ?thesis
      by (simp add: utf8_cont_def)
  qed
qed

lemma utf8_encode_2:
  assumes "2 \<le> x" "x < 32" "y < 64"
  shows "utf8_encode_char (x * 64 + y) = [192 + x, 128 + y] \<and> scalar_value (x * 64 + y)"
proof -
  have "(x * 64 + y) div 64 = x" "(x * 64 + y) mod 64 = y" using assms by simp_all
  moreover have "128 \<le> x * 64 + y" "x * 64 + y < 2048" using assms by linarith+
  ultimately show ?thesis by (simp add: utf8_encode_char_def scalar_value_def)
qed

lemma utf8_encode_3:
  assumes "x < 16" "y < 64" "z < 64" "if x = 0 then 32 \<le> y else True" "if x = 13 then y < 32 else True"
  shows "utf8_encode_char (x * 4096 + y * 64 + z) = [224 + x, 128 + y, 128 + z] \<and>
         scalar_value (x * 4096 + y * 64 + z)"
proof -
  let ?c = "x * 4096 + y * 64 + z"
  have c: "?c = (x * 64 + y) * 64 + z" by simp
  have d1: "?c div 64 = x * 64 + y" "?c mod 64 = z"
    using assms by (simp_all only: c mod_mult_self3) simp_all
  have d2: "?c div 4096 = x"
  proof -
    have "?c div 4096 = ?c div 64 div 64" by (simp add: div_mult2_eq)
    then show ?thesis using assms d1 by simp
  qed
  have "2048 \<le> ?c" "?c < 65536" "?c < 55296 \<or> 57343 < ?c"
    using assms by (auto split: if_splits)
  with d1 d2 assms show ?thesis by (simp add: utf8_encode_char_def scalar_value_def)
qed

lemma utf8_encode_4:
  assumes "x \<le> 4" "y < 64" "z < 64" "w < 64"
    "if x = 0 then 16 \<le> y else True" "if x = 4 then y < 16 else True"
  shows "utf8_encode_char (x * 262144 + y * 4096 + z * 64 + w) = [240 + x, 128 + y, 128 + z, 128 + w] \<and>
         scalar_value (x * 262144 + y * 4096 + z * 64 + w)"
proof -
  let ?c = "x * 262144 + y * 4096 + z * 64 + w"
  have c: "?c = ((x * 64 + y) * 64 + z) * 64 + w" by simp
  have d1: "?c div 64 = (x * 64 + y) * 64 + z" "?c mod 64 = w"
    using assms by (simp_all only: c mod_mult_self3) simp_all
  have d2: "?c div 4096 = x * 64 + y"
  proof -
    have "?c div 4096 = ?c div 64 div 64" by (simp add: div_mult2_eq)
    then show ?thesis using assms d1 by simp
  qed
  have d3: "?c div 262144 = x"
  proof -
    have "?c div 262144 = ?c div 4096 div 64" by (simp add: div_mult2_eq)
    then show ?thesis using assms d2 by simp
  qed
  have m: "((x * 64 + y) * 64 + z) mod 64 = z" "(x * 64 + y) mod 64 = y"
    using assms by (simp_all only: mod_mult_self3) simp_all
  have "65536 \<le> ?c" "?c < 1114112" using assms by (auto split: if_splits)
  with d1 d2 d3 m assms show ?thesis by (simp add: utf8_encode_char_def scalar_value_def)
qed

lemma utf8_decode_encode_aux: "list_all scalar_value s \<Longrightarrow> utf8_decode (utf8_encode s) = Some s"
  by (induction s) (simp_all add: utf8_encode_def utf8_decode_encode_char)

lemma utf8_decode_Some:
  "utf8_decode bs = Some s \<Longrightarrow> utf8_encode s = bs \<and> list_all scalar_value s"
proof (induction bs arbitrary: s rule: utf8_decode.induct)
  case 1
  then show ?case by (simp add: utf8_encode_def)
next
  case (2 b bs)
  consider "b < 128" | "\<not> b < 128" "194 \<le> b" "b \<le> 223" | "\<not> b < 128" "224 \<le> b" "b \<le> 239"
    | "\<not> b < 128" "240 \<le> b" "b \<le> 244" | "\<not> b < 128" "b < 194 \<or> 244 < b \<or> (223 < b \<and> b < 224) \<or> (239 < b \<and> b < 240)"
    by linarith
  then show ?case
  proof cases
    case 1
    with "2.prems" obtain s' where "utf8_decode bs = Some s'" "s = b # s'" by auto
    with 1 "2.IH"(1) show ?thesis by (simp add: utf8_encode_def utf8_encode_char_def scalar_value_def)
  next
    case 2
    with "2.prems" obtain c1 rest s' where bs: "bs = c1 # rest" and c1: "utf8_cont c1"
      and r: "utf8_decode rest = Some s'" and s: "s = ((b - 192) * 64 + (c1 - 128)) # s'"
      by (auto split: list.splits if_splits)
    have "utf8_encode_char ((b - 192) * 64 + (c1 - 128)) = [192 + (b - 192), 128 + (c1 - 128)] \<and>
          scalar_value ((b - 192) * 64 + (c1 - 128))"
      using 2 c1 by (intro utf8_encode_2) (simp_all add: utf8_cont_sub)
    with 2 "2.IH"(2) [OF _ _ bs c1 r] c1 show ?thesis
      by (simp add: s bs utf8_encode_def utf8_cont_def)
  next
    case 3
    with "2.prems" obtain c1 c2 rest s' where bs: "bs = c1 # c2 # rest"
      and c: "utf8_cont c1 \<and> utf8_cont c2 \<and> (if b = 224 then 160 \<le> c1 else True) \<and>
               (if b = 237 then c1 < 160 else True)"
      and r: "utf8_decode rest = Some s'"
      and s: "s = ((b - 224) * 4096 + (c1 - 128) * 64 + (c2 - 128)) # s'"
      by (auto split: list.splits if_splits)
    have "utf8_encode_char ((b - 224) * 4096 + (c1 - 128) * 64 + (c2 - 128)) =
            [224 + (b - 224), 128 + (c1 - 128), 128 + (c2 - 128)] \<and>
          scalar_value ((b - 224) * 4096 + (c1 - 128) * 64 + (c2 - 128))"
      using 3 c by (intro utf8_encode_3) (auto simp: utf8_cont_sub utf8_cont_def split: if_splits)
    with 3 "2.IH"(3) [OF _ _ _ bs refl c r] c show ?thesis
      by (simp add: s bs utf8_encode_def utf8_cont_def)
  next
    case 4
    with "2.prems" obtain c1 c2 c3 rest s' where bs: "bs = c1 # c2 # c3 # rest"
      and c: "utf8_cont c1 \<and> utf8_cont c2 \<and> utf8_cont c3 \<and> (if b = 240 then 144 \<le> c1 else True) \<and>
               (if b = 244 then c1 < 144 else True)"
      and r: "utf8_decode rest = Some s'"
      and s: "s = ((b - 240) * 262144 + (c1 - 128) * 4096 + (c2 - 128) * 64 + (c3 - 128)) # s'"
      by (auto split: list.splits if_splits)
    have "utf8_encode_char ((b - 240) * 262144 + (c1 - 128) * 4096 + (c2 - 128) * 64 + (c3 - 128)) =
            [240 + (b - 240), 128 + (c1 - 128), 128 + (c2 - 128), 128 + (c3 - 128)] \<and>
          scalar_value ((b - 240) * 262144 + (c1 - 128) * 4096 + (c2 - 128) * 64 + (c3 - 128))"
      using 4 c by (intro utf8_encode_4) (auto simp: utf8_cont_sub utf8_cont_def split: if_splits)
    with 4 "2.IH"(4) [OF _ _ _ _ bs refl refl c r] c show ?thesis
      by (simp add: s bs utf8_encode_def utf8_cont_def)
  next
    case 5
    with "2.prems" show ?thesis by auto
  qed
qed
(* ------------------------------------------------------------------------ *)

subsection \<open>Universal newlines\<close>

lemma translate_newlines_Cons: "c \<noteq> 13 \<Longrightarrow> translate_newlines (c # cs) = c # translate_newlines cs"
  by (cases cs) simp_all

lemma translate_newlines_append: "13 \<notin> set w \<Longrightarrow> translate_newlines (w @ r) = w @ translate_newlines r"
  by (induction w) (simp_all add: translate_newlines_Cons)

lemma translate_newlines_id: "13 \<notin> set s \<Longrightarrow> translate_newlines s = s"
  using translate_newlines_append [of s "[]"] by simp

lemma translate_newlines_crlf_aux:
  "list_all (\<lambda>l. 13 \<notin> set l) ls \<Longrightarrow> translate_newlines (py_join [13, 10] ls) = py_join [10] ls"
  by (induction "[13::nat, 10]" ls rule: py_join.induct)
    (simp_all add: translate_newlines_id translate_newlines_append)

(* ------------------------------------------------------------------------ *)

subsection \<open>Properties of \<open>read_text\<close>\<close>

text \<open>
  The strict UTF-8 decoder is exactly the inverse of the encoder on strings of scalar
  values: it succeeds on a byte string precisely when the bytes are the encoding of a
  string of scalar values, and then returns that string.
\<close>

theorem utf8_decode_iff: "utf8_decode bs = Some s \<longleftrightarrow> utf8_encode s = bs \<and> list_all scalar_value s"
  using utf8_decode_Some utf8_decode_encode_aux by blast

text \<open>
  The decoder rejects what CPython's strict codec rejects: a lone continuation byte,
  an overlong form, an encoded surrogate, a code point above U+10FFFF and a truncated
  sequence.
\<close>

theorem utf8_decode_rejects:
  "utf8_decode [128] = None \<and> utf8_decode [192, 128] = None \<and> utf8_decode [224, 128, 128] = None \<and>
   utf8_decode [237, 160, 128] = None \<and> utf8_decode [244, 144, 128, 128] = None \<and>
   utf8_decode [226, 130] = None"
  by (simp add: utf8_cont_def)

text \<open>
  After universal-newline translation the text holds no carriage return.
\<close>

theorem translate_newlines_no_cr: "13 \<notin> set (translate_newlines s)"
  by (induction s rule: translate_newlines.induct) auto

text \<open>
  A file whose lines are separated by \<open>\r\n\<close> reads as the same lines separated
  by \<open>\n\<close>.
\<close>

theorem read_text_crlf:
  assumes "fs env p = Some (File (utf8_encode (py_join [13, 10] ls)))"
    and "list_all scalar_value (py_join [13, 10] ls)" and "list_all (\<lambda>l. 13 \<notin> set l) ls"
  shows "read_text env p = Inr (py_join [10] ls)"
  using assms by (simp add: read_text_def read_bytes_def utf8_decode_encode_aux translate_newlines_crlf_aux)

theorem read_text_crlf_witness:
  "read_text \<lparr>cwd = [], fs = (\<lambda>q. if q = [pys ''f''] then Some (File [97, 13, 10, 98]) else None),
              git = (\<lambda>_. None)\<rparr> [pys ''f''] = Inr (pys ''a\<newline>b'')"
proof -
  have "utf8_encode (py_join [13, 10] [[97], [98]]) = [97, 13, 10, 98]"
    by (simp add: utf8_encode_def utf8_encode_char_def)
  then show ?thesis
    using read_text_crlf [of "\<lparr>cwd = [], fs = (\<lambda>q. if q = [pys ''f''] then Some (File [97, 13, 10, 98]) else None),
              git = (\<lambda>_. None)\<rparr>" "[pys ''f'']" "[[97], [98]]"]
    by (simp add: scalar_value_def pys_def)
qed

end
