(* ===== verification/Sync_Command.thy ===== *)
theory Sync_Command
  imports Alignment_Checker Text_IO
begin

text \<open>
  \<open>SyncCommand\<close> of \<open>src/docs/rules/scripts/sync.py\<close>: the search for the context file
  (\<open>find_claude_md\<close>, a bounded loop over the working directory and at most five
  ancestors), its loading (\<open>load_context\<close>: \<open>read_text\<close> then \<open>ContextParser.parse\<close>,
  every exception ending the run with status 1), the analysis (\<open>analyze_alignment\<close>),
  the report (\<open>format_output\<close>, as its list of lines) and \<open>run\<close>, which returns what it
  prints, one string per \<open>print\<close> call, and the status it passes to \<open>sys.exit\<close>.
\<close>

record sync_command =
  command_context :: "project_context option"

definition new_sync_command :: sync_command where
  "new_sync_command = \<lparr>command_context = None\<rparr>"

definition claude_locations :: "pystr list list" where
  "claude_locations =
     [[pys ''README.md''], [pys ''readme.md''], [pys ''Readme.md''], [pys ''docs'', pys ''README.md'']]"

fun find_in_locations :: "sys_env \<Rightarrow> path \<Rightarrow> pystr list list \<Rightarrow> path option" where
  "find_in_locations env current [] = None"
| "find_in_locations env current (loc # locs) =
     (let p = path_join current loc
      in if path_exists env p \<and> path_is_file env p then Some p
         else find_in_locations env current locs)"

text \<open>The \<open>for _ in range(6)\<close> loop, with the number of iterations left as its first
  argument.\<close>

fun find_loop :: "nat \<Rightarrow> sys_env \<Rightarrow> path \<Rightarrow> path option" where
  "find_loop 0 env current = None"
| "find_loop (Suc n) env current =
     (case find_in_locations env current claude_locations of
        Some p \<Rightarrow> Some p
      | None \<Rightarrow> if path_parent current = current then None
                else find_loop n env (path_parent current))"

definition find_claude_md :: "sys_env \<Rightarrow> path option" where
  "find_claude_md env = find_loop 6 env (cwd env)"

text \<open>\<open>load_context\<close>: the exception it catches, or the parsed context.  The message it
  prints names the path and the exception; the exception's own text is represented by
  its class name.\<close>

definition load_context :: "sys_env \<Rightarrow> path \<Rightarrow> io_error + project_context" where
  "load_context env p =
     (case read_text env p of
        Inl e \<Rightarrow> Inl e
      | Inr content \<Rightarrow> Inr (parse content p))"

definition io_error_name :: "io_error \<Rightarrow> pystr" where
  "io_error_name e =
     (case e of
        FileNotFoundError \<Rightarrow> pys ''FileNotFoundError''
      | IsADirectoryError \<Rightarrow> pys ''IsADirectoryError''
      | NotADirectoryError \<Rightarrow> pys ''NotADirectoryError''
      | FileExistsError \<Rightarrow> pys ''FileExistsError''
      | UnicodeDecodeError \<Rightarrow> pys ''UnicodeDecodeError'')"

definition read_error_line :: "path \<Rightarrow> io_error \<Rightarrow> pystr" where
  "read_error_line p e = pys ''Error reading '' @ path_str p @ pys '': '' @ io_error_name e"

definition analyze_alignment :: "sys_env \<Rightarrow> sync_command \<Rightarrow> alignment_issue list" where
  "analyze_alignment env cmd =
     (case command_context cmd of
        None \<Rightarrow> []
      | Some ctx \<Rightarrow> fst (check_current_state env (new_checker ctx)))"

text \<open>\<open>PurePath.name\<close>: the last component, empty for the root.\<close>

definition path_name :: "path \<Rightarrow> pystr" where
  "path_name p = (if p = [] then [] else last p)"

definition aligned_line :: pystr where
  "aligned_line = 9989 # pys '' FULLY ALIGNED - No issues detected''"

definition recalibration_line :: pystr where
  "recalibration_line = 129300 # pys '' STRATEGIC RECALIBRATION NEEDED''"

definition issue_lines :: "alignment_issue \<Rightarrow> pystr list" where
  "issue_lines i = [pys ''  - '' @ description i, pys ''    '' @ [8594] @ pys '' '' @ suggestion i]"

definition critical_lines :: "alignment_issue \<Rightarrow> pystr list" where
  "critical_lines i =
     issue_lines i @
     (case context_reference i of
        None \<Rightarrow> []
      | Some r \<Rightarrow> if r = [] then [] else [pys ''    Reference: '' @ r])"

definition group_lines ::
    "pystr \<Rightarrow> (alignment_issue \<Rightarrow> pystr list) \<Rightarrow> alignment_issue list \<Rightarrow> pystr list" where
  "group_lines header f is = (if is = [] then [] else header # concat (map f is) @ [[]])"

definition rule_lines :: "pystr \<Rightarrow> pystr list \<Rightarrow> pystr list" where
  "rule_lines header rs =
     (if take 3 rs = [] then []
      else (10 # header) # map (\<lambda>r. pys ''  '' @ [8226] @ pys '' '' @ r) (take 3 rs))"

definition format_lines :: "project_context \<Rightarrow> alignment_issue list \<Rightarrow> pystr list" where
  "format_lines ctx found_issues =
     [replicate 60 61, pys ''PROJECT CONTEXT SYNC ANALYSIS'', replicate 60 61, [],
      pys ''Project: '' @ path_name (path_parent (path ctx)), pys ''Context: '' @ path_str (path ctx), []]
     @ (if purpose ctx = [] then []
        else [pys ''Purpose:'', pys ''  '' @ take 200 (purpose ctx) @ pys ''...'', []])
     @ (if found_issues = []
        then [aligned_line, [], pys ''Current task appears to align with project context.'']
        else group_lines (10060 # pys '' CRITICAL ISSUES:'') critical_lines
               (filter (\<lambda>i. level i = CRITICAL) found_issues)
             @ group_lines ([9888, 65039] @ pys ''  WARNINGS:'') issue_lines
               (filter (\<lambda>i. level i = WARNING) found_issues)
             @ group_lines (128161 # pys '' SUGGESTIONS:'') issue_lines
               (filter (\<lambda>i. level i = SUGGESTION) found_issues))
     @ (if always_rules ctx = [] \<and> never_rules ctx = [] then []
        else [replicate 40 45, pys ''KEY RULES TO REMEMBER:'']
             @ rule_lines (pys ''ALWAYS:'') (always_rules ctx)
             @ rule_lines (pys ''NEVER:'') (never_rules ctx))
     @ [[], replicate 60 61]
     @ (if list_ex (\<lambda>i. level i = CRITICAL) found_issues
        then [[], recalibration_line,
              pys ''Critical misalignments detected. Ultrathinking recommended to:'',
              pys ''  1. Understand the project's actual requirements'',
              pys ''  2. Identify why the current approach diverged'',
              pys ''  3. Develop a corrective strategy'',
              pys ''  4. Ensure future alignment with project context'']
        else [])"

definition format_output :: "project_context \<Rightarrow> alignment_issue list \<Rightarrow> pystr" where
  "format_output ctx found_issues = py_join [10] (format_lines ctx found_issues)"

definition exit_code :: "alignment_issue list \<Rightarrow> int" where
  "exit_code found_issues =
     (if list_ex (\<lambda>i. level i = CRITICAL) found_issues then 2
      else if list_ex (\<lambda>i. level i = WARNING) found_issues then 1
      else 0)"

definition no_context_lines :: "pystr list" where
  "no_context_lines =
     [10060 # pys '' No CLAUDE.md found in current or parent directories'',
      pys ''This command requires a CLAUDE.md file to understand project context.'']"

text \<open>\<open>run\<close>: the printed strings and the exit status.\<close>

definition run :: "sys_env \<Rightarrow> sync_command \<Rightarrow> pystr list \<times> int" where
  "run env cmd =
     (case find_claude_md env of
        None \<Rightarrow> (no_context_lines, 1)
      | Some claude_path \<Rightarrow>
          (case load_context env claude_path of
             Inl e \<Rightarrow> ([read_error_line claude_path e], 1)
           | Inr ctx \<Rightarrow>
               let cmd = cmd\<lparr>command_context := Some ctx\<rparr>;
                   found_issues = analyze_alignment env cmd
               in ([format_output ctx found_issues], exit_code found_issues)))"

text \<open>The script's entry point: a fresh command, run.\<close>

definition sync_main :: "sys_env \<Rightarrow> pystr list \<times> int" where
  "sync_main env = run env new_sync_command"

text \<open>What the search promises: the first file among the four locations of the working
  directory, then of each ancestor in turn, up to five levels up.\<close>

definition search_dirs :: "path \<Rightarrow> path list" where
  "search_dirs p = map (\<lambda>k. take (length p - k) p) [0..<min 6 (Suc (length p))]"

definition find_spec :: "sys_env \<Rightarrow> path option" where
  "find_spec env =
     find (path_is_file env) (concat (map (\<lambda>d. map (path_join d) claude_locations) (search_dirs (cwd env))))"

(* ------------------------------------------------------------------------ *)

subsection \<open>The search for the context file\<close>

lemma find_in_locations_eq:
  "find_in_locations env cur locs = find (path_is_file env) (map (path_join cur) locs)"
  by (induction locs) (auto simp: path_exists_def path_is_file_def Let_def split: option.splits fs_node.splits)

lemma search_dirs_step:
  "map (\<lambda>k. take (length cur - k) cur) [0..<min (Suc n) (Suc (length cur))] =
     cur # map (\<lambda>k. take (length cur - Suc k) cur) [0..<min n (length cur)]"
proof -
  have "[0..<min (Suc n) (Suc (length cur))] = 0 # map Suc [0..<min n (length cur)]"
    by (simp add: upt_conv_Cons map_Suc_upt del: upt_Suc)
  then show ?thesis by simp
qed

lemma find_loop_eq:
  "find_loop n env cur =
     find (path_is_file env)
       (concat (map (\<lambda>d. map (path_join d) claude_locations)
                 (map (\<lambda>k. take (length cur - k) cur) [0..<min n (Suc (length cur))])))"
proof (induction n arbitrary: cur)
  case 0
  then show ?case by simp
next
  case (Suc n)
  show ?case
  proof (cases "cur = []")
    case True
    then show ?thesis
      by (simp add: find_in_locations_eq path_parent_eq_iff split: option.splits)
  next
    case False
    have "find_loop n env (butlast cur) =
            find (path_is_file env) (concat (map (\<lambda>d. map (path_join d) claude_locations)
              (map (\<lambda>k. take (length cur - Suc k) cur) [0..<min n (length cur)])))"
    proof -
      have "min n (Suc (length (butlast cur))) = min n (length cur)" using False by simp
      then show ?thesis using Suc.IH [of "butlast cur"] by (simp only: take_butlast_shift)
    qed
    with False show ?thesis
      by (simp only: search_dirs_step find_loop.simps find_in_locations_eq path_parent_eq_iff
          path_parent_def) (simp add: find_append_case path_parent_eq_iff [unfolded path_parent_def] split: option.splits)
  qed
qed

lemma find_loop_numeral [simp]:
  "find_loop (numeral k) env cur =
     (case find_in_locations env cur claude_locations of
        Some p \<Rightarrow> Some p
      | None \<Rightarrow> if path_parent cur = cur then None else find_loop (pred_numeral k) env (path_parent cur))"
  by (simp add: numeral_eq_Suc)

lemma find_claude_md_is_file: "find_claude_md env = Some p \<Longrightarrow> path_is_file env p"
  by (simp add: find_claude_md_def find_loop_eq find_Some_iff) (metis nth_mem)

lemma checker_context_new [simp]: "checker_context (new_checker ctx) = ctx"
  by (simp add: new_checker_def)

(* ------------------------------------------------------------------------ *)

subsection \<open>Sizes of the report\<close>

lemma issue_lines_length: "length (issue_lines i) = 2" "length (critical_lines i) \<le> 3"
  by (simp_all add: issue_lines_def critical_lines_def split: option.splits)

lemma length_concat_map_le:
  "(\<And>x. length (f x) \<le> c) \<Longrightarrow> length (concat (map f xs)) \<le> c * length xs"
proof (induction xs)
  case Nil then show ?case by simp
next
  case (Cons x xs)
  have "length (f x) \<le> c" by (rule Cons.prems)
  with Cons.IH [OF Cons.prems] show ?case by simp
qed

lemma group_lines_length:
  "(\<And>x. length (f x) \<le> 3) \<Longrightarrow> length (group_lines h f xs) \<le> 2 + 3 * length xs"
  using length_concat_map_le [of f 3 xs] by (simp add: group_lines_def)

lemma rule_lines_length: "length (rule_lines h rs) \<le> 4"
  by (simp add: rule_lines_def)

lemma filter_levels_length:
  "length (filter (\<lambda>i. level i = CRITICAL) xs) + length (filter (\<lambda>i. level i = WARNING) xs) +
   length (filter (\<lambda>i. level i = SUGGESTION) xs) \<le> length xs"
  by (induction xs) auto

(* ------------------------------------------------------------------------ *)

subsection \<open>Properties of the command\<close>

text \<open>
  C2. \<open>run\<close> composes the components: its exit status is 1 when no context file is
  found or the file found cannot be read, and otherwise the status \<open>exit_code\<close> derives
  from the checker's specified issues for the parsed file.
\<close>

theorem run_exit_code:
  "snd (run env cmd) =
     (case find_claude_md env of
        None \<Rightarrow> 1
      | Some p \<Rightarrow> (case read_text env p of
                    Inl e \<Rightarrow> 1
                  | Inr content \<Rightarrow> exit_code (alignment_spec env (parse content p))))"
  by (simp add: run_def load_context_def analyze_alignment_def check_current_state_issues Let_def
      split: option.splits sum.splits)

text \<open>
  C11. The exit status follows the severity of the issues: 2 exactly when one is
  critical, 1 exactly when none is critical and one is a warning, and 0 exactly when all
  are suggestions (or aligned).
\<close>

theorem exit_code_levels:
  "(exit_code is = 2 \<longleftrightarrow> list_ex (\<lambda>i. level i = CRITICAL) is) \<and>
   (exit_code is = 1 \<longleftrightarrow> \<not> list_ex (\<lambda>i. level i = CRITICAL) is \<and> list_ex (\<lambda>i. level i = WARNING) is) \<and>
   (exit_code is = 0 \<longleftrightarrow> list_all (\<lambda>i. level i = SUGGESTION \<or> level i = ALIGNED) is)"
proof -
  have "list_all (\<lambda>i. level i = SUGGESTION \<or> level i = ALIGNED) is \<longleftrightarrow>
        \<not> list_ex (\<lambda>i. level i = CRITICAL) is \<and> \<not> list_ex (\<lambda>i. level i = WARNING) is"
    by (auto simp: list_all_iff list_ex_iff intro: alignment_level.exhaust)
  then show ?thesis by (simp add: exit_code_def)
qed

text \<open>
  C5. \<open>find_claude_md\<close> implements the fixed-priority search: the first existing file
  among \<open>README.md\<close>, \<open>readme.md\<close>, \<open>Readme.md\<close> and \<open>docs/README.md\<close> in the working
  directory, then in each ancestor, at most five levels up (fewer when the root is
  reached first).
\<close>

theorem find_claude_md_spec: "find_claude_md env = find_spec env"
  by (simp add: find_claude_md_def find_spec_def find_loop_eq search_dirs_def)

text \<open>
  The search is bounded: a \<open>README.md\<close> at the root is found from a working
  directory five levels below it and not from one six levels below.
\<close>

theorem find_claude_md_depth:
  "find_claude_md \<lparr>cwd = map (\<lambda>c. [c]) [97, 98, 99, 100, 101, 102],
                   fs = (\<lambda>q. if q = [pys ''README.md''] then Some (File []) else None),
                   git = \<lambda>_. None\<rparr> = None \<and>
   find_claude_md \<lparr>cwd = map (\<lambda>c. [c]) [97, 98, 99, 100, 101],
                   fs = (\<lambda>q. if q = [pys ''README.md''] then Some (File []) else None),
                   git = \<lambda>_. None\<rparr> = Some [pys ''README.md'']"
  by (simp add: find_claude_md_def claude_locations_def path_join_def path_exists_def path_is_file_def
      path_parent_def pys_def)

text \<open>
  A nearer directory wins over location order: \<open>docs/README.md\<close> of the working
  directory is chosen over \<open>README.md\<close> of its parent.
\<close>

theorem find_claude_md_nearest_first:
  "find_claude_md \<lparr>cwd = [pys ''proj''],
                   fs = (\<lambda>q. if q = [pys ''README.md''] \<or> q = [pys ''proj'', pys ''docs'', pys ''README.md'']
                              then Some (File []) else None),
                   git = \<lambda>_. None\<rparr> = Some [pys ''proj'', pys ''docs'', pys ''README.md'']"
  by (simp add: find_claude_md_def claude_locations_def path_join_def path_exists_def path_is_file_def
      path_parent_def pys_def)

text \<open>
  C28. \<open>run\<close> prints the "No CLAUDE.md found" pair of lines and exits with status 1
  exactly when the search finds no file, although the files it searches for are README
  files.
\<close>

theorem run_no_context_iff: "run env cmd = (no_context_lines, 1) \<longleftrightarrow> find_claude_md env = None"
  by (auto simp: run_def no_context_lines_def Let_def split: option.splits sum.splits)

text \<open>
  A file the search returns always exists and is a regular file, so loading it can
  only fail by a decode error.
\<close>

theorem load_found_decode_error:
  assumes "find_claude_md env = Some p" and "load_context env p = Inl e"
  shows "e = UnicodeDecodeError"
proof -
  from find_claude_md_is_file [OF assms(1)] obtain bs where "fs env p = Some (File bs)"
    by (auto simp: path_is_file_def split: option.splits fs_node.splits)
  with assms(2) show ?thesis
    by (simp add: load_context_def read_text_def read_bytes_def split: option.splits)
qed

theorem load_found_decode_error_witness:
  "find_claude_md \<lparr>cwd = [], fs = (\<lambda>q. if q = [pys ''README.md''] then Some (File [255]) else None),
                   git = \<lambda>_. None\<rparr> = Some [pys ''README.md''] \<and>
   load_context \<lparr>cwd = [], fs = (\<lambda>q. if q = [pys ''README.md''] then Some (File [255]) else None),
                 git = \<lambda>_. None\<rparr> [pys ''README.md''] = Inl UnicodeDecodeError"
proof -
  have f: "find_claude_md \<lparr>cwd = [], fs = (\<lambda>q. if q = [pys ''README.md''] then Some (File [255]) else None),
                   git = \<lambda>_. None\<rparr> = Some [pys ''README.md'']"
    by (simp add: find_claude_md_def claude_locations_def path_join_def path_exists_def path_is_file_def)
  obtain e where l: "load_context \<lparr>cwd = [], fs = (\<lambda>q. if q = [pys ''README.md''] then Some (File [255]) else None),
                 git = \<lambda>_. None\<rparr> [pys ''README.md''] = Inl e"
    by (simp add: load_context_def read_text_def read_bytes_def)
  from f l load_found_decode_error [OF f l] show ?thesis by simp
qed

text \<open>
  The report says "FULLY ALIGNED" exactly when there is no issue.
\<close>

theorem format_aligned_iff: "aligned_line \<in> set (format_lines ctx is) \<longleftrightarrow> is = []"
  by (auto simp: format_lines_def group_lines_def issue_lines_def critical_lines_def rule_lines_def
      aligned_line_def recalibration_line_def pys_def Cons_replicate_eq split: if_splits option.splits)

text \<open>
  The report asks for strategic recalibration exactly when an issue is
  critical.
\<close>

theorem format_recalibration_iff:
  "recalibration_line \<in> set (format_lines ctx is) \<longleftrightarrow> list_ex (\<lambda>i. level i = CRITICAL) is"
  by (auto simp: format_lines_def group_lines_def issue_lines_def critical_lines_def rule_lines_def
      aligned_line_def recalibration_line_def pys_def Cons_replicate_eq split: if_splits option.splits)

text \<open>
  C23. Bound on the report: it has at most \<open>35 + 3 n\<close> lines for \<open>n\<close> issues, however
  many rules the context holds, since only the first three always- and never-rules are
  repeated and every issue takes at most three lines.
\<close>

theorem format_lines_length: "length (format_lines ctx is) \<le> 35 + 3 * length is"
proof -
  let ?c = "filter (\<lambda>i. level i = CRITICAL) is" and ?w = "filter (\<lambda>i. level i = WARNING) is"
    and ?s = "filter (\<lambda>i. level i = SUGGESTION) is"
  have g: "length (group_lines (10060 # pys '' CRITICAL ISSUES:'') critical_lines ?c) \<le> 2 + 3 * length ?c"
          "length (group_lines ([9888, 65039] @ pys ''  WARNINGS:'') issue_lines ?w) \<le> 2 + 3 * length ?w"
          "length (group_lines (128161 # pys '' SUGGESTIONS:'') issue_lines ?s) \<le> 2 + 3 * length ?s"
    by (rule group_lines_length, simp add: issue_lines_length)+
  have r: "length (rule_lines (pys ''ALWAYS:'') (always_rules ctx)) \<le> 4"
          "length (rule_lines (pys ''NEVER:'') (never_rules ctx)) \<le> 4"
    by (simp_all add: rule_lines_length)
  from g r filter_levels_length [of "is"] show ?thesis
    by (simp add: format_lines_def)
qed

text \<open>
  C25. Bound on the search: the path found has between \<open>d - 4\<close> and \<open>d + 2\<close>
  components, \<open>d\<close> the depth of the working directory: its directory is the working
  directory or one of its five nearest ancestors, and the location adds one or two
  components.
\<close>

theorem find_claude_md_depth_bound:
  assumes "find_claude_md env = Some p"
  shows "length (cwd env) \<le> length p + 4 \<and> length p \<le> length (cwd env) + 2"
proof -
  from assms have "p \<in> set (concat (map (\<lambda>d. map (path_join d) claude_locations)
                   (map (\<lambda>k. take (length (cwd env) - k) (cwd env)) [0..<min 6 (Suc (length (cwd env)))])))"
    unfolding find_claude_md_def find_loop_eq by (rule find_Some_set)
  then obtain k loc where k: "k < Suc (min 5 (length (cwd env)))" and loc: "loc \<in> set claude_locations"
    and p: "p = take (length (cwd env) - k) (cwd env) @ loc"
    by (auto simp: path_join_def simp del: upt_Suc)
  from loc have "1 \<le> length loc" "length loc \<le> 2" by (auto simp: claude_locations_def)
  with k p show ?thesis by auto
qed

theorem find_claude_md_depth_bound_witness:
  "find_claude_md \<lparr>cwd = [pys ''a'', pys ''b''], fs = (\<lambda>q. if q = [pys ''a'', pys ''docs'', pys ''README.md'']
                     then Some (File []) else None), git = \<lambda>_. None\<rparr> = Some [pys ''a'', pys ''docs'', pys ''README.md''] \<and>
   length [pys ''a'', pys ''b''] \<le> length [pys ''a'', pys ''docs'', pys ''README.md''] + 4 \<and>
   length [pys ''a'', pys ''docs'', pys ''README.md''] \<le> length [pys ''a'', pys ''b''] + 2"
proof -
  have f: "find_claude_md \<lparr>cwd = [pys ''a'', pys ''b''], fs = (\<lambda>q. if q = [pys ''a'', pys ''docs'', pys ''README.md'']
                     then Some (File []) else None), git = \<lambda>_. None\<rparr> = Some [pys ''a'', pys ''docs'', pys ''README.md'']"
    by (simp add: find_claude_md_def claude_locations_def path_join_def path_exists_def path_is_file_def
        path_parent_def pys_def)
  from f find_claude_md_depth_bound [OF f] show ?thesis by simp
qed

end
