(* ===== verification/Rule_Scorer.thy ===== *)
theory Rule_Scorer
  imports Prelude Complex_Main
begin

text \<open>
  \<open>AdvancedContextParser\<close> of \<open>src/content/scripts/sync-advanced.py\<close>: the keyword
  weight table, \<open>extract_semantic_rules\<close> (score every line, classify it, keep the lines
  with a positive score, sort by importance, highest first) and
  \<open>infer_project_type\<close>.  The local \<open>importance\<close> of the loop is \<open>imp\<close> here, the record field
  taking the name.  The weights are Python floats; every weight is a multiple of
  one half and every sum of them is far below \<open>2^53\<close>, so the float additions are exact
  and the importances are modelled as rationals.
\<close>

datatype rule_type = General | Prohibition | Requirement | Recommendation

record semantic_rule =
  rule_text :: pystr
  rule_type :: rule_type
  importance :: rat
  rule_keywords :: "pystr list"
  line_number :: nat
  rule_context :: pystr

definition keyword_weights :: "(pystr \<times> rat) list" where
  "keyword_weights =
     [(pys ''must'', 3), (pys ''never'', 3), (pys ''always'', 3),
      (pys ''required'', 5 / 2), (pys ''critical'', 5 / 2), (pys ''important'', 2),
      (pys ''should'', 3 / 2), (pys ''recommended'', 1), (pys ''optional'', 1 / 2)]"

text \<open>\<open>self.section_importance\<close>: set in \<open>__init__\<close>, read by no method.\<close>

definition section_importance :: "(pystr \<times> rat) list" where
  "section_importance =
     [(pys ''rules'', 3), (pys ''requirements'', 3), (pys ''workflow'', 5 / 2),
      (pys ''structure'', 2), (pys ''guidelines'', 3 / 2), (pys ''notes'', 1)]"

subsection \<open>Scoring one line\<close>

text \<open>The inner loop over \<open>keyword_weights.items()\<close>: add the weight and remember the
  keyword whenever the keyword is a substring of the lower-cased line.\<close>

fun score_keywords :: "pystr \<Rightarrow> (pystr \<times> rat) list \<Rightarrow> rat \<times> pystr list \<Rightarrow> rat \<times> pystr list" where
  "score_keywords line_lower [] acc = acc"
| "score_keywords line_lower ((keyword, weight) # kws) (imp, matched) =
     score_keywords line_lower kws
       (if py_in keyword line_lower then (imp + weight, matched @ [keyword]) else (imp, matched))"

definition prohibition_words :: "pystr list" where
  "prohibition_words = map pys [''never'', ''don't'', ''avoid'']"

definition requirement_words :: "pystr list" where
  "requirement_words = map pys [''must'', ''always'', ''required'']"

definition recommendation_words :: "pystr list" where
  "recommendation_words = map pys [''should'', ''recommended'']"

definition rule_type_of :: "pystr \<Rightarrow> rule_type" where
  "rule_type_of line_lower =
     (if list_ex (\<lambda>kw. py_in kw line_lower) prohibition_words then Prohibition
      else if list_ex (\<lambda>kw. py_in kw line_lower) requirement_words then Requirement
      else if list_ex (\<lambda>kw. py_in kw line_lower) recommendation_words then Recommendation
      else General)"

text \<open>\<open>lines[max(0, i - 2):min(len(lines), i + 3)]\<close> joined by newlines; natural-number
  subtraction is \<open>max(0, i - 2)\<close>.\<close>

definition rule_context_of :: "pystr list \<Rightarrow> nat \<Rightarrow> pystr" where
  "rule_context_of lines i =
     (let context_start = i - 2; context_end = min (length lines) (i + 3) in
      py_join [10] (take (context_end - context_start) (drop context_start lines)))"

definition rule_of_line :: "pystr list \<Rightarrow> nat \<Rightarrow> pystr \<Rightarrow> semantic_rule option" where
  "rule_of_line lines i line =
     (let line_lower = py_lower line;
          (imp, matched_keywords) = score_keywords line_lower keyword_weights (0, [])
      in if 0 < imp then
           Some \<lparr>rule_text = py_strip line, rule_type = rule_type_of line_lower,
                 importance = imp, rule_keywords = matched_keywords,
                 line_number = i + 1, rule_context = rule_context_of lines i\<rparr>
         else None)"

text \<open>The loop \<open>for i, line in enumerate(lines)\<close>, appending in document order.\<close>

fun collect_rules :: "pystr list \<Rightarrow> nat \<Rightarrow> pystr list \<Rightarrow> semantic_rule list" where
  "collect_rules lines i [] = []"
| "collect_rules lines i (line # rest) =
     (case rule_of_line lines i line of
        Some r \<Rightarrow> r # collect_rules lines (Suc i) rest
      | None \<Rightarrow> collect_rules lines (Suc i) rest)"

definition extract_semantic_rules :: "pystr \<Rightarrow> semantic_rule list" where
  "extract_semantic_rules content =
     (let lines = py_split 10 content in py_sort_reverse importance (collect_rules lines 0 lines))"

text \<open>The order \<open>extract_semantic_rules\<close> promises: higher importance first, and among
  equal importances the earlier line first.\<close>

definition rule_before :: "semantic_rule \<Rightarrow> semantic_rule \<Rightarrow> bool" where
  "rule_before a b \<longleftrightarrow>
     importance b < importance a \<or> (importance a = importance b \<and> line_number a < line_number b)"

definition matched_weights :: "pystr \<Rightarrow> (pystr \<times> rat) list" where
  "matched_weights line_lower = filter (\<lambda>(kw, w). py_in kw line_lower) keyword_weights"

subsection \<open>Project type\<close>

definition indicators :: "(pystr \<times> pystr list) list" where
  "indicators =
     [(pys ''web'', map pys [''frontend'', ''backend'', ''api'', ''server'', ''client'', ''react'',
                            ''vue'', ''angular'']),
      (pys ''cli'', map pys [''command'', ''cli'', ''terminal'', ''console'', ''script'']),
      (pys ''library'', map pys [''library'', ''package'', ''module'', ''sdk'', ''framework'']),
      (pys ''application'', map pys [''app'', ''application'', ''software'', ''program'']),
      (pys ''documentation'', map pys [''docs'', ''documentation'', ''guide'', ''manual'']),
      (pys ''data'', map pys [''data'', ''analysis'', ''ml'', ''ai'', ''science'', ''pipeline''])]"

text \<open>\<open>scores[project_type] += 1\<close> on a \<open>defaultdict(int)\<close>: a missing key reads as 0
  and is inserted at the end.\<close>

definition py_dict_incr :: "'k \<Rightarrow> ('k, nat) pydict \<Rightarrow> ('k, nat) pydict" where
  "py_dict_incr k d = py_dict_set k ((case map_of d k of None \<Rightarrow> 0 | Some n \<Rightarrow> n) + 1) d"

fun count_type :: "pystr \<Rightarrow> pystr \<Rightarrow> pystr list \<Rightarrow> (pystr, nat) pydict \<Rightarrow> (pystr, nat) pydict" where
  "count_type content_lower project_type [] scores = scores"
| "count_type content_lower project_type (keyword # kws) scores =
     count_type content_lower project_type kws
       (if py_in keyword content_lower then py_dict_incr project_type scores else scores)"

fun count_scores :: "pystr \<Rightarrow> (pystr \<times> pystr list) list \<Rightarrow> (pystr, nat) pydict \<Rightarrow> (pystr, nat) pydict" where
  "count_scores content_lower [] scores = scores"
| "count_scores content_lower ((project_type, keywords) # rest) scores =
     count_scores content_lower rest (count_type content_lower project_type keywords scores)"

text \<open>\<open>max(scores, key=scores.get)\<close>: the first key, in insertion order, whose value is
  not exceeded; \<open>max\<close> replaces its candidate only on a strictly greater value.\<close>

fun py_max_key :: "('k \<times> nat) \<Rightarrow> ('k, nat) pydict \<Rightarrow> 'k" where
  "py_max_key (best, v) [] = best"
| "py_max_key (best, v) ((k, n) # rest) = py_max_key (if v < n then (k, n) else (best, v)) rest"

definition infer_project_type :: "pystr \<Rightarrow> (pystr, pystr) pydict \<Rightarrow> pystr" where
  "infer_project_type content file_structure =
     (let scores = count_scores (py_lower content) indicators [] in
      case scores of [] \<Rightarrow> pys ''general'' | s # rest \<Rightarrow> py_max_key s rest)"

text \<open>How many keywords of one project type occur in the lower-cased document: the number
  of increments the inner loop makes.\<close>

definition type_score :: "pystr \<Rightarrow> pystr list \<Rightarrow> nat" where
  "type_score content_lower keywords = length (filter (\<lambda>kw. py_in kw content_lower) keywords)"

(* ------------------------------------------------------------------------ *)

subsection \<open>The scoring loop in closed form\<close>

lemma score_keywords_eq:
  "score_keywords l kws (a, ks) =
     (a + sum_list (map snd (filter (\<lambda>(kw, w). py_in kw l) kws)),
      ks @ map fst (filter (\<lambda>(kw, w). py_in kw l) kws))"
  by (induction l kws "(a, ks)" arbitrary: a ks rule: score_keywords.induct) auto

lemma keyword_weights_pos: "(kw, w) \<in> set keyword_weights \<Longrightarrow> 0 < w"
  by (auto simp: keyword_weights_def)

lemma matched_weights_sum_pos:
  "0 < sum_list (map snd (matched_weights l)) \<longleftrightarrow> matched_weights l \<noteq> []"
proof -
  have pos: "\<forall>x \<in> set (matched_weights l). 0 < snd x"
    using keyword_weights_pos by (auto simp: matched_weights_def)
  have nonneg: "0 \<le> sum_list (map snd xs)" if "\<forall>x \<in> set xs. 0 < snd x" for xs :: "(pystr \<times> rat) list"
    using that by (induction xs) (auto intro: add_nonneg_nonneg less_imp_le)
  have "0 < sum_list (map snd xs)" if "xs \<noteq> []" "\<forall>x \<in> set xs. 0 < snd x" for xs :: "(pystr \<times> rat) list"
    using that nonneg by (cases xs) (auto intro: add_pos_nonneg)
  with pos show ?thesis by fastforce
qed

lemma rule_of_line_eq:
  "rule_of_line lines i line =
     (if matched_weights (py_lower line) = [] then None
      else Some \<lparr>rule_text = py_strip line, rule_type = rule_type_of (py_lower line),
                 importance = sum_list (map snd (matched_weights (py_lower line))),
                 rule_keywords = map fst (matched_weights (py_lower line)),
                 line_number = i + 1, rule_context = rule_context_of lines i\<rparr>)"
  using matched_weights_sum_pos [of "py_lower line"]
  by (simp add: rule_of_line_def score_keywords_eq matched_weights_def Let_def)

subsection \<open>The collected rules\<close>

lemma collect_rules_mem:
  "r \<in> set (collect_rules lines i ls) \<longleftrightarrow> (\<exists>j < length ls. rule_of_line lines (i + j) (ls ! j) = Some r)"
proof (induction ls arbitrary: i)
  case Nil
  then show ?case by simp
next
  case (Cons l ls)
  have "(\<exists>j < length (l # ls). rule_of_line lines (i + j) ((l # ls) ! j) = Some r) \<longleftrightarrow>
        rule_of_line lines i l = Some r \<or> (\<exists>j < length ls. rule_of_line lines (Suc i + j) (ls ! j) = Some r)"
    by (auto simp: less_Suc_eq_0_disj)
  with Cons.IH show ?case
    by (auto split: option.split)
qed

lemma collect_rules_line_number: "r \<in> set (collect_rules lines i ls) \<Longrightarrow> i < line_number r"
  by (auto simp: collect_rules_mem rule_of_line_eq split: if_splits)

lemma collect_rules_sorted:
  "sorted_wrt (\<lambda>a b. line_number a < line_number b) (collect_rules lines i ls)"
proof (induction ls arbitrary: i)
  case Nil
  then show ?case by simp
next
  case (Cons l ls)
  have "line_number r = Suc i" if "rule_of_line lines i l = Some r" for r
    using that by (cases "matched_weights (py_lower l) = []") (auto simp: rule_of_line_eq)
  with Cons.IH [of "Suc i"] collect_rules_line_number [of _ lines "Suc i" ls] show ?case
    by (auto split: option.split)
qed

subsection \<open>Project type scores\<close>

lemma count_type_eq:
  "count_type cl t kws d =
     (if type_score cl kws = 0 then d
      else py_dict_set t ((case map_of d t of None \<Rightarrow> 0 | Some n \<Rightarrow> n) + type_score cl kws) d)"
proof (induction kws arbitrary: d)
  case Nil
  then show ?case by (simp add: type_score_def)
next
  case (Cons kw kws)
  then show ?case
    by (auto simp: type_score_def py_dict_incr_def py_dict_set_twice split: option.split)
qed

lemma count_scores_eq:
  assumes "distinct (map fst inds)" and "set (map fst inds) \<inter> set (map fst d) = {}"
  shows "count_scores cl inds d =
           d @ filter (\<lambda>(t, n). 0 < n) (map (\<lambda>(t, kws). (t, type_score cl kws)) inds)"
  using assms
proof (induction inds arbitrary: d)
  case Nil
  then show ?case by simp
next
  case (Cons tk inds)
  obtain t kws where tk: "tk = (t, kws)" by (cases tk)
  have new: "t \<notin> set (map fst d)" and "map_of d t = None"
    using Cons.prems tk by (auto simp: map_of_eq_None_iff)
  then have ct: "count_type cl t kws d =
                   (if type_score cl kws = 0 then d else d @ [(t, type_score cl kws)])"
    by (simp add: count_type_eq py_dict_set_new)
  have "set (map fst inds) \<inter> set (map fst (count_type cl t kws d)) = {}"
    using Cons.prems tk ct by auto
  with Cons.IH [of "count_type cl t kws d"] Cons.prems tk ct show ?case
    by auto
qed

lemma indicator_scores:
  "count_scores cl indicators [] =
     filter (\<lambda>(t, n). 0 < n) (map (\<lambda>(t, kws). (t, type_score cl kws)) indicators)"
proof -
  have "distinct (map fst indicators)" by (simp add: indicators_def pys_def)
  then show ?thesis using count_scores_eq [of indicators "[]" cl] by simp
qed

lemma py_max_key_max:
  "\<exists>n. (py_max_key (b, v) xs, n) \<in> set ((b, v) # xs) \<and> v \<le> n \<and> (\<forall>(k', n') \<in> set xs. n' \<le> n)"
proof (induction xs arbitrary: b v)
  case Nil
  then show ?case by simp
next
  case (Cons kn xs)
  obtain k n' where kn: "kn = (k, n')" by (cases kn)
  obtain b' v' where bv: "(b', v') = (if v < n' then (k, n') else (b, v))"
    by (cases "if v < n' then (k, n') else (b, v)") simp
  have "\<exists>n. (py_max_key (b', v') xs, n) \<in> set ((b', v') # xs) \<and> v' \<le> n \<and>
              (\<forall>(k', n'') \<in> set xs. n'' \<le> n)"
    by (rule Cons.IH)
  then obtain n where
    n: "(py_max_key (b', v') xs, n) \<in> set ((b', v') # xs)" "v' \<le> n" "\<forall>(k', n'') \<in> set xs. n'' \<le> n"
    by blast
  have le: "v \<le> v'" "n' \<le> v'" using bv by (auto split: if_splits)
  have res: "py_max_key (b, v) (kn # xs) = py_max_key (b', v') xs"
    using bv kn by (simp split: if_splits)
  have "(b', v') \<in> set ((b, v) # kn # xs)"
    using bv kn by (simp split: if_splits)
  then have "set ((b', v') # xs) \<subseteq> set ((b, v) # kn # xs)" by auto
  with n(1) have "(py_max_key (b, v) (kn # xs), n) \<in> set ((b, v) # kn # xs)"
    using res by auto
  moreover have "\<forall>(k', n'') \<in> set (kn # xs). n'' \<le> n"
    using n(2,3) le kn by auto
  ultimately show ?case
    using le n(2) by auto
qed

(* ------------------------------------------------------------------------ *)

subsection \<open>Properties of the rule scorer\<close>

text \<open>
  C9. \<open>extract_semantic_rules\<close> returns its rules highest importance first, and rules of
  equal importance in the order of their lines.
\<close>

theorem extract_semantic_rules_order: "sorted_wrt rule_before (extract_semantic_rules content)"
proof -
  let ?ls = "py_split 10 content"
  have "sorted_wrt (\<lambda>a b. - importance a < - importance b \<or>
                     (- importance a = - importance b \<and> line_number a < line_number b))
          (sort_key (\<lambda>r. - importance r) (collect_rules ?ls 0 ?ls))"
    by (rule sort_key_lex) (rule collect_rules_sorted)
  moreover have "rule_before = (\<lambda>a b. importance b < importance a \<or>
                                   (importance a = importance b \<and> line_number a < line_number b))"
    by (simp add: fun_eq_iff rule_before_def)
  ultimately show ?thesis
    by (simp add: extract_semantic_rules_def py_sort_reverse_eq Let_def)
qed

text \<open>
  C10. A line's importance is the sum of the weights of the table keywords it contains
  (as substrings, in any case), and the line is a rule exactly when it contains one.
\<close>

theorem rule_of_line_importance:
  "(\<exists>r. rule_of_line lines i line = Some r \<and>
        importance r = sum_list (map snd (matched_weights (py_lower line))) \<and>
        rule_keywords r = map fst (matched_weights (py_lower line)) \<and>
        line_number r = i + 1 \<and> rule_text r = py_strip line)
   \<longleftrightarrow> list_ex (\<lambda>(kw, w). py_in kw (py_lower line)) keyword_weights"
  by (auto simp: rule_of_line_eq matched_weights_def filter_empty_conv list_ex_iff)

text \<open>
  C13. The prohibition words take priority: a rule whose line contains \<open>never\<close>,
  \<open>don't\<close> or \<open>avoid\<close> is a prohibition, whatever other keywords it has.
\<close>

theorem rule_type_prohibition_first:
  assumes "rule_of_line lines i line = Some r"
    and "list_ex (\<lambda>kw. py_in kw (py_lower line)) prohibition_words"
  shows "rule_type r = Prohibition"
  using assms by (auto simp: rule_of_line_eq rule_type_of_def split: if_splits)

theorem rule_type_prohibition_first_witness:
  "rule_type (the (rule_of_line [pys ''Never push; always rebase''] 0 (pys ''Never push; always rebase'')))
     = Prohibition"
proof -
  let ?l = "pys ''Never push; always rebase''"
  have r: "rule_of_line [?l] 0 ?l = Some (the (rule_of_line [?l] 0 ?l))"
    by (simp add: rule_of_line_eq matched_weights_def keyword_weights_def py_simps)
  have "list_ex (\<lambda>kw. py_in kw (py_lower ?l)) prohibition_words"
    by (simp add: prohibition_words_def py_simps)
  with r show ?thesis by (rule rule_type_prohibition_first)
qed

text \<open>
  A line containing \<open>must\<close> and no other keyword of the weight table, and none of
  \<open>never\<close>, \<open>don't\<close>, \<open>avoid\<close>, is a requirement of importance 3.
\<close>

theorem must_line_requirement:
  assumes "matched_weights (py_lower line) = [(pys ''must'', 3)]"
    and "\<not> list_ex (\<lambda>kw. py_in kw (py_lower line)) prohibition_words"
  shows "\<exists>r. rule_of_line lines i line = Some r \<and> importance r = 3 \<and> rule_type r = Requirement"
proof -
  have "(pys ''must'', 3) \<in> set (matched_weights (py_lower line))" using assms(1) by simp
  then have "py_in (pys ''must'') (py_lower line)" by (simp add: matched_weights_def)
  then have "list_ex (\<lambda>kw. py_in kw (py_lower line)) requirement_words"
    by (simp add: requirement_words_def)
  with assms show ?thesis
    by (simp add: rule_of_line_eq rule_type_of_def)
qed

theorem must_line_requirement_witness:
  "\<exists>r. rule_of_line [pys ''You must run tests''] 0 (pys ''You must run tests'') = Some r \<and>
       importance r = 3 \<and> rule_type r = Requirement"
  by (rule must_line_requirement)
     (simp_all add: matched_weights_def keyword_weights_def prohibition_words_def py_simps)

text \<open>
  \<open>infer_project_type\<close> answers \<open>general\<close> exactly when no indicator keyword of any
  project type occurs in the document.
\<close>

theorem infer_project_type_general:
  "infer_project_type content s = pys ''general'' \<longleftrightarrow>
     list_all (\<lambda>(t, kws). type_score (py_lower content) kws = 0) indicators"
proof -
  let ?sc = "filter (\<lambda>(t, n). 0 < n)
               (map (\<lambda>(t, kws). (t, type_score (py_lower content) kws)) indicators)"
  have gen: "pys ''general'' \<notin> set (map fst indicators)" by (simp add: indicators_def pys_def)
  have keys: "k \<in> set (map fst indicators)" if "(k, n) \<in> set ?sc" for k n
    using that by force
  have "py_max_key s0 rest \<noteq> pys ''general''" if "?sc = s0 # rest" for s0 rest
  proof -
    obtain b v where s0: "s0 = (b, v)" by (cases s0)
    from py_max_key_max [of b v rest] obtain n
      where "(py_max_key (b, v) rest, n) \<in> set ((b, v) # rest)"
      by blast
    then have "(py_max_key (b, v) rest, n) \<in> set ?sc"
      using that s0 by simp
    with keys gen s0 show ?thesis by metis
  qed
  moreover have "list_all (\<lambda>(t, kws). type_score (py_lower content) kws = 0) indicators \<longleftrightarrow>
                 ?sc = []"
    by (auto simp: filter_empty_conv list_all_iff)
  moreover have "infer_project_type content s =
                   (case ?sc of [] \<Rightarrow> pys ''general'' | s0 # rest \<Rightarrow> py_max_key s0 rest)"
    by (simp add: infer_project_type_def indicator_scores)
  ultimately show ?thesis
    by (auto split: list.split)
qed

text \<open>
  Otherwise the answer is a project type whose keyword count is maximal among all
  types (ties go to the type listed first, as \<open>max\<close> keeps its first maximum).
\<close>

theorem infer_project_type_max:
  assumes "infer_project_type content s \<noteq> pys ''general''"
  shows "\<exists>kws. (infer_project_type content s, kws) \<in> set indicators \<and>
           0 < type_score (py_lower content) kws \<and>
           list_all (\<lambda>(t', kws'). type_score (py_lower content) kws' \<le> type_score (py_lower content) kws)
             indicators"
proof -
  let ?f = "\<lambda>(t, kws). (t, type_score (py_lower content) kws)"
  let ?sc = "filter (\<lambda>(t, n). 0 < n) (map ?f indicators)"
  have inf: "infer_project_type content s =
               (case ?sc of [] \<Rightarrow> pys ''general'' | s0 # rest \<Rightarrow> py_max_key s0 rest)"
    by (simp add: infer_project_type_def indicator_scores)
  with assms obtain b v rest where sc: "?sc = (b, v) # rest"
    by (auto split: list.splits)
  with inf have res: "infer_project_type content s = py_max_key (b, v) rest" by simp
  from py_max_key_max [of b v rest] obtain n where
    n: "(py_max_key (b, v) rest, n) \<in> set ((b, v) # rest)" "v \<le> n"
       "\<forall>(k', n') \<in> set rest. n' \<le> n"
    by blast
  have all: "n' \<le> n" if "(k', n') \<in> set ?sc" for k' n'
    using that n(2,3) sc by auto
  from n(1) sc have "(py_max_key (b, v) rest, n) \<in> set ?sc" by simp
  then obtain kws where kws: "(py_max_key (b, v) rest, kws) \<in> set indicators"
    "n = type_score (py_lower content) kws" "0 < n"
    by auto
  have "type_score (py_lower content) kws' \<le> n" if "(t', kws') \<in> set indicators" for t' kws'
  proof (cases "type_score (py_lower content) kws' = 0")
    case False
    then have "(t', type_score (py_lower content) kws') \<in> set ?sc" using that by force
    then show ?thesis by (rule all)
  qed simp
  with kws res show ?thesis
    by (auto simp: list_all_iff)
qed

theorem infer_project_type_max_witness:
  "infer_project_type (pys ''A CLI script for a data science pipeline'') [] = pys ''data'' \<and>
   (\<exists>kws. (pys ''data'', kws) \<in> set indicators \<and>
      0 < type_score (py_lower (pys ''A CLI script for a data science pipeline'')) kws \<and>
      list_all (\<lambda>(t', kws'). type_score (py_lower (pys ''A CLI script for a data science pipeline'')) kws'
                  \<le> type_score (py_lower (pys ''A CLI script for a data science pipeline'')) kws)
        indicators)"
proof -
  let ?c = "pys ''A CLI script for a data science pipeline''"
  have t: "infer_project_type ?c [] = pys ''data''"
    by (simp add: infer_project_type_def indicators_def py_dict_incr_def py_simps)
  have "infer_project_type ?c [] \<noteq> pys ''general''" by (subst t) (simp add: pys_def)
  from infer_project_type_max [OF this] t show ?thesis by simp
qed

text \<open>
  The spec's claim that a line with \<open>must\<close> and no other table keyword is always a
  requirement does not hold of the code: \<open>avoid\<close> is no table keyword but a prohibition
  word, so "You must avoid force pushes" scores 3 and is a prohibition.
\<close>

theorem must_avoid_is_prohibition:
  "map_option (\<lambda>r. (importance r, rule_type r))
     (rule_of_line [pys ''You must avoid force pushes''] 0 (pys ''You must avoid force pushes''))
   = Some (3, Prohibition)"
  by (simp add: rule_of_line_eq matched_weights_def keyword_weights_def rule_type_of_def
      prohibition_words_def py_simps)

text \<open>
  The spec says the keyword \<open>required\<close> also matches inside \<open>requirement\<close>; it
  does not (the words differ after \<open>require\<close>), so a line headed "Requirement:" carries
  no weight and is no rule at all.
\<close>

theorem requirement_line_unscored:
  "rule_of_line [pys ''Requirement: all tests pass''] 0 (pys ''Requirement: all tests pass'') = None"
  by (simp add: rule_of_line_eq matched_weights_def keyword_weights_def py_simps)

end
