(* ===== verification/Task_Inference.thy ===== *)
theory Task_Inference
  imports Environment
begin

text \<open>
  \<open>TaskContext\<close>, \<open>TaskInference.get_current_task_context\<close> and \<open>AlignmentEngine\<close> of
  \<open>src/content/scripts/sync-advanced.py\<close> (the GitStateReader of the spec).  The method
  fills a default context from three \<open>git\<close> queries inside one \<open>try\<close> block and
  swallows every exception: \<open>task_context_try\<close> returns \<open>Inl\<close> the context as far as it
  was filled when an exception was raised, \<open>Inr\<close> the context when the block completed.
  A query that raises is \<open>None\<close> in the environment; \<open>c.split()[-1]\<close> of a blank line
  raises \<open>IndexError\<close>.  \<open>str.lower\<close> is the ASCII case folding of the prelude.
\<close>

record task_context =
  recent_files :: "pystr list"
  recent_commits :: "pystr list"
  current_branch :: pystr
  uncommitted_changes :: "pystr list"
  task_type :: pystr
  estimated_scope :: pystr

definition default_task_context :: task_context where
  "default_task_context =
     \<lparr>recent_files = [], recent_commits = [], current_branch = pys ''unknown'',
      uncommitted_changes = [], task_type = pys ''unknown'', estimated_scope = pys ''unknown''\<rparr>"

text \<open>\<open>c.split()[-1]\<close>: \<open>None\<close> is the \<open>IndexError\<close> of a line with no word.\<close>

definition last_word :: "pystr \<Rightarrow> pystr option" where
  "last_word c = (case py_split_ws c of [] \<Rightarrow> None | ws \<Rightarrow> Some (last ws))"

definition task_type_step :: "task_context \<Rightarrow> task_context" where
  "task_type_step ctx =
     (let branch_lower = py_lower (current_branch ctx)
      in if py_in (pys ''feature'') branch_lower then ctx\<lparr>task_type := pys ''feature''\<rparr>
         else if py_in (pys ''fix'') branch_lower \<or> py_in (pys ''bug'') branch_lower
           then ctx\<lparr>task_type := pys ''bugfix''\<rparr>
         else if py_in (pys ''docs'') branch_lower then ctx\<lparr>task_type := pys ''documentation''\<rparr>
         else if py_in (pys ''refactor'') branch_lower then ctx\<lparr>task_type := pys ''refactor''\<rparr>
         else if py_in (pys ''test'') branch_lower then ctx\<lparr>task_type := pys ''testing''\<rparr>
         else ctx)"

definition scope_name :: "nat \<Rightarrow> pystr" where
  "scope_name num_changes =
     (if num_changes = 0 then pys ''none''
      else if num_changes \<le> 3 then pys ''small''
      else if num_changes \<le> 10 then pys ''medium''
      else pys ''large'')"

definition scope_step :: "task_context \<Rightarrow> task_context" where
  "scope_step ctx = ctx\<lparr>estimated_scope := scope_name (length (uncommitted_changes ctx))\<rparr>"

definition infer_step :: "task_context \<Rightarrow> task_context" where
  "infer_step ctx = scope_step (task_type_step ctx)"

definition task_context_try :: "sys_env \<Rightarrow> task_context + task_context" where
  "task_context_try env =
     (let context = default_task_context
      in case git env GitBranchShowCurrent of
           None \<Rightarrow> Inl context
         | Some result \<Rightarrow>
             let context = (if returncode result = 0
                            then context\<lparr>current_branch := py_strip (stdout result)\<rparr> else context)
             in case git env GitLogOneline5 of
                  None \<Rightarrow> Inl context
                | Some result \<Rightarrow>
                    let context = (if returncode result = 0
                                   then context\<lparr>recent_commits := py_split 10 (py_strip (stdout result))\<rparr>
                                   else context)
                    in case git env GitStatusPorcelain of
                         None \<Rightarrow> Inl context
                       | Some result \<Rightarrow>
                           if returncode result = 0 then
                             let changes = py_split 10 (py_strip (stdout result));
                                 context = context\<lparr>uncommitted_changes := filter (\<lambda>c. c \<noteq> []) changes\<rparr>
                             in case those (map last_word (filter (\<lambda>c. c \<noteq> []) changes)) of
                                  None \<Rightarrow> Inl context
                                | Some files \<Rightarrow> Inr (infer_step (context\<lparr>recent_files := files\<rparr>))
                           else Inr (infer_step context))"

definition get_current_task_context :: "sys_env \<Rightarrow> task_context" where
  "get_current_task_context env = (case task_context_try env of Inl c \<Rightarrow> c | Inr c \<Rightarrow> c)"

text \<open>\<open>AlignmentEngine\<close>: the project context is untyped (\<open>Any\<close>) in the source; the two
  checks are placeholders that return an empty list.\<close>

record ('p, 'i) alignment_engine =
  engine_project :: 'p
  engine_task :: task_context
  engine_issues :: "'i list"

definition new_alignment_engine :: "'p \<Rightarrow> task_context \<Rightarrow> ('p, 'i) alignment_engine" where
  "new_alignment_engine p t = \<lparr>engine_project = p, engine_task = t, engine_issues = []\<rparr>"

definition check_task_project_fit :: "('p, 'i) alignment_engine \<Rightarrow> 'i list" where
  "check_task_project_fit eng = []"

definition check_scope_alignment :: "('p, 'i) alignment_engine \<Rightarrow> 'i list" where
  "check_scope_alignment eng = []"

definition suggest_next_steps :: "('p, 'i) alignment_engine \<Rightarrow> pystr list" where
  "suggest_next_steps eng =
     (if current_branch (engine_task eng) = pys ''main''
      then [pys ''Create a feature branch for your changes''] else [])
     @ (if uncommitted_changes (engine_task eng) = [] then []
        else if 10 < length (uncommitted_changes (engine_task eng))
        then [pys ''Consider breaking large changes into smaller commits''] else [])
     @ (if recent_commits (engine_task eng) = []
        then [pys ''Make your first commit to establish task context''] else [])"

text \<open>What the spec promises of the task type: the first entry of the priority table
  whose key occurs in the lower-cased branch name, \<open>unknown\<close> when none does.\<close>

definition task_type_table :: "(string \<times> string) list" where
  "task_type_table =
     [(''feature'', ''feature''), (''fix'', ''bugfix''), (''bug'', ''bugfix''), (''docs'', ''documentation''),
      (''refactor'', ''refactor''), (''test'', ''testing'')]"

definition spec_task_type :: "pystr \<Rightarrow> pystr" where
  "spec_task_type b =
     (case find (\<lambda>(k, t). py_in (pys k) (py_lower b)) task_type_table of
        Some (k, t) \<Rightarrow> pys t
      | None \<Rightarrow> pys ''unknown'')"

(* ------------------------------------------------------------------------ *)

subsection \<open>Lemmas\<close>

lemma infer_step_fields [simp]:
  "current_branch (infer_step c) = current_branch c"
  "recent_commits (infer_step c) = recent_commits c"
  "recent_files (infer_step c) = recent_files c"
  "uncommitted_changes (infer_step c) = uncommitted_changes c"
  "estimated_scope (infer_step c) = scope_name (length (uncommitted_changes c))"
  by (simp_all add: infer_step_def scope_step_def task_type_step_def Let_def)

lemma task_type_step_spec:
  "task_type_step c = (if spec_task_type (current_branch c) = pys ''unknown'' then c
                       else c\<lparr>task_type := spec_task_type (current_branch c)\<rparr>)"
  by (simp add: task_type_step_def spec_task_type_def task_type_table_def Let_def pys_def)

lemma task_context_try_Inr:
  "task_context_try env = Inr c \<Longrightarrow> \<exists>c'. task_type c' = pys ''unknown'' \<and> c = infer_step c'"
  unfolding task_context_try_def Let_def
  by (auto split: option.splits if_splits intro!: exI [where P = "\<lambda>c'. task_type c' = pys ''unknown'' \<and> _ c'"])
     (simp_all add: default_task_context_def)

lemma scope_name_bands:
  "(scope_name n = pys ''none'' \<longleftrightarrow> n = 0) \<and>
   (scope_name n = pys ''small'' \<longleftrightarrow> n \<in> {1..3}) \<and>
   (scope_name n = pys ''medium'' \<longleftrightarrow> n \<in> {4..10}) \<and>
   (scope_name n = pys ''large'' \<longleftrightarrow> 10 < n)"
  by (simp add: scope_name_def pys_def)

lemma those_map_None_iff: "those (map f xs) = None \<longleftrightarrow> list_ex (\<lambda>x. f x = None) xs"
  by (induction xs) (auto split: option.splits)

lemma last_word_None_iff: "last_word c = None \<longleftrightarrow> py_split_ws c = []"
  by (simp add: last_word_def split: list.splits)

lemma recent_files_fail_iff:
  "those (map last_word (filter (\<lambda>c. c \<noteq> []) xs)) = None \<longleftrightarrow>
     list_ex (\<lambda>c. c \<noteq> [] \<and> py_split_ws c = []) xs"
  by (auto simp: those_map_None_iff last_word_None_iff list_ex_iff)

(* ------------------------------------------------------------------------ *)

subsection \<open>Properties of the task inference\<close>

text \<open>
  C12. When the \<open>try\<close> block completes, the if-chain on the branch name implements the
  priority table (feature, then fix or bug, docs, refactor, test), and the scope is
  'none' for no uncommitted change, 'small' for one to three, 'medium' for four to ten
  and 'large' above ten.
\<close>

theorem task_inference_complete:
  assumes "task_context_try env = Inr c"
  shows "task_type c = spec_task_type (current_branch c) \<and>
         (estimated_scope c = pys ''none'' \<longleftrightarrow> uncommitted_changes c = []) \<and>
         (estimated_scope c = pys ''small'' \<longleftrightarrow> length (uncommitted_changes c) \<in> {1..3}) \<and>
         (estimated_scope c = pys ''medium'' \<longleftrightarrow> length (uncommitted_changes c) \<in> {4..10}) \<and>
         (estimated_scope c = pys ''large'' \<longleftrightarrow> 10 < length (uncommitted_changes c))"
proof -
  obtain c' where c': "task_type c' = pys ''unknown''" "c = infer_step c'"
    using task_context_try_Inr [OF assms] by blast
  have "task_type (infer_step c') = spec_task_type (current_branch c')"
    using c'(1) by (simp add: infer_step_def scope_step_def task_type_step_spec)
  moreover have "estimated_scope c = scope_name (length (uncommitted_changes c))"
    using c'(2) by simp
  ultimately show ?thesis
    using c' scope_name_bands [of "length (uncommitted_changes c)"] by simp
qed

theorem task_inference_complete_witness:
  "task_context_try \<lparr>cwd = [], fs = \<lambda>_. None,
      git = (\<lambda>q. Some \<lparr>returncode = 0, stdout = (case q of GitBranchShowCurrent \<Rightarrow> pys ''fix/crash''
                     | GitLogOneline5 \<Rightarrow> pys ''abc1234 First'' | GitStatusPorcelain \<Rightarrow> pys '' M a.py'')\<rparr>)\<rparr> =
     Inr \<lparr>recent_files = [pys ''a.py''], recent_commits = [pys ''abc1234 First''], current_branch = pys ''fix/crash'',
          uncommitted_changes = [pys ''M a.py''], task_type = pys ''bugfix'', estimated_scope = pys ''small''\<rparr> \<and>
   pys ''bugfix'' = spec_task_type (pys ''fix/crash'') \<and> length [pys ''M a.py''] \<in> {1..3}"
proof -
  have r: "task_context_try \<lparr>cwd = [], fs = \<lambda>_. None,
      git = (\<lambda>q. Some \<lparr>returncode = 0, stdout = (case q of GitBranchShowCurrent \<Rightarrow> pys ''fix/crash''
                     | GitLogOneline5 \<Rightarrow> pys ''abc1234 First'' | GitStatusPorcelain \<Rightarrow> pys '' M a.py'')\<rparr>)\<rparr> =
     Inr \<lparr>recent_files = [pys ''a.py''], recent_commits = [pys ''abc1234 First''], current_branch = pys ''fix/crash'',
          uncommitted_changes = [pys ''M a.py''], task_type = pys ''bugfix'', estimated_scope = pys ''small''\<rparr>"
    by (simp add: task_context_try_def default_task_context_def infer_step_def scope_step_def
        task_type_step_def scope_name_def last_word_def py_split_ws.simps Let_def py_simps)
  from task_inference_complete [OF r] r show ?thesis by simp
qed

text \<open>
  The branch field depends on the branch query alone: it is the stripped output
  when the query succeeds, and \<open>unknown\<close> when it fails or raises; the other queries
  cannot change it.
\<close>

theorem current_branch_query:
  "current_branch (get_current_task_context env) =
     (case git env GitBranchShowCurrent of
        None \<Rightarrow> pys ''unknown''
      | Some r \<Rightarrow> if returncode r = 0 then py_strip (stdout r) else pys ''unknown'')"
  by (simp add: get_current_task_context_def task_context_try_def default_task_context_def Let_def
      split: option.splits sum.splits)

text \<open>
  C31. The try block is cut short exactly when a query raises, or when the status
  succeeds with a non-empty line that has no word (\<open>c.split()[-1]\<close> raises
  \<open>IndexError\<close>).
\<close>

theorem task_context_aborts_iff:
  "isl (task_context_try env) \<longleftrightarrow>
     git env GitBranchShowCurrent = None \<or> git env GitLogOneline5 = None \<or>
     (case git env GitStatusPorcelain of
        None \<Rightarrow> True
      | Some r \<Rightarrow> returncode r = 0 \<and>
                  list_ex (\<lambda>c. c \<noteq> [] \<and> py_split_ws c = []) (py_split 10 (py_strip (stdout r))))"
  by (auto simp: task_context_try_def Let_def recent_files_fail_iff [symmetric] split: option.splits)

text \<open>
  Finding: outside a repository every query fails with a non-zero status, and the
  context keeps every default except the scope, which becomes \<open>none\<close>, where the spec
  says the scope of an unavailable repository is \<open>unknown\<close>.
\<close>

theorem not_a_repository:
  "get_current_task_context (env\<lparr>git := \<lambda>_. Some \<lparr>returncode = 128, stdout = s\<rparr>\<rparr>) =
     default_task_context\<lparr>estimated_scope := pys ''none''\<rparr>"
  by (simp add: get_current_task_context_def task_context_try_def default_task_context_def
      infer_step_def scope_step_def task_type_step_def scope_name_def Let_def py_simps)

text \<open>
  Finding: the recent files are the last words of the porcelain lines, so an
  untracked \<open>my file.txt\<close>, which git quotes, is recorded as \<open>file.txt"\<close>.
\<close>

theorem recent_file_with_space:
  "recent_files (get_current_task_context \<lparr>cwd = [], fs = \<lambda>_. None,
      git = (\<lambda>q. Some \<lparr>returncode = 0, stdout = (case q of GitBranchShowCurrent \<Rightarrow> pys ''main''
                     | GitLogOneline5 \<Rightarrow> pys ''abc1234 First''
                     | GitStatusPorcelain \<Rightarrow> pys ''?? '' @ [34] @ pys ''my file.txt'' @ [34])\<rparr>)\<rparr>) =
     [pys ''file.txt'' @ [34]]"
  by (simp add: get_current_task_context_def task_context_try_def default_task_context_def infer_step_def
      scope_step_def task_type_step_def scope_name_def last_word_def py_split_ws.simps Let_def py_simps)

text \<open>
  Finding: the advanced engine suggests a feature branch on \<open>main\<close> but not on
  \<open>master\<close>, which the alignment checker of \<open>sync.py\<close> treats alike.
\<close>

theorem suggest_next_steps_master:
  "suggest_next_steps (new_alignment_engine p
     (default_task_context\<lparr>current_branch := pys ''master'', recent_commits := [pys ''abc1234 First'']\<rparr>)) = [] \<and>
   suggest_next_steps (new_alignment_engine p
     (default_task_context\<lparr>current_branch := pys ''main'', recent_commits := [pys ''abc1234 First'']\<rparr>)) =
     [pys ''Create a feature branch for your changes'']"
  by (simp add: suggest_next_steps_def new_alignment_engine_def default_task_context_def pys_def)

end
