(* ===== verification/Sync_Cache.thy ===== *)
theory Sync_Cache
  imports Text_IO
begin

text \<open>
  \<open>ContextCache\<close> and \<open>SyncCache\<close> of \<open>src/content/scripts/sync-advanced.py\<close>: a
  read-through cache of parsed contexts keyed by \<open>str(path)\<close> and validated by the MD5
  digest of the file's bytes.  The digest function \<open>md5\<close> (bytes to hex string), the
  clock reading \<open>now\<close> and the home directory are parameters; the parsed context and
  the timestamp have type variables, as the source types them \<open>Any\<close> and \<open>float\<close>.
  The constructor creates the cache directory with
  \<open>Path.mkdir(parents=True, exist_ok=True)\<close>, modelled as \<open>mkdir_parents\<close> on the file
  system.
\<close>

type_synonym file_system = "path \<Rightarrow> fs_node option"

record ('c, 't) context_cache =
  cache_file_path :: path
  file_hash :: pystr
  parsed_context :: 'c
  timestamp :: 't

record ('c, 't) sync_cache =
  cache_dir :: path
  cache :: "(pystr, ('c, 't) context_cache) pydict"

text \<open>\<open>Path.mkdir(parents=True, exist_ok=True)\<close>: an existing directory is accepted, an
  existing file raises \<open>FileExistsError\<close>; a missing path is created after its parent,
  and a parent that is a file makes \<open>os.mkdir\<close> raise \<open>NotADirectoryError\<close>.  The root
  always exists.\<close>

definition fs_kind :: "file_system \<Rightarrow> path \<Rightarrow> fs_node option" where
  "fs_kind fsys p = (if p = [] then Some Dir else fsys p)"

function mkdir_parents :: "file_system \<Rightarrow> path \<Rightarrow> io_error + file_system" where
  "mkdir_parents fsys p =
     (case fs_kind fsys p of
        Some Dir \<Rightarrow> Inr fsys
      | Some (File _) \<Rightarrow> Inl FileExistsError
      | None \<Rightarrow>
          (case fs_kind fsys (butlast p) of
             Some Dir \<Rightarrow> Inr (fsys(p \<mapsto> Dir))
           | Some (File _) \<Rightarrow> Inl NotADirectoryError
           | None \<Rightarrow>
               (case mkdir_parents fsys (butlast p) of
                  Inl e \<Rightarrow> Inl e
                | Inr fsys' \<Rightarrow> Inr (fsys'(p \<mapsto> Dir)))))"
  by pat_completeness auto
termination
proof (relation "measure (\<lambda>(fsys, p). length p)")
  fix fsys p
  assume "fs_kind fsys p = None"
  then have "p \<noteq> []" by (auto simp: fs_kind_def)
  then show "((fsys, butlast p), fsys, p) \<in> measure (\<lambda>(fsys, p). length p)" by simp
qed simp

declare mkdir_parents.simps [simp del]

definition new_sync_cache ::
    "path \<Rightarrow> path option \<Rightarrow> file_system \<Rightarrow> io_error + (('c, 't) sync_cache \<times> file_system)" where
  "new_sync_cache home cache_dir_arg fsys =
     (let dir = (case cache_dir_arg of Some d \<Rightarrow> d | None \<Rightarrow> home @ [pys ''.cache'', pys ''sync''])
      in case mkdir_parents fsys dir of
           Inl e \<Rightarrow> Inl e
         | Inr fsys' \<Rightarrow> Inr (\<lparr>cache_dir = dir, cache = []\<rparr>, fsys'))"

definition get_file_hash :: "(nat list \<Rightarrow> pystr) \<Rightarrow> sys_env \<Rightarrow> path \<Rightarrow> io_error + pystr" where
  "get_file_hash md5 env file_path =
     (case read_bytes env file_path of Inl e \<Rightarrow> Inl e | Inr bs \<Rightarrow> Inr (md5 bs))"

definition cache_get ::
    "(nat list \<Rightarrow> pystr) \<Rightarrow> sys_env \<Rightarrow> ('c, 't) sync_cache \<Rightarrow> path \<Rightarrow> io_error + 'c option" where
  "cache_get md5 env sc file_path =
     (let cache_key = path_str file_path
      in case map_of (cache sc) cache_key of
           None \<Rightarrow> Inr None
         | Some cached \<Rightarrow>
             (case get_file_hash md5 env file_path of
                Inl e \<Rightarrow> Inl e
              | Inr current_hash \<Rightarrow>
                  Inr (if file_hash cached = current_hash then Some (parsed_context cached) else None)))"

definition cache_set ::
    "(nat list \<Rightarrow> pystr) \<Rightarrow> 't \<Rightarrow> sys_env \<Rightarrow> ('c, 't) sync_cache \<Rightarrow> path \<Rightarrow> 'c \<Rightarrow>
       io_error + ('c, 't) sync_cache" where
  "cache_set md5 now env sc file_path context =
     (let cache_key = path_str file_path
      in case get_file_hash md5 env file_path of
           Inl e \<Rightarrow> Inl e
         | Inr h \<Rightarrow>
             Inr (sc\<lparr>cache := py_dict_set cache_key
                                \<lparr>cache_file_path = file_path, file_hash = h, parsed_context = context,
                                 timestamp = now\<rparr> (cache sc)\<rparr>))"

text \<open>The invariant: the cache is a dictionary whose every key is the string of the path
  its entry records.\<close>

definition cache_ok :: "('c, 't) sync_cache \<Rightarrow> bool" where
  "cache_ok sc \<longleftrightarrow>
     py_dict_wf (cache sc) \<and> list_all (\<lambda>(k, e). k = path_str (cache_file_path e)) (cache sc)"

(* ------------------------------------------------------------------------ *)

subsection \<open>Lemmas\<close>

lemma set_py_dict_set_subset: "x \<in> set (py_dict_set k v d) \<Longrightarrow> x = (k, v) \<or> x \<in> set d"
  by (induction d) (auto split: if_splits)

lemma mkdir_parents_dir:
  "mkdir_parents fsys p = Inr fsys' \<Longrightarrow> fs_kind fsys' p = Some Dir"
proof (induction fsys p arbitrary: fsys' rule: mkdir_parents.induct)
  case (1 fsys p)
  show ?case
    using "1.prems" by (subst (asm) mkdir_parents.simps)
      (auto simp: fs_kind_def split: option.splits fs_node.splits sum.splits if_splits)
qed

lemma mkdir_parents_keeps:
  "mkdir_parents fsys p = Inr fsys' \<Longrightarrow> fsys q \<noteq> None \<Longrightarrow> fsys' q = fsys q"
proof (induction fsys p arbitrary: fsys' rule: mkdir_parents.induct)
  case (1 fsys p)
  show ?case
    using "1.prems" "1.IH" by (subst (asm) mkdir_parents.simps)
      (auto simp: fs_kind_def split: option.splits fs_node.splits sum.splits if_splits)
qed

lemma cache_set_Inr:
  "cache_set md5 now env sc p ctx = Inr sc' \<Longrightarrow>
     \<exists>bs. fs env p = Some (File bs) \<and>
       sc' = sc\<lparr>cache := py_dict_set (path_str p)
                  \<lparr>cache_file_path = p, file_hash = md5 bs, parsed_context = ctx, timestamp = now\<rparr> (cache sc)\<rparr>"
  by (auto simp: cache_set_def get_file_hash_def read_bytes_def Let_def split: option.splits fs_node.splits)

lemma cache_set_example:
  "cache_set (\<lambda>bs. bs) (0::nat) \<lparr>cwd = [], fs = (\<lambda>q. if q = [pys ''f''] then Some (File [65]) else None), git = \<lambda>_. None\<rparr>
     (\<lparr>cache_dir = [], cache = []\<rparr> :: (nat, nat) sync_cache) [pys ''f''] (7::nat) =
   Inr \<lparr>cache_dir = [], cache = [(path_str [pys ''f''], \<lparr>cache_file_path = [pys ''f''], file_hash = [65],
                                   parsed_context = (7::nat), timestamp = (0::nat)\<rparr>)]\<rparr>"
  by (simp add: cache_set_def get_file_hash_def read_bytes_def)

(* ------------------------------------------------------------------------ *)

subsection \<open>Properties of the cache\<close>

text \<open>
  C22. Round trip: right after \<open>set\<close> stores a context for a file, \<open>get\<close> on the
  unchanged file returns that context.
\<close>

theorem cache_roundtrip:
  "cache_set md5 now env sc p ctx = Inr sc' \<Longrightarrow> cache_get md5 env sc' p = Inr (Some ctx)"
  by (auto dest!: cache_set_Inr simp: cache_get_def get_file_hash_def read_bytes_def)

theorem cache_roundtrip_witness:
  "cache_set (\<lambda>bs. bs) (0::nat) \<lparr>cwd = [], fs = (\<lambda>q. if q = [pys ''f''] then Some (File [65]) else None), git = \<lambda>_. None\<rparr>
     (\<lparr>cache_dir = [], cache = []\<rparr> :: (nat, nat) sync_cache) [pys ''f''] (7::nat) =
   Inr \<lparr>cache_dir = [], cache = [(path_str [pys ''f''], \<lparr>cache_file_path = [pys ''f''], file_hash = [65],
                                   parsed_context = (7::nat), timestamp = (0::nat)\<rparr>)]\<rparr> \<and>
   cache_get (\<lambda>bs. bs) \<lparr>cwd = [], fs = (\<lambda>q. if q = [pys ''f''] then Some (File [65]) else None), git = \<lambda>_. None\<rparr>
     \<lparr>cache_dir = [], cache = [(path_str [pys ''f''], \<lparr>cache_file_path = [pys ''f''], file_hash = [65],
                                   parsed_context = (7::nat), timestamp = (0::nat)\<rparr>)]\<rparr> [pys ''f''] = Inr (Some (7::nat))"
  using cache_roundtrip [OF cache_set_example] cache_set_example by simp

text \<open>
  C29. Invalidation: once the file's bytes change to bytes of a different digest,
  \<open>get\<close> returns nothing, so a stale context is never served.
\<close>

theorem cache_stale:
  assumes "cache_set md5 now env sc p ctx = Inr sc'" and "fs env p = Some (File bs)"
    and "fs env' p = Some (File bs')" and "md5 bs' \<noteq> md5 bs"
  shows "cache_get md5 env' sc' p = Inr None"
  using cache_set_Inr [OF assms(1)] assms(2-4)
  by (auto simp: cache_get_def get_file_hash_def read_bytes_def)

theorem cache_stale_witness:
  "cache_get (\<lambda>bs. bs) \<lparr>cwd = [], fs = (\<lambda>q. if q = [pys ''f''] then Some (File [66]) else None), git = \<lambda>_. None\<rparr>
     \<lparr>cache_dir = [], cache = [(path_str [pys ''f''], \<lparr>cache_file_path = [pys ''f''], file_hash = [65],
                                   parsed_context = (7::nat), timestamp = (0::nat)\<rparr>)]\<rparr> [pys ''f''] = (Inr None :: io_error + nat option)"
  using cache_stale [OF cache_set_example, of "[65]" "\<lparr>cwd = [], fs = (\<lambda>q. if q = [pys ''f''] then Some (File [66]) else None), git = \<lambda>_. None\<rparr>" "[66]"] by (simp add: pys_def)

text \<open>
  \<open>set\<close> preserves the cache invariant: the keys stay distinct and each is the
  string of the path its entry records.
\<close>

theorem cache_set_ok: "cache_ok sc \<Longrightarrow> cache_set md5 now env sc p ctx = Inr sc' \<Longrightarrow> cache_ok sc'"
  by (auto dest!: cache_set_Inr set_py_dict_set_subset simp: cache_ok_def py_dict_wf_set list_all_iff)

theorem cache_set_ok_witness:
  "cache_ok (\<lparr>cache_dir = [], cache = []\<rparr> :: (nat, nat) sync_cache) \<and> cache_ok \<lparr>cache_dir = [], cache = [(path_str [pys ''f''], \<lparr>cache_file_path = [pys ''f''], file_hash = [65],
                                   parsed_context = (7::nat), timestamp = (0::nat)\<rparr>)]\<rparr>"
  using cache_set_ok [OF _ cache_set_example] by (simp add: cache_ok_def py_dict_wf_def)

text \<open>
  \<open>get\<close> of an entry whose file has been deleted raises
  \<open>FileNotFoundError\<close> instead of returning nothing.
\<close>

theorem cache_get_deleted:
  "cache_set md5 now env sc p ctx = Inr sc' \<Longrightarrow> fs env' p = None \<Longrightarrow>
     cache_get md5 env' sc' p = Inl FileNotFoundError"
  by (auto dest!: cache_set_Inr simp: cache_get_def get_file_hash_def read_bytes_def)

theorem cache_get_deleted_witness:
  "cache_get (\<lambda>bs. bs) \<lparr>cwd = [], fs = \<lambda>_. None, git = \<lambda>_. None\<rparr>
     \<lparr>cache_dir = [], cache = [(path_str [pys ''f''], \<lparr>cache_file_path = [pys ''f''], file_hash = [65],
                                   parsed_context = (7::nat), timestamp = (0::nat)\<rparr>)]\<rparr> [pys ''f''] =
     (Inl FileNotFoundError :: io_error + nat option)"
  using cache_get_deleted [OF cache_set_example, of "\<lparr>cwd = [], fs = \<lambda>_. None, git = \<lambda>_. None\<rparr>"]
  by simp

text \<open>
  The constructor leaves an empty, well-formed cache whose directory exists as a
  directory.
\<close>

theorem new_sync_cache_ok:
  "new_sync_cache home d fsys = Inr (sc, fsys') \<Longrightarrow>
     cache_ok sc \<and> cache sc = [] \<and> fs_kind fsys' (cache_dir sc) = Some Dir"
  by (auto simp: new_sync_cache_def cache_ok_def py_dict_wf_def Let_def mkdir_parents_dir
      split: sum.splits)

theorem new_sync_cache_ok_witness:
  "new_sync_cache [pys ''home''] None (\<lambda>q. if q = [pys ''home''] then Some Dir else None) =
     Inr (\<lparr>cache_dir = [pys ''home'', pys ''.cache'', pys ''sync''], cache = []\<rparr> :: (unit, unit) sync_cache,
          (\<lambda>q. if q = [pys ''home''] then Some Dir else None)
            ([pys ''home'', pys ''.cache''] \<mapsto> Dir, [pys ''home'', pys ''.cache'', pys ''sync''] \<mapsto> Dir)) \<and>
   fs_kind ((\<lambda>q. if q = [pys ''home''] then Some Dir else None)
            ([pys ''home'', pys ''.cache''] \<mapsto> Dir, [pys ''home'', pys ''.cache'', pys ''sync''] \<mapsto> Dir))
     [pys ''home'', pys ''.cache'', pys ''sync''] = Some Dir"
proof -
  have n: "new_sync_cache [pys ''home''] None (\<lambda>q. if q = [pys ''home''] then Some Dir else None) =
     Inr (\<lparr>cache_dir = [pys ''home'', pys ''.cache'', pys ''sync''], cache = []\<rparr> :: (unit, unit) sync_cache,
          (\<lambda>q. if q = [pys ''home''] then Some Dir else None)
            ([pys ''home'', pys ''.cache''] \<mapsto> Dir, [pys ''home'', pys ''.cache'', pys ''sync''] \<mapsto> Dir))"
    by (simp add: new_sync_cache_def mkdir_parents.simps fs_kind_def pys_def Let_def)
  from new_sync_cache_ok [OF n] n show ?thesis by simp
qed

text \<open>
  With \<open>~/.cache\<close> a regular file, constructing the cache raises
  \<open>NotADirectoryError\<close>.
\<close>

theorem new_sync_cache_home_file:
  "new_sync_cache [pys ''home''] None
     (\<lambda>q. if q = [pys ''home''] then Some Dir else if q = [pys ''home'', pys ''.cache''] then Some (File [])
          else None) = (Inl NotADirectoryError :: io_error + ((unit, unit) sync_cache \<times> file_system))"
  by (simp add: new_sync_cache_def mkdir_parents.simps fs_kind_def pys_def)

end
