(* ===== verification/Py_Builtins.thy ===== *)
theory Py_Builtins
  imports Text_IO
begin

text \<open>
  The exceptions of the sync scripts' Python code, and CPython's conversions between
  \<open>int\<close> and decimal \<open>str\<close> that \<open>json.dumps\<close> and \<open>argparse\<close> apply (\<open>int.__repr__\<close> and
  \<open>int(s)\<close>).  Both refuse numbers of more than \<open>sys.get_int_max_str_digits()\<close> digits,
  4300 by default since CPython 3.11, with \<open>ValueError\<close>.  \<open>int(s)\<close> first maps every
  non-ASCII white space character to a space and every non-ASCII decimal digit to its
  ASCII digit (\<open>_PyUnicode_TransformDecimalAndSpaceToASCII\<close>, with the decimal digits of
  the Unicode 14 database, \<open>decimal_zeros\<close>); it then reads optional ASCII white space
  (\<open>Py_ISSPACE\<close>: tab to carriage return, and space), a sign, digits of which single
  underscores may separate two, and optional white space again.
\<close>

datatype py_exc = AttributeError | OSError io_error | ValueError | TypeError | OverflowError

definition py_max_str_digits :: nat where
  "py_max_str_digits = 4300"

fun nat_digits :: "nat \<Rightarrow> pystr" where
  "nat_digits n = (if n < 10 then [48 + n] else nat_digits (n div 10) @ [48 + n mod 10])"

declare nat_digits.simps [simp del]

text \<open>\<open>int.__repr__\<close> (also \<open>str\<close> of an \<open>int\<close>).\<close>

definition py_str_int :: "int \<Rightarrow> py_exc + pystr" where
  "py_str_int i =
     (let ds = nat_digits (nat \<bar>i\<bar>)
      in if py_max_str_digits < length ds then Inl ValueError
         else Inr ((if i < 0 then [45] else []) @ ds))"

definition decimal_zeros :: "nat list" where
  "decimal_zeros =
     [48, 1632, 1776, 1984, 2406, 2534, 2662, 2790, 2918, 3046, 3174, 3302, 3430, 3558, 3664,
      3792, 3872, 4160, 4240, 6112, 6160, 6470, 6608, 6784, 6800, 6992, 7088, 7232, 7248, 42528,
      43216, 43264, 43472, 43504, 43600, 44016, 65296, 66720, 68912, 69734, 69872, 69942, 70096,
      70384, 70736, 70864, 71248, 71360, 71472, 71904, 72016, 72784, 73040, 73120, 92768, 92864,
      93008, 120782, 120792, 120802, 120812, 120822, 123200, 123632, 125264, 130032]"

text \<open>\<open>Py_UNICODE_TODECIMAL\<close>: the value of a decimal digit.\<close>

definition py_decimal :: "pychar \<Rightarrow> nat option" where
  "py_decimal c = map_option (\<lambda>z. c - z) (find (\<lambda>z. z \<le> c \<and> c < z + 10) decimal_zeros)"

definition py_int_space :: "pychar \<Rightarrow> bool" where
  "py_int_space c \<longleftrightarrow> (if c < 128 then (9 \<le> c \<and> c \<le> 13) \<or> c = 32 else py_isspace c)"

text \<open>The digits of the literal, with single underscores between two digits.\<close>

fun us_digits :: "pystr \<Rightarrow> nat list option" where
  "us_digits [] = None"
| "us_digits [c] = map_option (\<lambda>d. [d]) (py_decimal c)"
| "us_digits (c # c' # cs) =
     (case py_decimal c of
        None \<Rightarrow> None
      | Some d \<Rightarrow>
          if c' = 95 then map_option (Cons d) (us_digits cs)
          else map_option (Cons d) (us_digits (c' # cs)))"

definition digits_value :: "nat list \<Rightarrow> nat" where
  "digits_value ds = foldl (\<lambda>a d. 10 * a + d) 0 ds"

text \<open>\<open>int(s)\<close>; \<open>None\<close> is the \<open>ValueError\<close>.\<close>

definition py_int :: "pystr \<Rightarrow> int option" where
  "py_int s =
     (let t = rev (dropWhile py_int_space (rev (dropWhile py_int_space s)));
          (neg, body) = (case t of
                           c # r \<Rightarrow> if c = 45 then (True, r) else if c = 43 then (False, r) else (False, t)
                         | [] \<Rightarrow> (False, t))
      in case us_digits body of
           None \<Rightarrow> None
         | Some ds \<Rightarrow>
             if py_max_str_digits < length ds then None
             else Some ((if neg then -1 else 1) * int (digits_value ds)))"

(* ------------------------------------------------------------------------ *)

subsection \<open>Lemmas\<close>

lemma nat_digits_ascii: "c \<in> set (nat_digits n) \<Longrightarrow> 48 \<le> c \<and> c \<le> 57"
proof (induction n rule: nat_digits.induct)
  case (1 n)
  then show ?case
    by (subst (asm) nat_digits.simps) (auto split: if_splits)
qed

lemma nat_digits_ne: "nat_digits n \<noteq> []"
  by (subst nat_digits.simps) simp

lemma py_decimal_ascii: "48 \<le> c \<Longrightarrow> c \<le> 57 \<Longrightarrow> py_decimal c = Some (c - 48)"
  by (simp add: py_decimal_def decimal_zeros_def)

lemma us_digits_nat_digits_aux:
  "(\<forall>c \<in> set cs. 48 \<le> c \<and> c \<le> 57) \<Longrightarrow> cs \<noteq> [] \<Longrightarrow> us_digits cs = Some (map (\<lambda>c. c - 48) cs)"
proof (induction cs rule: us_digits.induct)
  case (3 c c' cs)
  then show ?case by (simp add: py_decimal_ascii)
qed (simp_all add: py_decimal_ascii)

lemma digits_value_snoc: "digits_value (ds @ [d]) = 10 * digits_value ds + d"
  by (simp add: digits_value_def)

lemma digits_value_nat_digits: "digits_value (map (\<lambda>c. c - 48) (nat_digits n)) = n"
proof (induction n rule: nat_digits.induct)
  case (1 n)
  show ?case
  proof (cases "n < 10")
    case True
    then show ?thesis by (subst nat_digits.simps) (simp add: digits_value_def)
  next
    case False
    then have "digits_value (map (\<lambda>c. c - 48) (nat_digits (n div 10))) = n div 10"
      using "1.IH" by simp
    with False show ?thesis
      by (subst nat_digits.simps) (simp add: digits_value_snoc)
  qed
qed

lemma us_digits_nat_digits: "us_digits (nat_digits n) = Some (map (\<lambda>c. c - 48) (nat_digits n))"
  by (rule us_digits_nat_digits_aux) (auto dest: nat_digits_ascii simp: nat_digits_ne)

lemma nat_digits_no_space: "c \<in> set (nat_digits n) \<Longrightarrow> \<not> py_int_space c"
  by (drule nat_digits_ascii) (simp add: py_int_space_def)

lemma py_int_py_str_int: "py_str_int i = Inr s \<Longrightarrow> py_int s = Some i"
proof -
  assume h: "py_str_int i = Inr s"
  define ds where "ds = nat_digits (nat \<bar>i\<bar>)"
  have len: "length ds \<le> py_max_str_digits" and s: "s = (if i < 0 then [45] else []) @ ds"
    using h by (auto simp: py_str_int_def ds_def Let_def split: if_splits)
  have ne: "ds \<noteq> []" by (simp add: ds_def nat_digits_ne)
  have dg: "\<forall>c \<in> set ds. 48 \<le> c \<and> c \<le> 57" by (auto simp: ds_def dest: nat_digits_ascii)
  have hd_ds: "48 \<le> hd ds \<and> hd ds \<le> 57" and last_ds: "48 \<le> last ds \<and> last ds \<le> 57"
    using ne dg by auto
  have "dropWhile py_int_space s = s"
    using s hd_ds ne by (simp add: dropWhile_eq_self_iff py_int_space_def)
  moreover have "dropWhile py_int_space (rev s) = rev s"
    using s last_ds ne by (simp add: dropWhile_eq_self_iff py_int_space_def hd_rev)
  ultimately have t: "rev (dropWhile py_int_space (rev (dropWhile py_int_space s))) = s" by simp
  have val: "digits_value (map (\<lambda>c. c - 48) ds) = nat \<bar>i\<bar>"
    by (simp add: ds_def digits_value_nat_digits)
  have us: "us_digits ds = Some (map (\<lambda>c. c - 48) ds)"
    by (simp add: ds_def us_digits_nat_digits)
  show ?thesis
  proof (cases "i < 0")
    case True
    then show ?thesis using t s us len val by (simp add: py_int_def)
  next
    case False
    obtain c r where cr: "ds = c # r" using ne by (cases ds) auto
    then have "c \<noteq> 45" "c \<noteq> 43" using hd_ds by auto
    then show ?thesis using False t s us len val cr by (simp add: py_int_def)
  qed
qed

lemma py_str_int_shape:
  "py_str_int i = Inr s \<Longrightarrow>
     \<exists>ds. s = (if i < 0 then [45] else []) @ ds \<and> ds \<noteq> [] \<and> (\<forall>c \<in> set ds. 48 \<le> c \<and> c \<le> 57)"
  by (auto simp: py_str_int_def Let_def nat_digits_ne dest: nat_digits_ascii split: if_splits)

end

