(* ===== verification/Cli_Args.thy ===== *)
theory Cli_Args
  imports Py_Builtins
begin

text \<open>
  The command line of \<open>src/content/scripts/sync-advanced.py\<close>: the \<open>OutputFormat\<close> enum,
  the namespace \<open>main\<close> reads, and \<open>parser.parse_args()\<close> over the six options the
  \<open>add_argument\<close> calls declare and the \<open>-h/--help\<close> option \<open>ArgumentParser\<close> adds.
  \<open>parse_args\<close> is the algorithm of \<open>argparse._parse_known_args\<close> (CPython 3.11.10)
  restricted to a parser without positionals, subparsers, files of arguments or
  mutually exclusive groups: every argument string is first classified
  (\<open>_parse_optional\<close>: an option string, possibly with an explicit argument, an unknown
  option, a positional string, or the separator \<open>--\<close>, after which all strings are
  positional); an ambiguous abbreviation stops parsing at once.  The strings are then
  consumed from left to right: an option takes its explicit argument or the next
  string when that is positional, a flag given as \<open>-wc\<close> chains the flags of its
  tail (\<open>consume_optional\<close>), and the actions run in order; the help action exits with
  status 0 when it runs, an \<open>ArgumentError\<close> with status 2, and the strings no option
  consumed are reported after the loop as unrecognized arguments (status 2).  The
  texts of the usage and help messages are not modelled.
\<close>

datatype output_format = HUMAN | JSON | MARKDOWN | MINIMAL

definition output_format_value :: "output_format \<Rightarrow> pystr" where
  "output_format_value f =
     (case f of HUMAN \<Rightarrow> pys ''human'' | JSON \<Rightarrow> pys ''json'' | MARKDOWN \<Rightarrow> pys ''markdown''
      | MINIMAL \<Rightarrow> pys ''minimal'')"

text \<open>\<open>OutputFormat(s)\<close>, the \<open>type\<close> argparse applies to \<open>--format\<close>: lookup by value;
  \<open>None\<close> is the \<open>ValueError\<close> argparse reports as an invalid value.\<close>

definition output_format_of :: "pystr \<Rightarrow> output_format option" where
  "output_format_of s = find (\<lambda>f. output_format_value f = s) [HUMAN, JSON, MARKDOWN, MINIMAL]"

record adv_args =
  args_format :: output_format
  args_watch :: bool
  args_interval :: int
  args_cache :: bool
  args_strict :: bool
  args_quiet :: bool

definition default_adv_args :: adv_args where
  "default_adv_args =
     \<lparr>args_format = HUMAN, args_watch = False, args_interval = 5, args_cache = False,
      args_strict = False, args_quiet = False\<rparr>"

text \<open>The actions of the parser and \<open>_option_string_actions\<close>, in the order the option
  strings are registered.\<close>

datatype arg_action =
  HelpAction | FormatAction | WatchAction | IntervalAction | CacheAction | StrictAction | QuietAction

definition option_string_actions :: "(pystr \<times> arg_action) list" where
  "option_string_actions =
     [(pys ''-h'', HelpAction), (pys ''--help'', HelpAction), (pys ''--format'', FormatAction),
      (pys ''-f'', FormatAction), (pys ''--watch'', WatchAction), (pys ''-w'', WatchAction),
      (pys ''--interval'', IntervalAction), (pys ''-i'', IntervalAction),
      (pys ''--cache'', CacheAction), (pys ''-c'', CacheAction), (pys ''--strict'', StrictAction),
      (pys ''--quiet'', QuietAction), (pys ''-q'', QuietAction)]"

text \<open>\<open>--format\<close> and \<open>--interval\<close> store one argument; the others take none.\<close>

definition takes_argument :: "arg_action \<Rightarrow> bool" where
  "takes_argument a \<longleftrightarrow> a = FormatAction \<or> a = IntervalAction"

datatype arg_error =
  AmbiguousOption pystr "pystr list"
| ExpectedOneArgument arg_action
| IgnoredExplicitArgument arg_action pystr
| InvalidValue arg_action pystr
| UnrecognizedArguments "pystr list"

datatype parse_outcome = Parsed adv_args | ShowHelp | ParseError arg_error

text \<open>An explicit argument and whether it was given after \<open>=\<close> (the \<open>sep\<close> of the tuple).\<close>

datatype arg_class =
  ArgPositional | ArgSeparator | ArgOption "arg_action option" pystr "(bool \<times> pystr) option"

definition partition_eq :: "pystr \<Rightarrow> pystr \<times> pystr option" where
  "partition_eq s = (if 61 \<in> set s then (takeWhile (\<lambda>c. c \<noteq> 61) s, Some (tl (dropWhile (\<lambda>c. c \<noteq> 61) s)))
                     else (s, None))"

text \<open>\<open>_get_option_tuples\<close>: a string starting with \<open>--\<close> matches the long options it
  abbreviates (up to an \<open>=\<close>); a string starting with one dash matches the option made of
  its first two characters, with the rest as explicit argument, and the options it
  abbreviates.\<close>

definition option_tuples :: "pystr \<Rightarrow> (arg_action \<times> pystr \<times> (bool \<times> pystr) option) list" where
  "option_tuples s =
     (if take 2 s = [45, 45] then
        (let (pre, ex) = partition_eq s
         in map (\<lambda>(os, a). (a, os, map_option (Pair True) ex))
              (filter (\<lambda>(os, a). py_startswith os pre) option_string_actions))
      else
        concat (map (\<lambda>(os, a). if os = take 2 s then [(a, os, Some (False, drop 2 s))]
                                else if py_startswith os s then [(a, os, None)] else [])
                    option_string_actions))"

text \<open>\<open>_negative_number_matcher\<close>, \<open>^-\d+$|^-\d*\.\d+$\<close>: \<open>\d\<close> is a Unicode decimal
  digit, and \<open>$\<close> also matches before a final line feed.\<close>

definition re_decimal :: "pychar \<Rightarrow> bool" where
  "re_decimal c \<longleftrightarrow> py_decimal c \<noteq> None"

definition negative_number_like :: "pystr \<Rightarrow> bool" where
  "negative_number_like s =
     (case s of
        c # r \<Rightarrow>
          c = 45 \<and>
          (let r' = (if r \<noteq> [] \<and> last r = 10 then butlast r else r);
               b = dropWhile re_decimal r'
           in (r' \<noteq> [] \<and> list_all re_decimal r') \<or> (b \<noteq> [] \<and> hd b = 46 \<and> tl b \<noteq> [] \<and> list_all re_decimal (tl b)))
      | [] \<Rightarrow> False)"

text \<open>\<open>_parse_optional\<close>; \<open>Inl\<close> is the error of an ambiguous abbreviation.\<close>

definition parse_optional :: "pystr \<Rightarrow> arg_error + arg_class" where
  "parse_optional s =
     (if s = [] \<or> hd s \<noteq> 45 then Inr ArgPositional
      else case map_of option_string_actions s of
        Some a \<Rightarrow> Inr (ArgOption (Some a) s None)
      | None \<Rightarrow>
          if length s = 1 then Inr ArgPositional
          else
            (let (pre, ex) = partition_eq s
             in case (ex, map_of option_string_actions pre) of
                  (Some e, Some a) \<Rightarrow> Inr (ArgOption (Some a) pre (Some (True, e)))
                | _ \<Rightarrow>
                    (case option_tuples s of
                       [(a, os, ex')] \<Rightarrow> Inr (ArgOption (Some a) os ex')
                     | [] \<Rightarrow>
                         if negative_number_like s \<or> 32 \<in> set s then Inr ArgPositional
                         else Inr (ArgOption None s None)
                     | ts \<Rightarrow> Inl (AmbiguousOption s (map (\<lambda>(a, os, _). os) ts)))))"

fun classify :: "pystr list \<Rightarrow> arg_error + (pystr \<times> arg_class) list" where
  "classify [] = Inr []"
| "classify (s # ss) =
     (if s = [45, 45] then Inr ((s, ArgSeparator) # map (\<lambda>t. (t, ArgPositional)) ss)
      else case parse_optional s of
             Inl e \<Rightarrow> Inl e
           | Inr c \<Rightarrow> (case classify ss of Inl e \<Rightarrow> Inl e | Inr cs \<Rightarrow> Inr ((s, c) # cs)))"

text \<open>The explicit argument left after a chained flag: none, after \<open>=\<close>, or attached.\<close>

definition next_explicit :: "pystr \<Rightarrow> (bool \<times> pystr) option" where
  "next_explicit ex = (if ex = [] then None else if hd ex = 61 then Some (True, tl ex) else Some (False, ex))"

text \<open>The \<open>while\<close> loop of \<open>consume_optional\<close>: the actions to take with their argument
  strings, the strings it adds to the extras, and how many of the following strings it
  consumed.\<close>

function consume_optional ::
    "arg_action \<Rightarrow> pystr \<Rightarrow> (bool \<times> pystr) option \<Rightarrow> (pystr \<times> arg_class) list \<Rightarrow>
       arg_error + ((arg_action \<times> pystr list) list \<times> pystr list \<times> nat)" where
  "consume_optional a os expl rest =
     (case expl of
        Some (sep, ex) \<Rightarrow>
          if \<not> takes_argument a \<and> os ! 1 \<noteq> 45 \<and> ex \<noteq> [] then
            (if sep \<or> hd ex = 45 then Inl (IgnoredExplicitArgument a ex)
             else
               (case map_of option_string_actions [45, hd ex] of
                  Some a' \<Rightarrow>
                    (case consume_optional a' [45, hd ex] (next_explicit (tl ex)) rest of
                       Inl e \<Rightarrow> Inl e
                     | Inr (ts, extras, k) \<Rightarrow> Inr ((a, []) # ts, extras, k))
                | None \<Rightarrow> Inr ([(a, [])], [45 # ex], 0)))
          else if takes_argument a then Inr ([(a, [ex])], [], 0)
          else Inl (IgnoredExplicitArgument a ex)
      | None \<Rightarrow>
          if takes_argument a then
            (case rest of
               (s, ArgPositional) # _ \<Rightarrow> Inr ([(a, [s])], [], 1)
             | _ \<Rightarrow> Inl (ExpectedOneArgument a))
          else Inr ([(a, [])], [], 0))"
  by pat_completeness auto
termination
  by (relation "measure (\<lambda>(a, os, expl, rest). case expl of None \<Rightarrow> 0 | Some (_, ex) \<Rightarrow> Suc (length ex))")
     (auto simp: next_explicit_def split: if_splits)

text \<open>\<open>take_action\<close>: the conversion of the argument strings and the action; \<open>Inl\<close> ends
  the parse (help, or an invalid value).\<close>

fun take_action :: "arg_action \<times> pystr list \<Rightarrow> adv_args \<Rightarrow> parse_outcome + adv_args" where
  "take_action (HelpAction, _) ns = Inl ShowHelp"
| "take_action (FormatAction, ss) ns =
     (case output_format_of (hd ss) of
        None \<Rightarrow> Inl (ParseError (InvalidValue FormatAction (hd ss)))
      | Some f \<Rightarrow> Inr (ns\<lparr>args_format := f\<rparr>))"
| "take_action (IntervalAction, ss) ns =
     (case py_int (hd ss) of
        None \<Rightarrow> Inl (ParseError (InvalidValue IntervalAction (hd ss)))
      | Some i \<Rightarrow> Inr (ns\<lparr>args_interval := i\<rparr>))"
| "take_action (WatchAction, _) ns = Inr (ns\<lparr>args_watch := True\<rparr>)"
| "take_action (CacheAction, _) ns = Inr (ns\<lparr>args_cache := True\<rparr>)"
| "take_action (StrictAction, _) ns = Inr (ns\<lparr>args_strict := True\<rparr>)"
| "take_action (QuietAction, _) ns = Inr (ns\<lparr>args_quiet := True\<rparr>)"

fun take_actions :: "(arg_action \<times> pystr list) list \<Rightarrow> adv_args \<Rightarrow> parse_outcome + adv_args" where
  "take_actions [] ns = Inr ns"
| "take_actions (t # ts) ns = (case take_action t ns of Inl r \<Rightarrow> Inl r | Inr ns' \<Rightarrow> take_actions ts ns')"

text \<open>The loop of \<open>_parse_known_args\<close> and the check of \<open>parse_args\<close> for extras.\<close>

function consume_args :: "(pystr \<times> arg_class) list \<Rightarrow> adv_args \<Rightarrow> pystr list \<Rightarrow> parse_outcome" where
  "consume_args [] ns extras =
     (if extras = [] then Parsed ns else ParseError (UnrecognizedArguments extras))"
| "consume_args ((s, ArgOption (Some a) os expl) # rest) ns extras =
     (case consume_optional a os expl rest of
        Inl e \<Rightarrow> ParseError e
      | Inr (ts, extra, k) \<Rightarrow>
          (case take_actions ts ns of
             Inl r \<Rightarrow> r
           | Inr ns' \<Rightarrow> consume_args (drop k rest) ns' (extras @ extra)))"
| "consume_args ((s, ArgOption None os expl) # rest) ns extras = consume_args rest ns (extras @ [s])"
| "consume_args ((s, ArgPositional) # rest) ns extras = consume_args rest ns (extras @ [s])"
| "consume_args ((s, ArgSeparator) # rest) ns extras = consume_args rest ns (extras @ [s])"
  by pat_completeness auto
termination
  by (relation "measure (\<lambda>(cs, ns, extras). length cs)") auto

definition parse_adv_args :: "pystr list \<Rightarrow> parse_outcome" where
  "parse_adv_args argv =
     (case classify argv of
        Inl e \<Rightarrow> ParseError e
      | Inr cs \<Rightarrow> consume_args cs default_adv_args [])"

text \<open>The canonical command line of a namespace: every option by its long name, the
  interval as \<open>str\<close> writes it.\<close>

definition adv_argv :: "adv_args \<Rightarrow> pystr \<Rightarrow> pystr list" where
  "adv_argv a interval =
     [pys ''--format'', output_format_value (args_format a), pys ''--interval'', interval]
     @ (if args_watch a then [pys ''--watch''] else []) @ (if args_cache a then [pys ''--cache''] else [])
     @ (if args_strict a then [pys ''--strict''] else []) @ (if args_quiet a then [pys ''--quiet''] else [])"

text \<open>The class of a string that is an option string or does not start like one.\<close>

definition plain_class :: "pystr \<Rightarrow> arg_class" where
  "plain_class x = (case map_of option_string_actions x of Some a \<Rightarrow> ArgOption (Some a) x None | None \<Rightarrow> ArgPositional)"

(* ------------------------------------------------------------------------ *)

subsection \<open>Lemmas\<close>

lemma output_format_roundtrip: "output_format_of (output_format_value f) = Some f"
  by (cases f) (simp_all add: output_format_of_def output_format_value_def pys_def)

lemma parse_optional_exact:
  "map_of option_string_actions s = Some a \<Longrightarrow> parse_optional s = Inr (ArgOption (Some a) s None)"
  by (auto simp: parse_optional_def option_string_actions_def pys_def split: if_splits)

lemma parse_optional_word: "s \<noteq> [] \<Longrightarrow> hd s \<noteq> 45 \<Longrightarrow> parse_optional s = Inr ArgPositional"
  by (simp add: parse_optional_def)

lemma output_format_value_word: "output_format_value f \<noteq> [] \<and> hd (output_format_value f) \<noteq> 45"
  by (cases f) (simp_all add: output_format_value_def pys_def)

lemma parse_optional_negative:
  assumes "ds \<noteq> []" "\<forall>c \<in> set ds. 48 \<le> c \<and> c \<le> 57"
  shows "parse_optional (45 # ds) = Inr ArgPositional"
proof -
  obtain d r where dr: "ds = d # r" using assms(1) by (cases ds) auto
  have d: "48 \<le> d \<and> d \<le> 57" using assms(2) dr by simp
  have "map_of option_string_actions (45 # ds) = None"
    using d dr by (simp add: option_string_actions_def pys_def)
  moreover have "61 \<notin> set ds" using assms(2) by auto
  moreover have "option_tuples (45 # ds) = []"
    using d dr by (simp add: option_tuples_def option_string_actions_def pys_def)
  moreover have "negative_number_like (45 # ds)"
  proof -
    have "last ds \<noteq> 10" using assms(2) last_in_set [OF assms(1)] by fastforce
    moreover have "list_all re_decimal ds"
      using assms(2) by (auto simp: list_all_iff re_decimal_def py_decimal_ascii)
    ultimately show ?thesis using assms(1) by (simp add: negative_number_like_def)
  qed
  ultimately show ?thesis using dr by (simp add: parse_optional_def partition_eq_def)
qed

lemma parse_optional_interval:
  "py_str_int i = Inr s \<Longrightarrow> parse_optional s = Inr ArgPositional"
proof -
  assume h: "py_str_int i = Inr s"
  define ds where "ds = nat_digits (nat \<bar>i\<bar>)"
  have s: "s = (if i < 0 then [45] else []) @ ds"
    using h by (auto simp: py_str_int_def ds_def Let_def split: if_splits)
  have ne: "ds \<noteq> []" by (simp add: ds_def nat_digits_ne)
  have dg: "\<forall>c \<in> set ds. 48 \<le> c \<and> c \<le> 57" by (auto simp: ds_def dest: nat_digits_ascii)
  show ?thesis
  proof (cases "i < 0")
    case True
    then show ?thesis using s ne dg by (simp add: parse_optional_negative)
  next
    case False
    have "hd ds \<noteq> 45" using hd_in_set [OF ne] dg by fastforce
    then show ?thesis using False s ne by (simp add: parse_optional_word)
  qed
qed

declare consume_optional.simps [simp del]

lemma consume_optional_None:
  "consume_optional a os None rest =
     (if takes_argument a then
        (case rest of (s, ArgPositional) # _ \<Rightarrow> Inr ([(a, [s])], [], 1) | _ \<Rightarrow> Inl (ExpectedOneArgument a))
      else Inr ([(a, [])], [], 0))"
  by (subst consume_optional.simps) simp

lemma classify_plain:
  "\<forall>x \<in> set xs. x \<noteq> [45, 45] \<and> parse_optional x = Inr (plain_class x) \<Longrightarrow>
     classify xs = Inr (map (\<lambda>x. (x, plain_class x)) xs)"
  by (induction xs) auto

lemma map_of_options_dash: "map_of option_string_actions x = Some a \<Longrightarrow> x \<noteq> [] \<and> hd x = 45"
  by (auto simp: option_string_actions_def pys_def split: if_splits)

lemma plain_class_option: "x \<in> set (map fst option_string_actions) \<Longrightarrow> parse_optional x = Inr (plain_class x)"
  by (auto simp: option_string_actions_def pys_def parse_optional_def plain_class_def)

lemma plain_class_word: "x \<noteq> [] \<Longrightarrow> hd x \<noteq> 45 \<Longrightarrow> plain_class x = ArgPositional"
  by (cases "map_of option_string_actions x") (auto simp: plain_class_def dest: map_of_options_dash)

lemma map_of_options_letter:
  "map_of option_string_actions x = Some a \<Longrightarrow> \<exists>c \<in> set x. 97 \<le> c \<and> c \<le> 122"
  by (auto simp: option_string_actions_def pys_def split: if_splits)

lemma py_str_int_no_letter: "py_str_int i = Inr s \<Longrightarrow> c \<in> set s \<Longrightarrow> c = 45 \<or> 48 \<le> c \<and> c \<le> 57"
  by (drule py_str_int_shape) (auto split: if_splits)

lemma plain_class_interval: "py_str_int i = Inr s \<Longrightarrow> plain_class s = ArgPositional"
proof -
  assume h: "py_str_int i = Inr s"
  have "map_of option_string_actions s = None"
  proof (rule ccontr)
    assume "map_of option_string_actions s \<noteq> None"
    then obtain c where "c \<in> set s" "97 \<le> c \<and> c \<le> 122" using map_of_options_letter by blast
    then show False using py_str_int_no_letter [OF h] by fastforce
  qed
  then show ?thesis by (simp add: plain_class_def)
qed

lemma py_str_int_not_sep: "py_str_int i = Inr s \<Longrightarrow> s \<noteq> [45, 45]"
  by (drule py_str_int_shape) (auto simp: Cons_eq_append_conv split: if_splits)

lemma output_format_value_not_sep: "output_format_value f \<noteq> [45, 45]"
  by (cases f) (simp_all add: output_format_value_def pys_def)

lemma adv_argv_elem:
  assumes "py_str_int (args_interval a) = Inr s" and x: "x \<in> set (adv_argv a s)"
  shows "x \<noteq> [45, 45] \<and> parse_optional x = Inr (plain_class x)"
proof -
  from x consider "x = output_format_value (args_format a)" | "x = s" | "x \<in> set (map fst option_string_actions)"
    by (auto simp: adv_argv_def option_string_actions_def split: if_splits)
  then show ?thesis
  proof cases
    case 1
    then show ?thesis using output_format_value_word [of "args_format a"]
      by (simp add: output_format_value_not_sep parse_optional_word plain_class_word)
  next
    case 2
    then show ?thesis using assms(1) by (simp add: py_str_int_not_sep parse_optional_interval plain_class_interval)
  next
    case 3
    then show ?thesis by (auto simp: option_string_actions_def pys_def plain_class_option)
  qed
qed

lemma classify_adv_argv:
  "py_str_int (args_interval a) = Inr s \<Longrightarrow>
     classify (adv_argv a s) = Inr (map (\<lambda>x. (x, plain_class x)) (adv_argv a s))"
  by (rule classify_plain) (use adv_argv_elem in blast)

lemma plain_class_options:
  "plain_class (pys ''--format'') = ArgOption (Some FormatAction) (pys ''--format'') None"
  "plain_class (pys ''--interval'') = ArgOption (Some IntervalAction) (pys ''--interval'') None"
  "plain_class (pys ''--watch'') = ArgOption (Some WatchAction) (pys ''--watch'') None"
  "plain_class (pys ''--cache'') = ArgOption (Some CacheAction) (pys ''--cache'') None"
  "plain_class (pys ''--strict'') = ArgOption (Some StrictAction) (pys ''--strict'') None"
  "plain_class (pys ''--quiet'') = ArgOption (Some QuietAction) (pys ''--quiet'') None"
  by (simp_all add: plain_class_def option_string_actions_def pys_def)

lemma consume_flags:
  "consume_args
     (map (\<lambda>x. (x, plain_class x))
        ((if w then [pys ''--watch''] else []) @ (if c then [pys ''--cache''] else [])
         @ (if st then [pys ''--strict''] else []) @ (if q then [pys ''--quiet''] else []))) ns [] =
   Parsed (ns\<lparr>args_watch := args_watch ns \<or> w, args_cache := args_cache ns \<or> c,
               args_strict := args_strict ns \<or> st, args_quiet := args_quiet ns \<or> q\<rparr>)"
  by (simp add: plain_class_options consume_optional_None takes_argument_def)

lemma help_not_sep: "pys ''-h'' \<noteq> [45, 45]"
  by (simp add: pys_def)

lemma parse_optional_help: "parse_optional (pys ''-h'') = Inr (ArgOption (Some HelpAction) (pys ''-h'') None)"
  by (simp add: parse_optional_exact option_string_actions_def pys_def)

(* ------------------------------------------------------------------------ *)

subsection \<open>Properties of the command line\<close>

text \<open>
  C19. Round trip: the command line that spells a namespace with the long options, the
  format by its value and the interval as \<open>str\<close> writes it, is parsed back to that
  namespace; a negative interval such as \<open>-3\<close> is taken as the argument of
  \<open>--interval\<close>, not as an option.
\<close>

theorem parse_adv_args_roundtrip:
  assumes "py_str_int (args_interval a) = Inr s"
  shows "parse_adv_args (adv_argv a s) = Parsed a"
proof -
  have cf: "plain_class (output_format_value (args_format a)) = ArgPositional"
    using output_format_value_word by (simp add: plain_class_word)
  have ci: "plain_class s = ArgPositional" using assms by (rule plain_class_interval)
  have "parse_adv_args (adv_argv a s) =
          consume_args (map (\<lambda>x. (x, plain_class x)) (adv_argv a s)) default_adv_args []"
    by (simp add: parse_adv_args_def classify_adv_argv [OF assms])
  also have "\<dots> = Parsed a"
    using assms
    by (simp add: adv_argv_def cf ci plain_class_options consume_optional_None takes_argument_def
          output_format_roundtrip py_int_py_str_int consume_flags)
       (cases a, simp add: default_adv_args_def)
  finally show ?thesis .
qed

theorem parse_adv_args_roundtrip_witness:
  "py_str_int (args_interval (default_adv_args\<lparr>args_format := JSON, args_interval := -3, args_quiet := True\<rparr>))
     = Inr [45, 51] \<and>
   parse_adv_args [pys ''--format'', pys ''json'', pys ''--interval'', [45, 51], pys ''--quiet''] =
     Parsed (default_adv_args\<lparr>args_format := JSON, args_interval := -3, args_quiet := True\<rparr>)"
  using parse_adv_args_roundtrip
          [of "default_adv_args\<lparr>args_format := JSON, args_interval := -3, args_quiet := True\<rparr>" "[45, 51]"]
  by (simp add: py_str_int_def default_adv_args_def nat_digits.simps py_max_str_digits_def adv_argv_def
        output_format_value_def)

text \<open>
  C27. Ordering: \<open>-h\<close> given first shows the help and exits 0 whatever follows it,
  invalid values and unknown arguments included, since the actions run from left to
  right and unknown arguments are reported only at the end; only an ambiguous
  abbreviation, which is detected while the strings are classified, stops the parse
  first.
\<close>

theorem parse_help_first:
  "parse_adv_args (pys ''-h'' # argv) =
     (case classify argv of Inl e \<Rightarrow> ParseError e | Inr cs \<Rightarrow> ShowHelp)"
  by (simp add: parse_adv_args_def help_not_sep parse_optional_help consume_optional_None
        takes_argument_def split: sum.split)

end

