(* ===== verification/Json_Output.thy ===== *)
theory Json_Output
  imports Py_Builtins
begin

text \<open>
  \<open>json.dumps(data, indent=2, default=str)\<close>, which \<open>AdvancedSyncCommand.output_json\<close>
  prints.  With an indent, CPython encodes with the Python encoder
  \<open>_make_iterencode\<close> of \<open>json/encoder.py\<close>: \<open>_iterencode\<close>, \<open>_iterencode_list\<close> and
  \<open>_iterencode_dict\<close> are the three mutually recursive \<open>json_enc\<close>, \<open>json_items\<close> and
  \<open>json_members\<close> below, the separators are \<open>','\<close> and \<open>': '\<close>, and \<open>ensure_ascii\<close>
  makes strings \<open>encode_basestring_ascii\<close>.  The Python values are \<open>pyval\<close>: \<open>None\<close>,
  \<open>bool\<close>, \<open>int\<close>, \<open>str\<close>, \<open>list\<close>, \<open>tuple\<close>, \<open>dict\<close> (in insertion order), and any
  other object, which \<open>default=str\<close> replaces by its \<open>str()\<close>, the string \<open>PyObj\<close>
  carries.  A key that is not a \<open>str\<close>, \<open>int\<close>, \<open>bool\<close> or \<open>None\<close> raises \<open>TypeError\<close>
  (\<open>default\<close> is not applied to keys), an \<open>int\<close> of more than 4300 digits
  \<open>ValueError\<close>.  A value of the datatype has no cycles, so the circular-reference check
  never fires; floats are not modelled (no code of the scripts builds the dictionary).
\<close>

datatype pyval =
  PyNone | PyBool bool | PyInt int | PyStr pystr | PyList "pyval list" | PyTuple "pyval list"
| PyDict "(pyval \<times> pyval) list" | PyObj pystr

definition hex_digit :: "nat \<Rightarrow> pychar" where
  "hex_digit d = (if d < 10 then 48 + d else 87 + d)"

text \<open>\<open>'\\u{0:04x}'.format(n)\<close>.\<close>

definition u_escape :: "nat \<Rightarrow> pystr" where
  "u_escape n = [92, 117] @ map (\<lambda>k. hex_digit (n div 16 ^ k mod 16)) [3, 2, 1, 0]"

text \<open>The replacement of one character by \<open>ESCAPE_ASCII\<close> and \<open>ESCAPE_DCT\<close>: backslash and
  quote, the five short escapes, printable ASCII kept, anything else as \<open>\u\<close> escapes, a
  character above the BMP as its surrogate pair (\<open>0xd800 | ((n >> 10) & 0x3ff)\<close> and
  \<open>0xdc00 | (n & 0x3ff)\<close>, sums here since the low bits of the bases are zero).\<close>

definition escape_char :: "pychar \<Rightarrow> pystr" where
  "escape_char c =
     (if c = 92 then [92, 92] else if c = 34 then [92, 34]
      else if c = 8 then [92, 98] else if c = 12 then [92, 102] else if c = 10 then [92, 110]
      else if c = 13 then [92, 114] else if c = 9 then [92, 116]
      else if 32 \<le> c \<and> c \<le> 126 then [c]
      else if c < 65536 then u_escape c
      else let n = c - 65536 in u_escape (55296 + n div 1024 mod 1024) @ u_escape (56320 + n mod 1024))"

definition encode_basestring_ascii :: "pystr \<Rightarrow> pystr" where
  "encode_basestring_ascii s = [34] @ concat (map escape_char s) @ [34]"

text \<open>The key conversion of \<open>_iterencode_dict\<close>.\<close>

fun json_key :: "pyval \<Rightarrow> py_exc + pystr" where
  "json_key (PyStr s) = Inr s"
| "json_key (PyBool b) = Inr (if b then pys ''true'' else pys ''false'')"
| "json_key PyNone = Inr (pys ''null'')"
| "json_key (PyInt i) = py_str_int i"
| "json_key _ = Inl TypeError"

definition newline_indent :: "nat \<Rightarrow> pystr" where
  "newline_indent lvl = 10 # replicate (2 * lvl) 32"

text \<open>A non-empty list or dictionary at indentation level \<open>lvl\<close>: the opening bracket, the
  items at level \<open>lvl + 1\<close> separated by \<open>','\<close> and a new line, a new line at level
  \<open>lvl\<close> and the closing bracket; an empty one is the two brackets.\<close>

definition json_block :: "pychar \<Rightarrow> pychar \<Rightarrow> nat \<Rightarrow> pystr list \<Rightarrow> pystr" where
  "json_block opn cls lvl items =
     (if items = [] then [opn, cls]
      else [opn] @ newline_indent (Suc lvl) @ py_join (44 # newline_indent (Suc lvl)) items
           @ newline_indent lvl @ [cls])"

fun json_enc :: "nat \<Rightarrow> pyval \<Rightarrow> py_exc + pystr"
and json_items :: "nat \<Rightarrow> pyval list \<Rightarrow> py_exc + pystr list"
and json_members :: "nat \<Rightarrow> (pyval \<times> pyval) list \<Rightarrow> py_exc + pystr list" where
  "json_enc lvl (PyStr s) = Inr (encode_basestring_ascii s)"
| "json_enc lvl PyNone = Inr (pys ''null'')"
| "json_enc lvl (PyBool b) = Inr (if b then pys ''true'' else pys ''false'')"
| "json_enc lvl (PyInt i) = py_str_int i"
| "json_enc lvl (PyList xs) =
     (case json_items (Suc lvl) xs of Inl e \<Rightarrow> Inl e | Inr ss \<Rightarrow> Inr (json_block 91 93 lvl ss))"
| "json_enc lvl (PyTuple xs) =
     (case json_items (Suc lvl) xs of Inl e \<Rightarrow> Inl e | Inr ss \<Rightarrow> Inr (json_block 91 93 lvl ss))"
| "json_enc lvl (PyDict d) =
     (case json_members (Suc lvl) d of Inl e \<Rightarrow> Inl e | Inr ss \<Rightarrow> Inr (json_block 123 125 lvl ss))"
| "json_enc lvl (PyObj s) = Inr (encode_basestring_ascii s)"
| "json_items lvl [] = Inr []"
| "json_items lvl (x # xs) =
     (case json_enc lvl x of
        Inl e \<Rightarrow> Inl e
      | Inr s \<Rightarrow> (case json_items lvl xs of Inl e \<Rightarrow> Inl e | Inr ss \<Rightarrow> Inr (s # ss)))"
| "json_members lvl [] = Inr []"
| "json_members lvl ((k, v) # kvs) =
     (case json_key k of
        Inl e \<Rightarrow> Inl e
      | Inr ks \<Rightarrow>
          (case json_enc lvl v of
             Inl e \<Rightarrow> Inl e
           | Inr s \<Rightarrow>
               (case json_members lvl kvs of
                  Inl e \<Rightarrow> Inl e
                | Inr ss \<Rightarrow> Inr ((encode_basestring_ascii ks @ pys '': '' @ s) # ss))))"

definition json_dumps :: "pyval \<Rightarrow> py_exc + pystr" where
  "json_dumps v = json_enc 0 v"

text \<open>What the output promises, written from the documentation of \<open>json.dumps\<close> and
  not from the encoder: a JSON document (\<open>jval\<close>, integers only), the document
  \<open>json_doc\<close> of a Python value (tuples are arrays, other objects their \<open>str()\<close>, keys
  coerced to strings by \<open>doc_key\<close>; \<open>None\<close> where \<open>dumps\<close> raises), a printer
  \<open>json_render\<close> of documents with the layout \<open>indent=2\<close> promises, and a reader
  \<open>json_loads\<close> (RFC 8259 on integers, with the surrogate-pair rule of
  \<open>json.decoder.py_scanstring\<close>).\<close>

datatype jval = JNull | JBool bool | JNum int | JStr pystr | JArr "jval list" | JObj "(pystr \<times> jval) list"

text \<open>The decimal form of an integer, refused when it has more digits than
  \<open>sys.get_int_max_str_digits()\<close>.\<close>

definition doc_int :: "int \<Rightarrow> pystr option" where
  "doc_int i =
     (if py_max_str_digits < length (nat_digits (nat \<bar>i\<bar>)) then None
      else Some ((if i < 0 then [45] else []) @ nat_digits (nat \<bar>i\<bar>)))"

text \<open>Keys: a \<open>str\<close> is kept, \<open>True\<close>, \<open>False\<close>, \<open>None\<close> and an \<open>int\<close> become their JSON
  text; any other key is refused (\<open>skipkeys=False\<close>).\<close>

fun doc_key :: "pyval \<Rightarrow> pystr option" where
  "doc_key (PyStr s) = Some s"
| "doc_key (PyBool b) = Some (if b then pys ''true'' else pys ''false'')"
| "doc_key PyNone = Some (pys ''null'')"
| "doc_key (PyInt i) = doc_int i"
| "doc_key _ = None"

fun json_doc :: "pyval \<Rightarrow> jval option"
and json_docs :: "pyval list \<Rightarrow> jval list option"
and json_doc_members :: "(pyval \<times> pyval) list \<Rightarrow> (pystr \<times> jval) list option" where
  "json_doc (PyStr s) = Some (JStr s)"
| "json_doc PyNone = Some JNull"
| "json_doc (PyBool b) = Some (JBool b)"
| "json_doc (PyInt i) = map_option (\<lambda>_. JNum i) (doc_int i)"
| "json_doc (PyList xs) = map_option JArr (json_docs xs)"
| "json_doc (PyTuple xs) = map_option JArr (json_docs xs)"
| "json_doc (PyDict d) = map_option JObj (json_doc_members d)"
| "json_doc (PyObj s) = Some (JStr s)"
| "json_docs [] = Some []"
| "json_docs (x # xs) =
     (case json_doc x of None \<Rightarrow> None | Some j \<Rightarrow> map_option (Cons j) (json_docs xs))"
| "json_doc_members [] = Some []"
| "json_doc_members ((k, v) # kvs) =
     (case doc_key k of
        None \<Rightarrow> None
      | Some ks \<Rightarrow>
          (case json_doc v of None \<Rightarrow> None | Some j \<Rightarrow> map_option (Cons (ks, j)) (json_doc_members kvs)))"

text \<open>Strings under \<open>ensure_ascii\<close>: the two-character escapes of RFC 8259, printable
  ASCII as itself, every other character as \<open>\uXXXX\<close> escapes (lower-case hexadecimal)
  of its UTF-16 code units (RFC 2781: the 10 high and the 10 low bits of \<open>c - 0x10000\<close>
  above the BMP).\<close>

definition json_short_escapes :: "(pychar \<times> pychar) list" where
  "json_short_escapes = [(34, 34), (92, 92), (8, 98), (12, 102), (10, 110), (13, 114), (9, 116)]"

definition hex_chars :: pystr where
  "hex_chars = pys ''0123456789abcdef''"

definition json_hex4 :: "nat \<Rightarrow> pystr" where
  "json_hex4 n = map (\<lambda>w. hex_chars ! (n div w mod 16)) [4096, 256, 16, 1]"

definition utf16_units :: "pychar \<Rightarrow> nat list" where
  "utf16_units c =
     (if c < 65536 then [c] else [55296 + (c - 65536) div 1024 mod 1024, 56320 + (c - 65536) mod 1024])"

definition json_char :: "pychar \<Rightarrow> pystr" where
  "json_char c =
     (case map_of json_short_escapes c of
        Some e \<Rightarrow> [92, e]
      | None \<Rightarrow> if 32 \<le> c \<and> c < 127 then [c] else concat (map (\<lambda>u. [92, 117] @ json_hex4 u) (utf16_units c)))"

definition json_string :: "pystr \<Rightarrow> pystr" where
  "json_string s = 34 # concat (map json_char s) @ [34]"

fun sep_join :: "pystr \<Rightarrow> pystr list \<Rightarrow> pystr" where
  "sep_join sep [] = []"
| "sep_join sep [x] = x"
| "sep_join sep (x # xs) = x @ sep @ sep_join sep xs"

text \<open>The layout of \<open>indent=2\<close>: an empty array or object is its two brackets; a
  non-empty one puts each element on a line of its own, indented two spaces deeper than
  the line of the opening bracket, with a comma after every element but the last
  (separators \<open>','\<close> and \<open>': '\<close>), and the closing bracket on a line at the level of
  the opening one.\<close>

definition json_indent :: "nat \<Rightarrow> pystr" where
  "json_indent lvl = replicate (2 * lvl) 32"

definition json_lines :: "nat \<Rightarrow> pychar \<Rightarrow> pychar \<Rightarrow> pystr list \<Rightarrow> pystr" where
  "json_lines lvl opn cls elems =
     (if elems = [] then [opn, cls]
      else opn # sep_join [44] (map (\<lambda>e. 10 # json_indent (Suc lvl) @ e) elems)
           @ 10 # json_indent lvl @ [cls])"

fun json_render :: "nat \<Rightarrow> jval \<Rightarrow> pystr" where
  "json_render lvl JNull = pys ''null''"
| "json_render lvl (JBool b) = (if b then pys ''true'' else pys ''false'')"
| "json_render lvl (JNum i) = (if i < 0 then [45] else []) @ nat_digits (nat \<bar>i\<bar>)"
| "json_render lvl (JStr s) = json_string s"
| "json_render lvl (JArr xs) = json_lines lvl 91 93 (map (json_render (Suc lvl)) xs)"
| "json_render lvl (JObj kvs) =
     json_lines lvl 123 125 (map (\<lambda>(k, v). json_string k @ [58, 32] @ json_render (Suc lvl) v) kvs)"

definition json_ws :: "pychar \<Rightarrow> bool" where
  "json_ws c \<longleftrightarrow> c = 32 \<or> c = 9 \<or> c = 10 \<or> c = 13"

definition skip_ws :: "pystr \<Rightarrow> pystr" where
  "skip_ws s = dropWhile json_ws s"

definition hex_value :: "pychar \<Rightarrow> nat option" where
  "hex_value c =
     (if 48 \<le> c \<and> c \<le> 57 then Some (c - 48) else if 97 \<le> c \<and> c \<le> 102 then Some (c - 87)
      else if 65 \<le> c \<and> c \<le> 70 then Some (c - 55) else None)"

fun hex4_value :: "pystr \<Rightarrow> nat option" where
  "hex4_value [a, b, c, d] =
     (case (hex_value a, hex_value b, hex_value c, hex_value d) of
        (Some a, Some b, Some c, Some d) \<Rightarrow> Some (((a * 16 + b) * 16 + c) * 16 + d)
      | _ \<Rightarrow> None)"
| "hex4_value _ = None"

definition short_escape :: "pychar \<Rightarrow> pychar option" where
  "short_escape e =
     (if e = 34 \<or> e = 92 \<or> e = 47 then Some e else if e = 98 then Some 8 else if e = 102 then Some 12
      else if e = 110 then Some 10 else if e = 114 then Some 13 else if e = 116 then Some 9
      else None)"

text \<open>A high surrogate \<open>n\<close> followed by an escaped low surrogate is one character.\<close>

definition low_surrogate :: "nat \<Rightarrow> pystr \<Rightarrow> (pychar \<times> pystr) option" where
  "low_surrogate n r =
     (if 55296 \<le> n \<and> n < 56320 \<and> take 2 r = [92, 117] then
        (case hex4_value (take 4 (drop 2 r)) of
           Some m \<Rightarrow>
             if 56320 \<le> m \<and> m < 57344 then Some (65536 + (n - 55296) * 1024 + (m - 56320), drop 6 r)
             else None
         | None \<Rightarrow> None)
      else None)"

function jstr_body :: "pystr \<Rightarrow> (pystr \<times> pystr) option" where
  "jstr_body s =
     (case s of
        [] \<Rightarrow> None
      | c # r \<Rightarrow>
          if c = 34 then Some ([], r)
          else if c = 92 then
            (case r of
               [] \<Rightarrow> None
             | e # r' \<Rightarrow>
                 if e = 117 then
                   (case hex4_value (take 4 r') of
                      None \<Rightarrow> None
                    | Some n \<Rightarrow>
                        (case low_surrogate n (drop 4 r') of
                           Some (u, r3) \<Rightarrow> map_option (\<lambda>(t, r4). (u # t, r4)) (jstr_body r3)
                         | None \<Rightarrow> map_option (\<lambda>(t, r4). (n # t, r4)) (jstr_body (drop 4 r'))))
                 else
                   (case short_escape e of
                      None \<Rightarrow> None
                    | Some d \<Rightarrow> map_option (\<lambda>(t, r4). (d # t, r4)) (jstr_body r')))
          else if c < 32 then None
          else map_option (\<lambda>(t, r4). (c # t, r4)) (jstr_body r))"
  by pat_completeness auto
termination
  by (relation "measure length")
     (auto simp: low_surrogate_def split: if_splits option.splits)

definition ascii_digit :: "pychar \<Rightarrow> bool" where
  "ascii_digit c \<longleftrightarrow> 48 \<le> c \<and> c \<le> 57"

definition jnum :: "pystr \<Rightarrow> (jval \<times> pystr) option" where
  "jnum s =
     (let (neg, r) = (case s of c # r \<Rightarrow> if c = 45 then (True, r) else (False, s) | [] \<Rightarrow> (False, s));
          ds = (case r of c # _ \<Rightarrow> if c = 48 then [c] else takeWhile ascii_digit r | [] \<Rightarrow> [])
      in if ds = [] then None
         else Some (JNum ((if neg then -1 else 1) * int (digits_value (map (\<lambda>c. c - 48) ds))),
                    drop (length ds) r))"

fun jparse :: "nat \<Rightarrow> pystr \<Rightarrow> (jval \<times> pystr) option"
and jparse_elems :: "nat \<Rightarrow> pystr \<Rightarrow> (jval list \<times> pystr) option"
and jparse_members :: "nat \<Rightarrow> pystr \<Rightarrow> ((pystr \<times> jval) list \<times> pystr) option" where
  "jparse 0 s = None"
| "jparse (Suc n) s =
     (case skip_ws s of
        [] \<Rightarrow> None
      | c # r \<Rightarrow>
          if c = 34 then map_option (\<lambda>(t, r'). (JStr t, r')) (jstr_body r)
          else if c = 91 then
            (if take 1 (skip_ws r) = [93] then Some (JArr [], drop 1 (skip_ws r))
             else map_option (\<lambda>(xs, r'). (JArr xs, r')) (jparse_elems n r))
          else if c = 123 then
            (if take 1 (skip_ws r) = [125] then Some (JObj [], drop 1 (skip_ws r))
             else map_option (\<lambda>(kvs, r'). (JObj kvs, r')) (jparse_members n r))
          else if take 4 (c # r) = pys ''null'' then Some (JNull, drop 3 r)
          else if take 4 (c # r) = pys ''true'' then Some (JBool True, drop 3 r)
          else if take 5 (c # r) = pys ''false'' then Some (JBool False, drop 4 r)
          else jnum (c # r))"
| "jparse_elems 0 s = None"
| "jparse_elems (Suc n) s =
     (case jparse n s of
        None \<Rightarrow> None
      | Some (v, r) \<Rightarrow>
          (case skip_ws r of
             c # r' \<Rightarrow>
               if c = 44 then map_option (\<lambda>(vs, r''). (v # vs, r'')) (jparse_elems n r')
               else if c = 93 then Some ([v], r') else None
           | [] \<Rightarrow> None))"
| "jparse_members 0 s = None"
| "jparse_members (Suc n) s =
     (case skip_ws s of
        c # r \<Rightarrow>
          if c \<noteq> 34 then None
          else
            (case jstr_body r of
               None \<Rightarrow> None
             | Some (k, r1) \<Rightarrow>
                 if take 1 (skip_ws r1) \<noteq> [58] then None
                 else
                   (case jparse n (drop 1 (skip_ws r1)) of
                      None \<Rightarrow> None
                    | Some (v, r3) \<Rightarrow>
                        (case skip_ws r3 of
                           e # r4 \<Rightarrow>
                             if e = 44 then map_option (\<lambda>(kvs, r5). ((k, v) # kvs, r5)) (jparse_members n r4)
                             else if e = 125 then Some ([(k, v)], r4) else None
                         | [] \<Rightarrow> None)))
      | [] \<Rightarrow> None)"

definition json_loads :: "pystr \<Rightarrow> jval option" where
  "json_loads s =
     (case jparse (Suc (length s)) s of
        Some (v, r) \<Rightarrow> if skip_ws r = [] then Some v else None
      | None \<Rightarrow> None)"

text \<open>The documents whose strings consist of Unicode scalar values (a Python \<open>str\<close> may
  hold lone surrogates, which the reader would pair up), and the inputs that may follow a
  number without extending it.\<close>

fun jval_scalar :: "jval \<Rightarrow> bool" where
  "jval_scalar (JStr s) = list_all scalar_value s"
| "jval_scalar (JArr xs) = list_all jval_scalar xs"
| "jval_scalar (JObj kvs) = list_all (\<lambda>(k, v). list_all scalar_value k \<and> jval_scalar v) kvs"
| "jval_scalar _ = True"

definition json_stop :: "pystr \<Rightarrow> bool" where
  "json_stop rest \<longleftrightarrow> (case rest of [] \<Rightarrow> True | c # _ \<Rightarrow> \<not> ascii_digit c)"

text \<open>The characters of the output, and one member of an object as the printer writes
  it.\<close>

definition json_printable :: "pychar \<Rightarrow> bool" where
  "json_printable c \<longleftrightarrow> c = 10 \<or> 32 \<le> c \<and> c \<le> 126"

definition json_member :: "nat \<Rightarrow> pystr \<times> jval \<Rightarrow> pystr" where
  "json_member l kv = encode_basestring_ascii (fst kv) @ pys '': '' @ json_render l (snd kv)"

(* ------------------------------------------------------------------------ *)

subsection \<open>Lemmas: the reference printer in the encoder's terms\<close>

lemma hex_chars_map: "hex_chars = map hex_digit [0..<16]"
  by (simp add: hex_chars_def hex_digit_def pys_def upt_rec)

lemma u_escape_json_hex4: "u_escape n = [92, 117] @ json_hex4 n"
  by (simp add: u_escape_def json_hex4_def hex_chars_map)

lemma escape_char_json_char: "escape_char = json_char"
  by (rule ext)
     (auto simp: escape_char_def json_char_def json_short_escapes_def u_escape_json_hex4
        utf16_units_def Let_def)

lemma encode_basestring_ascii_json_string: "encode_basestring_ascii s = json_string s"
  by (simp add: encode_basestring_ascii_def json_string_def escape_char_json_char)

lemma sep_join_py_join: "xs \<noteq> [] \<Longrightarrow> sep_join [44] (map (\<lambda>e. w @ e) xs) = w @ py_join (44 # w) xs"
  by (induction "44 # w" xs rule: py_join.induct) auto

lemma json_lines_block: "json_lines lvl opn cls elems = json_block opn cls lvl elems"
proof (cases "elems = []")
  case False
  have "map (\<lambda>e. 10 # json_indent (Suc lvl) @ e) elems = map (\<lambda>e. (10 # json_indent (Suc lvl)) @ e) elems"
    by simp
  then show ?thesis
    using False sep_join_py_join [OF False, of "10 # json_indent (Suc lvl)"]
    by (simp add: json_lines_def json_block_def newline_indent_def json_indent_def)
qed (simp add: json_lines_def json_block_def)

declare json_render.simps(4-6) [simp del]

lemma json_render_enc [simp]:
  "json_render lvl (JStr s) = encode_basestring_ascii s"
  "json_render lvl (JArr xs) = json_block 91 93 lvl (map (json_render (Suc lvl)) xs)"
  "json_render lvl (JObj kvs) =
     json_block 123 125 lvl (map (\<lambda>(k, v). encode_basestring_ascii k @ pys '': '' @ json_render (Suc lvl) v) kvs)"
  by (simp_all add: json_render.simps(4-6) json_lines_block encode_basestring_ascii_json_string pys_def)

lemma py_str_int_doc_int: "py_str_int i = (case doc_int i of None \<Rightarrow> Inl ValueError | Some s \<Rightarrow> Inr s)"
  by (simp add: py_str_int_def doc_int_def Let_def)

lemma doc_key_json_key: "doc_key k = (case json_key k of Inl _ \<Rightarrow> None | Inr s \<Rightarrow> Some s)"
  by (cases k) (auto simp: py_str_int_doc_int split: option.splits)

subsection \<open>Lemmas: escapes\<close>

declare jstr_body.simps [simp del]

lemma jstr_body_Cons:
  "jstr_body (c # r) =
     (if c = 34 then Some ([], r)
      else if c = 92 then
        (case r of
           [] \<Rightarrow> None
         | e # r' \<Rightarrow>
             if e = 117 then
               (case hex4_value (take 4 r') of
                  None \<Rightarrow> None
                | Some n \<Rightarrow>
                    (case low_surrogate n (drop 4 r') of
                       Some (u, r3) \<Rightarrow> map_option (\<lambda>(t, r4). (u # t, r4)) (jstr_body r3)
                     | None \<Rightarrow> map_option (\<lambda>(t, r4). (n # t, r4)) (jstr_body (drop 4 r'))))
             else
               (case short_escape e of
                  None \<Rightarrow> None
                | Some d \<Rightarrow> map_option (\<lambda>(t, r4). (d # t, r4)) (jstr_body r')))
      else if c < 32 then None
      else map_option (\<lambda>(t, r4). (c # t, r4)) (jstr_body r))"
  by (subst jstr_body.simps) simp

lemma hex_value_hex_digit: "d < 16 \<Longrightarrow> hex_value (hex_digit d) = Some d"
  by (simp add: hex_value_def hex_digit_def)

lemma hex4_arith:
  fixes n :: nat
  assumes "n < 65536"
  shows "((n div 4096 mod 16 * 16 + n div 256 mod 16) * 16 + n div 16 mod 16) * 16 + n mod 16 = n"
proof -
  have a: "n div 4096 mod 16 = n div 4096" using assms by simp
  have b: "n div 4096 * 16 + n div 256 mod 16 = n div 256"
    using div_mult_mod_eq [of "n div 256" 16] by (simp add: div_mult2_eq [symmetric] mult.commute)
  have c: "n div 256 * 16 + n div 16 mod 16 = n div 16"
    using div_mult_mod_eq [of "n div 16" 16] by (simp add: div_mult2_eq [symmetric] mult.commute)
  have d: "n div 16 * 16 + n mod 16 = n" by simp
  show ?thesis by (simp only: a b c d)
qed

lemma u_escape_parts:
  assumes "n < 65536"
  shows "\<exists>a b c d. u_escape n = [92, 117, a, b, c, d] \<and> hex4_value [a, b, c, d] = Some n"
  using hex4_arith [OF assms] assms by (simp add: u_escape_def hex_value_hex_digit)

lemma jstr_body_u_escape:
  assumes "n < 65536" "n < 55296 \<or> 56320 \<le> n"
  shows "jstr_body (u_escape n @ r) = map_option (\<lambda>(t, r'). (n # t, r')) (jstr_body r)"
proof -
  obtain a b c d where "u_escape n = [92, 117, a, b, c, d]" "hex4_value [a, b, c, d] = Some n"
    using u_escape_parts [OF assms(1)] by blast
  then show ?thesis using assms(2) by (auto simp: jstr_body_Cons low_surrogate_def)
qed

lemma jstr_body_pair:
  assumes "55296 \<le> hi" "hi < 56320" "56320 \<le> lo" "lo < 57344"
  shows "jstr_body (u_escape hi @ u_escape lo @ r) =
           map_option (\<lambda>(t, r'). ((65536 + (hi - 55296) * 1024 + (lo - 56320)) # t, r')) (jstr_body r)"
proof -
  obtain a b c d where h: "u_escape hi = [92, 117, a, b, c, d]" "hex4_value [a, b, c, d] = Some hi"
    using u_escape_parts [of hi] assms by auto
  obtain e f g k where l: "u_escape lo = [92, 117, e, f, g, k]" "hex4_value [e, f, g, k] = Some lo"
    using u_escape_parts [of lo] assms by auto
  show ?thesis using h l assms by (simp add: jstr_body_Cons low_surrogate_def)
qed

lemma jstr_body_escape_char:
  assumes "scalar_value c"
  shows "jstr_body (escape_char c @ r) = map_option (\<lambda>(t, r'). (c # t, r')) (jstr_body r)"
proof (cases "c = 8 \<or> c = 9 \<or> c = 10 \<or> c = 12 \<or> c = 13 \<or> c = 34 \<or> c = 92")
  case True
  then show ?thesis by (auto simp: escape_char_def jstr_body_Cons short_escape_def)
next
  case esc: False
  show ?thesis
  proof (cases "32 \<le> c \<and> c \<le> 126")
    case True
    then show ?thesis using esc by (simp add: escape_char_def jstr_body_Cons)
  next
    case prt: False
    show ?thesis
    proof (cases "c < 65536")
      case True
      then show ?thesis using assms esc prt
        by (auto simp: escape_char_def scalar_value_def intro!: jstr_body_u_escape)
    next
      case False
      define n where "n = c - 65536"
      have n: "n < 1048576" using assms False by (simp add: n_def scalar_value_def)
      then have q: "n div 1024 mod 1024 = n div 1024" by simp
      have c: "c = 65536 + n" using False by (simp add: n_def)
      have "65536 + (55296 + n div 1024 mod 1024 - 55296) * 1024 + (56320 + n mod 1024 - 56320) = c"
        by (simp add: q c)
      moreover have "escape_char c = u_escape (55296 + n div 1024 mod 1024) @ u_escape (56320 + n mod 1024)"
        using False by (simp add: escape_char_def n_def Let_def)
      ultimately show ?thesis using n q by (simp add: jstr_body_pair)
    qed
  qed
qed

lemma jstr_body_encode:
  "list_all scalar_value s \<Longrightarrow> jstr_body (concat (map escape_char s) @ 34 # rest) = Some (s, rest)"
  by (induction s) (simp_all add: jstr_body_Cons jstr_body_escape_char)

(* ------------------------------------------------------------------------ *)

subsection \<open>Lemmas: the encoder prints the document\<close>

lemma doc_int_render: "doc_int i = Some s \<Longrightarrow> s = json_render lvl (JNum i)"
  by (simp add: doc_int_def split: if_splits)

lemma json_enc_render:
  "map_sum (\<lambda>_. ()) id (json_enc lvl v) =
     (case json_doc v of None \<Rightarrow> Inl () | Some j \<Rightarrow> Inr (json_render lvl j))"
  "map_sum (\<lambda>_. ()) id (json_items lvl xs) =
     (case json_docs xs of None \<Rightarrow> Inl () | Some js \<Rightarrow> Inr (map (json_render lvl) js))"
  "map_sum (\<lambda>_. ()) id (json_members lvl d) =
     (case json_doc_members d of
        None \<Rightarrow> Inl ()
      | Some kvs \<Rightarrow> Inr (map (\<lambda>(k, v). encode_basestring_ascii k @ pys '': '' @ json_render lvl v) kvs))"
proof (induction lvl v and lvl xs and lvl d rule: json_enc_json_items_json_members.induct)
  case (4 lvl i)
  then show ?case by (auto simp: py_str_int_doc_int dest: doc_int_render split: option.splits)
next
  case (12 lvl k v kvs)
  note doc_key_json_key [simp]
  show ?case
  proof (cases "json_key k")
    case (Inr ks)
    note v = "12.IH"(1) [OF Inr]
    show ?thesis
    proof (cases "json_enc lvl v")
      case (Inr s)
      note m = "12.IH"(2) [OF \<open>json_key k = Inr ks\<close> Inr]
      show ?thesis using v m Inr \<open>json_key k = Inr ks\<close> by (auto split: sum.splits option.splits)
    qed (use v Inr in \<open>auto split: option.splits\<close>)
  qed simp
qed (auto split: sum.splits option.splits)

subsection \<open>Lemmas: the output is printable ASCII\<close>

lemma set_py_join: "x \<in> set (py_join sep ws) \<Longrightarrow> x \<in> set sep \<or> (\<exists>w \<in> set ws. x \<in> set w)"
  by (induction sep ws rule: py_join.induct) auto

lemma u_escape_printable: "x \<in> set (u_escape n) \<Longrightarrow> 32 \<le> x \<and> x \<le> 126"
  by (auto simp: u_escape_def hex_digit_def)

lemma escape_char_printable: "x \<in> set (escape_char c) \<Longrightarrow> 32 \<le> x \<and> x \<le> 126"
  by (auto simp: escape_char_def Let_def dest: u_escape_printable split: if_splits)

lemma encode_printable: "x \<in> set (encode_basestring_ascii s) \<Longrightarrow> json_printable x"
  by (auto simp: encode_basestring_ascii_def json_printable_def dest: escape_char_printable)

lemma json_block_printable:
  assumes "x \<in> set (json_block opn cls lvl items)" "json_printable opn" "json_printable cls"
    and "\<forall>t \<in> set items. \<forall>y \<in> set t. json_printable y"
  shows "json_printable x"
proof -
  have nl: "\<forall>y \<in> set (newline_indent l). json_printable y" for l
    by (simp add: newline_indent_def json_printable_def)
  from assms(1) consider "x = opn" | "x = cls" | "x = 44" | "x \<in> set (newline_indent (Suc lvl))"
    | "x \<in> set (newline_indent lvl)" | "\<exists>t \<in> set items. x \<in> set t"
    by (auto simp: json_block_def split: if_splits dest!: set_py_join)
  then show ?thesis
    by cases (use assms(2-4) nl in \<open>auto simp: json_printable_def\<close>)
qed

lemma json_render_printable: "x \<in> set (json_render lvl j) \<Longrightarrow> json_printable x"
proof (induction j arbitrary: lvl x)
  case (JNum i)
  then show ?case by (auto simp: json_printable_def dest: nat_digits_ascii split: if_splits)
next
  case (JStr s)
  then show ?case by (simp add: encode_printable)
next
  case (JArr xs)
  from JArr.prems have "x \<in> set (json_block 91 93 lvl (map (json_render (Suc lvl)) xs))" by simp
  then show ?case
    by (rule json_block_printable) (auto simp: json_printable_def dest: JArr.IH [unfolded json_printable_def])
next
  case (JObj kvs)
  have IH: "\<And>k v y l. (k, v) \<in> set kvs \<Longrightarrow> y \<in> set (json_render l v) \<Longrightarrow> json_printable y"
    using JObj.IH by fastforce
  from JObj.prems
  have "x \<in> set (json_block 123 125 lvl
                   (map (\<lambda>(k, v). encode_basestring_ascii k @ pys '': '' @ json_render (Suc lvl) v) kvs))"
    by simp
  then show ?case
    by (rule json_block_printable)
       (auto simp: json_printable_def pys_def dest: encode_printable IH [unfolded json_printable_def])
qed (auto simp: json_printable_def pys_def split: if_splits)

subsection \<open>Lemmas: the reader inverts the printer\<close>

lemma skip_ws_append: "\<forall>c \<in> set w. json_ws c \<Longrightarrow> skip_ws (w @ s) = skip_ws s"
  by (induction w) (simp_all add: skip_ws_def)

lemma skip_ws_Cons: "\<not> json_ws c \<Longrightarrow> skip_ws (c # s) = c # s"
  by (simp add: skip_ws_def)

lemma newline_indent_ws: "\<forall>c \<in> set (newline_indent l). json_ws c"
  by (simp add: newline_indent_def json_ws_def)

lemma skip_ws_newline_indent: "skip_ws (newline_indent l @ s) = skip_ws s"
  by (rule skip_ws_append [OF newline_indent_ws])

lemma jparse_ws: "\<forall>c \<in> set w. json_ws c \<Longrightarrow> jparse n (w @ s) = jparse n s"
  by (cases n) (simp_all add: skip_ws_append)

lemma py_join_Cons_ne: "ws \<noteq> [] \<Longrightarrow> py_join sep (w # ws) = w @ sep @ py_join sep ws"
  by (cases ws) simp_all

lemma nat_digits_lead_zero: "nat_digits n = 48 # r \<Longrightarrow> n = 0 \<and> r = []"
proof (induction n arbitrary: r rule: nat_digits.induct)
  case (1 n)
  show ?case
  proof (cases "n < 10")
    case True
    then show ?thesis using "1.prems" by (subst (asm) nat_digits.simps) simp
  next
    case False
    obtain d ds where "nat_digits (n div 10) = d # ds" using nat_digits_ne by (cases "nat_digits (n div 10)") auto
    then have "nat_digits (n div 10) = 48 # ds" using "1.prems" False by (subst (asm) nat_digits.simps) simp
    then have "n div 10 = 0" using "1.IH" False by blast
    then show ?thesis using False by simp
  qed
qed

lemma takeWhile_digits:
  "\<forall>c \<in> set ds. 48 \<le> c \<and> c \<le> 57 \<Longrightarrow> json_stop rest \<Longrightarrow> takeWhile ascii_digit (ds @ rest) = ds"
  by (induction ds) (auto simp: ascii_digit_def json_stop_def split: list.splits)

lemma jnum_render: "json_stop rest \<Longrightarrow> jnum (json_render lvl (JNum i) @ rest) = Some (JNum i, rest)"
proof -
  assume stop: "json_stop rest"
  define ds where "ds = nat_digits (nat \<bar>i\<bar>)"
  obtain d r where dr: "ds = d # r" using nat_digits_ne by (cases ds) (auto simp: ds_def)
  have dg: "\<forall>c \<in> set ds. 48 \<le> c \<and> c \<le> 57" by (auto simp: ds_def dest: nat_digits_ascii)
  have tk: "(if d = 48 then [d] else takeWhile ascii_digit (ds @ rest)) = ds"
    using dr nat_digits_lead_zero [of _ r] takeWhile_digits [OF dg stop] by (auto simp: ds_def)
  have val: "digits_value (map (\<lambda>c. c - 48) ds) = nat \<bar>i\<bar>"
    by (simp add: ds_def digits_value_nat_digits)
  have "d \<noteq> 45" "ascii_digit d" using dg dr by (auto simp: ascii_digit_def)
  then show ?thesis using tk val dr
    by (auto simp: jnum_def ds_def [symmetric])
qed

lemma json_render_hd: "\<exists>c r. json_render lvl j = c # r \<and> \<not> json_ws c \<and> c \<noteq> 93 \<and> c \<noteq> 125"
proof (cases j)
  case (JNum i)
  obtain d ds where "nat_digits (nat \<bar>i\<bar>) = d # ds" using nat_digits_ne by (cases "nat_digits (nat \<bar>i\<bar>)") auto
  moreover have "48 \<le> d \<and> d \<le> 57" using calculation nat_digits_ascii [of d "nat \<bar>i\<bar>"] by simp
  ultimately show ?thesis using JNum by (auto simp: json_ws_def)
qed (auto simp: pys_def json_ws_def encode_basestring_ascii_def json_block_def)

lemma json_stop_ws: "\<forall>c \<in> set w. json_ws c \<Longrightarrow> \<not> ascii_digit c \<Longrightarrow> json_stop (w @ c # r)"
  by (cases w) (auto simp: json_stop_def json_ws_def ascii_digit_def)

lemma jparse_num: "c = 45 \<or> ascii_digit c \<Longrightarrow> jparse (Suc m) (c # r) = jnum (c # r)"
  by (auto simp: skip_ws_Cons json_ws_def ascii_digit_def pys_def)

lemma jparse_elems_render:
  assumes IH: "\<And>x n rest. x \<in> set xs \<Longrightarrow> length (json_render l x) < n \<Longrightarrow> json_stop rest \<Longrightarrow>
                 jparse n (json_render l x @ rest) = Some (x, rest)"
    and w: "\<forall>c \<in> set w. json_ws c" and w2: "\<forall>c \<in> set w2. json_ws c"
  shows "xs \<noteq> [] \<Longrightarrow> length (w @ py_join (44 # w) (map (json_render l) xs) @ w2 @ [93]) < n \<Longrightarrow>
           jparse_elems n (w @ py_join (44 # w) (map (json_render l) xs) @ w2 @ 93 # rest) = Some (xs, rest)"
  using IH
proof (induction xs arbitrary: n)
  case (Cons x xs)
  obtain m where n: "n = Suc m" using Cons.prems(2) by (cases n) auto
  show ?case
  proof (cases "xs = []")
    case True
    have "jparse m (json_render l x @ w2 @ 93 # rest) = Some (x, w2 @ 93 # rest)"
      using Cons.prems True n w2 by (intro Cons.prems(3)) (auto intro: json_stop_ws simp: ascii_digit_def)
    then show ?thesis
      using True n w w2 by (simp add: jparse_ws skip_ws_append skip_ws_Cons json_ws_def)
  next
    case False
    have "jparse m (json_render l x @ 44 # w @ py_join (44 # w) (map (json_render l) xs) @ w2 @ 93 # rest) =
            Some (x, 44 # w @ py_join (44 # w) (map (json_render l) xs) @ w2 @ 93 # rest)"
      using Cons.prems False n by (intro Cons.prems(3)) (auto simp: json_stop_def ascii_digit_def py_join_Cons_ne)
    moreover have "jparse_elems m (w @ py_join (44 # w) (map (json_render l) xs) @ w2 @ 93 # rest) = Some (xs, rest)"
      using Cons.prems False n by (intro Cons.IH) (auto simp: py_join_Cons_ne)
    ultimately show ?thesis
      using False n w by (simp add: py_join_Cons_ne jparse_ws skip_ws_Cons json_ws_def)
  qed
qed simp

lemma json_render_JObj:
  "json_render lvl (JObj kvs) = json_block 123 125 lvl (map (json_member (Suc lvl)) kvs)"
  by (simp add: json_member_def [abs_def] case_prod_beta')

lemma py_join_length_hd: "length w \<le> length (py_join sep (w # ws))"
  by (cases ws) simp_all

lemma jparse_member:
  assumes IH: "jparse m (json_render l v @ tail) = Some (v, tail)" and k: "list_all scalar_value k"
    and w: "\<forall>c \<in> set w. json_ws c"
  shows "jparse_members (Suc m) (w @ json_member l (k, v) @ tail) =
           (case skip_ws tail of
              e # r4 \<Rightarrow>
                if e = 44 then map_option (\<lambda>(kvs, r5). ((k, v) # kvs, r5)) (jparse_members m r4)
                else if e = 125 then Some ([(k, v)], r4) else None
            | [] \<Rightarrow> None)"
proof -
  have "jparse m (32 # json_render l v @ tail) = Some (v, tail)"
    using jparse_ws [of "[32]"] IH by (simp add: json_ws_def)
  then show ?thesis
    using w k by (simp add: json_member_def encode_basestring_ascii_def pys_def skip_ws_append
                   skip_ws_Cons json_ws_def jstr_body_encode)
qed

lemma jparse_members_render:
  assumes IH: "\<And>k v n rest. (k, v) \<in> set kvs \<Longrightarrow> length (json_render l v) < n \<Longrightarrow> json_stop rest \<Longrightarrow>
                 jparse n (json_render l v @ rest) = Some (v, rest)"
    and keys: "\<forall>(k, v) \<in> set kvs. list_all scalar_value k"
    and w: "\<forall>c \<in> set w. json_ws c" and w2: "\<forall>c \<in> set w2. json_ws c"
  shows "kvs \<noteq> [] \<Longrightarrow> length (w @ py_join (44 # w) (map (json_member l) kvs) @ w2 @ [125]) < n \<Longrightarrow>
           jparse_members n (w @ py_join (44 # w) (map (json_member l) kvs) @ w2 @ 125 # rest) = Some (kvs, rest)"
  using IH keys
proof (induction kvs arbitrary: n)
  case (Cons kv kvs)
  obtain k v where kv: "kv = (k, v)" by fastforce
  obtain m where n: "n = Suc m" using Cons.prems(2) by (cases n) auto
  have k: "list_all scalar_value k" using Cons.prems(4) kv by auto
  have "length (json_render l v) \<le> length (json_member l kv)" by (simp add: json_member_def kv)
  moreover have "length (json_member l kv) \<le> length (py_join (44 # w) (map (json_member l) (kv # kvs)))"
    by (simp only: list.map py_join_length_hd)
  ultimately have len: "length (json_render l v) < m" using Cons.prems(2) n by simp
  show ?case
  proof (cases "kvs = []")
    case True
    have "jparse m (json_render l v @ w2 @ 125 # rest) = Some (v, w2 @ 125 # rest)"
      using len kv w2 by (intro Cons.prems(3)) (auto intro: json_stop_ws simp: ascii_digit_def)
    from jparse_member [OF this k w] show ?thesis
      using True kv n w2 by (simp add: skip_ws_append skip_ws_Cons json_ws_def)
  next
    case False
    let ?tail = "44 # w @ py_join (44 # w) (map (json_member l) kvs) @ w2 @ 125 # rest"
    have "jparse m (json_render l v @ ?tail) = Some (v, ?tail)"
      using len kv by (intro Cons.prems(3)) (auto simp: json_stop_def ascii_digit_def)
    from jparse_member [OF this k w]
    have "jparse_members n (w @ json_member l (k, v) @ ?tail) =
            map_option (\<lambda>(kvs, r5). ((k, v) # kvs, r5))
              (jparse_members m (w @ py_join (44 # w) (map (json_member l) kvs) @ w2 @ 125 # rest))"
      using n by (simp add: skip_ws_Cons json_ws_def split: option.splits)
    moreover have "jparse_members m (w @ py_join (44 # w) (map (json_member l) kvs) @ w2 @ 125 # rest) =
                     Some (kvs, rest)"
      using Cons.prems False n by (intro Cons.IH) (auto simp: py_join_Cons_ne)
    ultimately show ?thesis
      using False kv by (simp add: py_join_Cons_ne)
  qed
qed simp

lemma jparse_render:
  "jval_scalar j \<Longrightarrow> length (json_render lvl j) < n \<Longrightarrow> json_stop rest \<Longrightarrow>
     jparse n (json_render lvl j @ rest) = Some (j, rest)"
proof (induction j arbitrary: lvl n rest)
  case JNull
  then obtain m where "n = Suc m" by (cases n) auto
  then show ?case by (simp add: pys_def skip_ws_Cons json_ws_def)
next
  case (JBool b)
  then obtain m where "n = Suc m" by (cases n) auto
  then show ?case by (cases b) (simp_all add: pys_def skip_ws_Cons json_ws_def)
next
  case (JNum i)
  then obtain m where n: "n = Suc m" by (cases n) auto
  have "\<exists>c r. json_render lvl (JNum i) = c # r \<and> (c = 45 \<or> ascii_digit c)"
  proof (cases "nat_digits (nat \<bar>i\<bar>)")
    case (Cons d ds)
    then have "ascii_digit d" using nat_digits_ascii [of d "nat \<bar>i\<bar>"] by (simp add: ascii_digit_def)
    then show ?thesis using Cons by auto
  qed (simp add: nat_digits_ne)
  then obtain c r where cr: "json_render lvl (JNum i) = c # r" and c: "c = 45 \<or> ascii_digit c"
    by blast
  from c have "jparse n (json_render lvl (JNum i) @ rest) = jnum (json_render lvl (JNum i) @ rest)"
    unfolding cr n append_Cons by (rule jparse_num)
  then show ?case using jnum_render [OF JNum.prems(3), of lvl i] by simp
next
  case (JStr s)
  then obtain m where "n = Suc m" by (cases n) auto
  then show ?case using JStr.prems(1)
    by (simp add: encode_basestring_ascii_def skip_ws_Cons json_ws_def jstr_body_encode)
next
  case (JArr xs)
  then obtain m where n: "n = Suc m" by (cases n) auto
  show ?case
  proof (cases "xs = []")
    case True
    then show ?thesis using n by (simp add: json_block_def skip_ws_Cons json_ws_def)
  next
    case False
    let ?w = "newline_indent (Suc lvl)"
    let ?body = "?w @ py_join (44 # ?w) (map (json_render (Suc lvl)) xs) @ newline_indent lvl @ 93 # rest"
    obtain x xs' where xs: "xs = x # xs'" using False by (cases xs) auto
    obtain c r where cr: "json_render (Suc lvl) x = c # r" "\<not> json_ws c" "c \<noteq> 93"
      using json_render_hd by blast
    have hd: "take 1 (skip_ws ?body) = [c]"
      using cr xs by (cases xs') (simp_all add: skip_ws_append newline_indent_ws skip_ws_Cons)
    have "jparse_elems m ?body = Some (xs, rest)"
    proof (rule jparse_elems_render [OF _ newline_indent_ws newline_indent_ws False])
      show "length (?w @ py_join (44 # ?w) (map (json_render (Suc lvl)) xs) @ newline_indent lvl @ [93]) < m"
        using JArr.prems(2) n False by (simp add: json_block_def)
    next
      fix y n' rest'
      assume "y \<in> set xs" "length (json_render (Suc lvl) y) < n'" "json_stop rest'"
      then show "jparse n' (json_render (Suc lvl) y @ rest') = Some (y, rest')"
        using JArr.IH JArr.prems(1) by (simp add: list_all_iff)
    qed
    then show ?thesis using n False hd cr by (simp add: json_block_def skip_ws_Cons json_ws_def)
  qed
next
  case (JObj kvs)
  then obtain m where n: "n = Suc m" by (cases n) auto
  show ?case
  proof (cases "kvs = []")
    case True
    then show ?thesis using n by (simp add: json_block_def skip_ws_Cons json_ws_def)
  next
    case False
    let ?w = "newline_indent (Suc lvl)"
    let ?body = "?w @ py_join (44 # ?w) (map (json_member (Suc lvl)) kvs) @ newline_indent lvl @ 125 # rest"
    obtain kv kvs' where kvs: "kvs = kv # kvs'" using False by (cases kvs) auto
    have hd: "take 1 (skip_ws ?body) = [34]"
      using kvs by (cases kvs')
        (simp_all add: skip_ws_newline_indent skip_ws_Cons json_member_def
          encode_basestring_ascii_def json_ws_def)
    have "jparse_members m ?body = Some (kvs, rest)"
    proof (rule jparse_members_render [OF _ _ newline_indent_ws newline_indent_ws False])
      show "length (?w @ py_join (44 # ?w) (map (json_member (Suc lvl)) kvs) @ newline_indent lvl @ [125]) < m"
        using JObj.prems(2) [unfolded json_render_JObj] n False by (simp add: json_block_def)
      show "\<forall>(k, v) \<in> set kvs. list_all scalar_value k"
        using JObj.prems(1) by (auto simp: list_all_iff)
    next
      fix k v n' rest'
      assume "(k, v) \<in> set kvs" "length (json_render (Suc lvl) v) < n'" "json_stop rest'"
      then show "jparse n' (json_render (Suc lvl) v @ rest') = Some (v, rest')"
        using JObj.IH JObj.prems(1) by (fastforce simp: list_all_iff)
    qed
    then show ?thesis using n False hd
      by (simp add: json_render_JObj json_block_def skip_ws_Cons json_ws_def del: json_render_enc(3))
  qed
qed

lemma json_dumps_Inr: "json_dumps v = Inr s \<Longrightarrow> \<exists>j. json_doc v = Some j \<and> s = json_render 0 j"
  using json_enc_render(1) [of 0 v] by (auto simp: json_dumps_def split: option.splits)

(* ------------------------------------------------------------------------ *)

subsection \<open>Properties of \<open>json.dumps\<close>\<close>

text \<open>
  C20. Refinement: \<open>json.dumps\<close> succeeds exactly on the values that denote a JSON
  document, and then prints that document.
\<close>

theorem json_dumps_refines:
  "json_dumps v = Inr s \<longleftrightarrow> (\<exists>j. json_doc v = Some j \<and> s = json_render 0 j)"
  using json_enc_render(1) [of 0 v]
  by (cases "json_enc 0 v") (auto simp: json_dumps_def split: option.splits)

text \<open>
  C18. Round trip: reading the output of \<open>json.dumps\<close> back gives the document of the
  value, when its strings are made of Unicode scalar values.
\<close>

theorem json_dumps_roundtrip:
  assumes "json_dumps v = Inr s" and "pred_option jval_scalar (json_doc v)"
  shows "json_loads s = json_doc v"
proof -
  obtain j where j: "json_doc v = Some j" "s = json_render 0 j"
    using json_dumps_Inr [OF assms(1)] by blast
  then have "jval_scalar j" using assms(2) by simp
  then have "jparse (Suc (length s)) (json_render 0 j @ []) = Some (j, [])"
    using j by (intro jparse_render) (simp_all add: json_stop_def)
  then show ?thesis using j by (simp add: json_loads_def skip_ws_def)
qed

theorem json_dumps_roundtrip_witness:
  "json_loads (json_render 0 (JObj [([104, 105], JArr [JNum (-12), JStr [128512, 10], JNull])])) =
     Some (JObj [([104, 105], JArr [JNum (-12), JStr [128512, 10], JNull])])"
  using json_dumps_roundtrip
          [of "PyDict [(PyStr [104, 105], PyList [PyInt (-12), PyObj [128512, 10], PyNone])]"
              "json_render 0 (JObj [([104, 105], JArr [JNum (-12), JStr [128512, 10], JNull])])"]
  by (simp add: json_dumps_def doc_int_def py_str_int_def nat_digits.simps scalar_value_def py_max_str_digits_def)

text \<open>
  C24. Bounds: every character \<open>json.dumps\<close> prints is a printable ASCII character or a
  line feed, whatever the strings of the value hold.
\<close>

theorem json_dumps_ascii:
  "json_dumps v = Inr s \<Longrightarrow> c \<in> set s \<Longrightarrow> c = 10 \<or> 32 \<le> c \<and> c \<le> 126"
  using json_render_printable by (auto simp: json_printable_def dest!: json_dumps_Inr)

theorem json_dumps_ascii_witness:
  "json_dumps (PyStr [233]) = Inr [34, 92, 117, 48, 48, 101, 57, 34] \<and> 101 \<in> set [34, 92, 117, 48, 48, 101, 57, 34 :: nat] \<and>
   (101 = (10::nat) \<or> 32 \<le> (101::nat) \<and> (101::nat) \<le> 126)"
  using json_dumps_ascii [of "PyStr [233]" "[34, 92, 117, 48, 48, 101, 57, 34]" 101]
  by (simp add: json_dumps_def encode_basestring_ascii_def escape_char_def u_escape_def hex_digit_def)

end

