(* ===== verification/Advanced_Command.thy ===== *)
theory Advanced_Command
  imports Sync_Cache Cli_Args Json_Output
begin

text \<open>
  \<open>AdvancedSyncCommand\<close> and \<open>main\<close> of \<open>src/content/scripts/sync-advanced.py\<close>.  The
  command holds the parsed arguments and an optional \<open>SyncCache\<close>.  \<open>watch_mode\<close> is a
  polling loop that runs until a \<open>KeyboardInterrupt\<close>: it is \<open>watch_loop\<close>, a
  \<open>partial_function (option)\<close> whose \<open>None\<close> is a loop that never ends.  Its observable
  behaviour is a trace of events (printed lines, sleeps, screen clears, calls of
  \<open>run_check\<close>).  The environment of iteration \<open>i\<close> is \<open>envs i\<close>, and the interrupt, when
  it comes, arrives during the sleep of one iteration.  The method \<open>self.find_claude_md\<close>
  the loop calls is looked up on the object: the lookup is a parameter of the loop, and
  for \<open>AdvancedSyncCommand\<close> as written it fails (\<open>advanced_find_claude_md\<close>).
  \<open>output_json\<close> is \<open>json.dumps\<close> of \<open>Json_Output\<close>, \<open>run_check\<close> a placeholder whose body
  is \<open>pass\<close>.  \<open>advanced_main\<close> is \<open>main\<close> after \<open>parse_args\<close>, \<open>sync_advanced_main\<close> the
  whole of \<open>main\<close> on the command line (\<open>Cli_Args\<close>): a parse error exits with status
  2, the help with 0, and an exception that leaves \<open>main\<close> ends the process with
  status 1.
\<close>

record ('c, 't) advanced_sync_command =
  adv_command_args :: adv_args
  adv_command_cache :: "('c, 't) sync_cache option"

definition new_advanced_sync_command ::
    "path \<Rightarrow> file_system \<Rightarrow> adv_args \<Rightarrow>
       io_error + (('c, 't) advanced_sync_command \<times> file_system)" where
  "new_advanced_sync_command home fsys args =
     (if args_cache args then
        (case new_sync_cache home None fsys of
           Inl e \<Rightarrow> Inl e
         | Inr (c, fsys') \<Rightarrow> Inr (\<lparr>adv_command_args = args, adv_command_cache = Some c\<rparr>, fsys'))
      else Inr (\<lparr>adv_command_args = args, adv_command_cache = None\<rparr>, fsys))"

text \<open>The attributes of an \<open>AdvancedSyncCommand\<close>: its methods and the two instance
  fields; the class derives from \<open>object\<close> only.\<close>

definition advanced_sync_command_attrs :: "pystr list" where
  "advanced_sync_command_attrs =
     map pys [''__init__'', ''watch_mode'', ''output_json'', ''output_markdown'', ''run_check'',
              ''args'', ''cache'']"

text \<open>\<open>self.find_claude_md\<close> on an \<open>AdvancedSyncCommand\<close>: the name is none of the
  object's attributes (\<open>find_claude_md_not_an_attribute\<close> below), so the lookup raises
  \<open>AttributeError\<close>, which is \<open>None\<close>.\<close>

definition advanced_find_claude_md :: "(sys_env \<Rightarrow> path option) option" where
  "advanced_find_claude_md = None"

datatype watch_event = Print pystr | Sleep int | ClearScreen | RunCheck

datatype watch_exit = Stopped | Raised py_exc

record watch_state =
  last_check :: "(pystr, pystr) pydict"
  trace :: "watch_event list"

definition watch_banner :: pystr where
  "watch_banner = pys ''Starting sync watch mode... (Ctrl+C to stop)''"

definition waiting_line :: pystr where
  "waiting_line = [8218, 232, 8719] @ pys '' No CLAUDE.md found, waiting...''"

definition stopping_line :: pystr where
  "stopping_line = [10, 63743, 252, 235, 227] @ pys '' Stopping watch mode''"

text \<open>\<open>time.sleep\<close> converts its argument to a signed 64-bit count of nanoseconds
  (\<open>_PyTime_FromSecondsObject\<close>): an integer whose count does not fit raises
  \<open>OverflowError\<close>, before the sign is looked at.\<close>

definition sleep_ns_fits :: "int \<Rightarrow> bool" where
  "sleep_ns_fits n \<longleftrightarrow> - (2 ^ 63) \<le> n * 1000000000 \<and> n * 1000000000 < 2 ^ 63"

text \<open>\<open>time.sleep(n)\<close>, with the interrupt of iteration \<open>i\<close>: an integer out of the
  nanosecond range raises \<open>OverflowError\<close>, a negative length \<open>ValueError\<close>; otherwise the
  sleep is recorded, and an interrupt during it prints the stop line and leaves the loop
  (\<open>Inl\<close>); \<open>Inr\<close> is the state to continue with.\<close>

definition watch_sleep ::
    "nat option \<Rightarrow> nat \<Rightarrow> int \<Rightarrow> watch_state \<Rightarrow> (watch_exit \<times> watch_state) + watch_state" where
  "watch_sleep interrupt i n st =
     (if \<not> sleep_ns_fits n then Inl (Raised OverflowError, st)
      else if n < 0 then Inl (Raised ValueError, st)
      else let st = st\<lparr>trace := trace st @ [Sleep n]\<rparr>
           in if interrupt = Some i then Inl (Stopped, st\<lparr>trace := trace st @ [Print stopping_line]\<rparr>)
              else Inr st)"

partial_function (option) watch_loop ::
    "(sys_env \<Rightarrow> path option) option \<Rightarrow> (nat list \<Rightarrow> pystr) \<Rightarrow> (nat \<Rightarrow> sys_env) \<Rightarrow> int \<Rightarrow>
       nat option \<Rightarrow> nat \<Rightarrow> watch_state \<Rightarrow> (watch_exit \<times> watch_state) option" where
  "watch_loop method md5 envs interval interrupt i st =
     (case method of
        None \<Rightarrow> Some (Raised AttributeError, st)
      | Some find_claude_md \<Rightarrow>
          (case find_claude_md (envs i) of
             None \<Rightarrow>
               (case watch_sleep interrupt i 5 (st\<lparr>trace := trace st @ [Print waiting_line]\<rparr>) of
                  Inl r \<Rightarrow> Some r
                | Inr st \<Rightarrow> watch_loop method md5 envs interval interrupt (Suc i) st)
           | Some claude_path \<Rightarrow>
               (case read_bytes (envs i) claude_path of
                  Inl e \<Rightarrow> Some (Raised (OSError e), st)
                | Inr bs \<Rightarrow>
                    let current_hash = md5 bs;
                        key = path_str claude_path;
                        st = (if map_of (last_check st) key = Some current_hash then st
                              else st\<lparr>trace := trace st @ [ClearScreen, RunCheck],
                                      last_check := py_dict_set key current_hash (last_check st)\<rparr>)
                    in (case watch_sleep interrupt i interval st of
                          Inl r \<Rightarrow> Some r
                        | Inr st \<Rightarrow> watch_loop method md5 envs interval interrupt (Suc i) st))))"

definition watch_mode ::
    "('c, 't) advanced_sync_command \<Rightarrow> (sys_env \<Rightarrow> path option) option \<Rightarrow> (nat list \<Rightarrow> pystr) \<Rightarrow>
       (nat \<Rightarrow> sys_env) \<Rightarrow> nat option \<Rightarrow> (watch_exit \<times> watch_state) option" where
  "watch_mode cmd method md5 envs interrupt =
     watch_loop method md5 envs (args_interval (adv_command_args cmd)) interrupt 0
       \<lparr>last_check = [], trace = [Print watch_banner]\<rparr>"

text \<open>\<open>output_json\<close>: the printed text of \<open>json.dumps(data, indent=2, default=str)\<close>
  for a dictionary with \<open>str\<close> keys, or the exception it raises.\<close>

definition output_json :: "(pystr \<times> pyval) list \<Rightarrow> py_exc + pystr" where
  "output_json data = json_dumps (PyDict (map (\<lambda>(k, v). (PyStr k, v)) data))"

text \<open>\<open>run_check\<close>: \<open>pass\<close>.\<close>

definition run_check :: "('c, 't) advanced_sync_command \<Rightarrow> watch_event list" where
  "run_check cmd = []"

text \<open>\<open>output_markdown\<close>: the report dictionary as a record, its issues as records of
  the four strings the method reads; \<open>datetime.now().isoformat()\<close> is a parameter.
  \<open>str.title\<close> is modelled on ASCII words.\<close>

record md_issue =
  md_level :: pystr
  md_category :: pystr
  md_description :: pystr
  md_suggestion :: pystr

record md_data =
  md_project_name :: pystr
  md_context_file :: pystr
  md_issues :: "md_issue list"

fun py_title_aux :: "bool \<Rightarrow> pystr \<Rightarrow> pystr" where
  "py_title_aux prev_cased [] = []"
| "py_title_aux prev_cased (c # cs) =
     (let cased = (65 \<le> c \<and> c \<le> 90) \<or> (97 \<le> c \<and> c \<le> 122);
          c' = (if prev_cased then py_lower_char c
                else if 97 \<le> c \<and> c \<le> 122 then c - 32 else c)
      in c' # py_title_aux cased cs)"

definition py_title :: "pystr \<Rightarrow> pystr" where
  "py_title s = py_title_aux False s"

definition md_issue_lines :: "md_issue \<Rightarrow> pystr list" where
  "md_issue_lines i =
     [pys ''\<newline>- **'' @ md_category i @ pys ''**: '' @ md_description i,
      pys ''  - *Suggestion*: '' @ md_suggestion i]"

definition md_level_lines :: "md_issue list \<Rightarrow> pystr \<Rightarrow> pystr list" where
  "md_level_lines issues lvl =
     (let level_issues = filter (\<lambda>i. md_level i = lvl) issues
      in if level_issues = [] then []
         else (pys ''\<newline>### '' @ py_title lvl @ pys ''s'') # concat (map md_issue_lines level_issues))"

definition markdown_lines :: "pystr \<Rightarrow> md_data \<Rightarrow> pystr list" where
  "markdown_lines now data =
     [pys ''# Project Context Sync Report'',
      pys ''\<newline>**Date**: '' @ now,
      pys ''\<newline>**Project**: `'' @ md_project_name data @ pys ''`'',
      pys ''\<newline>**Context File**: `'' @ md_context_file data @ pys ''`'']
     @ (if md_issues data = [] then [pys ''\<newline>## '' @ [8218, 250, 214] @ pys '' No Issues Found'']
        else pys ''\<newline>## Issues Found'' #
             concat (map (md_level_lines (md_issues data)) (map pys [''critical'', ''warning'', ''suggestion''])))"

definition output_markdown :: "pystr \<Rightarrow> md_data \<Rightarrow> pystr" where
  "output_markdown now data = py_join [10] (markdown_lines now data)"

text \<open>\<open>main\<close> from the parsed arguments: the trace of what it does and the exit status
  of the process; \<open>None\<close> when it runs forever.\<close>

definition advanced_main ::
    "path \<Rightarrow> (nat list \<Rightarrow> pystr) \<Rightarrow> (nat \<Rightarrow> sys_env) \<Rightarrow> nat option \<Rightarrow> adv_args \<Rightarrow>
       (watch_event list \<times> int) option" where
  "advanced_main home md5 envs interrupt args =
     (case (new_advanced_sync_command home (fs (envs 0)) args
              :: io_error + ((unit, unit) advanced_sync_command \<times> file_system)) of
        Inl e \<Rightarrow> Some ([], 1)
      | Inr (command, fsys) \<Rightarrow>
          if args_watch args then
            map_option (\<lambda>(x, st). (trace st, case x of Stopped \<Rightarrow> 0 | Raised _ \<Rightarrow> 1))
              (watch_mode command advanced_find_claude_md md5 envs interrupt)
          else Some (run_check command, 0))"

text \<open>\<open>main\<close> on the command line: \<open>parse_args\<close> prints the help and exits 0, or prints
  the usage and the error and exits 2 (neither text is modelled), or returns the
  namespace that the rest of \<open>main\<close> runs on.\<close>

definition sync_advanced_main ::
    "path \<Rightarrow> (nat list \<Rightarrow> pystr) \<Rightarrow> (nat \<Rightarrow> sys_env) \<Rightarrow> nat option \<Rightarrow> pystr list \<Rightarrow>
       (watch_event list \<times> int) option" where
  "sync_advanced_main home md5 envs interrupt argv =
     (case parse_adv_args argv of
        Parsed args \<Rightarrow> advanced_main home md5 envs interrupt args
      | ShowHelp \<Rightarrow> Some ([], 0)
      | ParseError e \<Rightarrow> Some ([], 2))"



subsection \<open>Lemmas\<close>

lemma find_claude_md_not_an_attribute: "pys ''find_claude_md'' \<notin> set advanced_sync_command_attrs"
  by (simp add: advanced_sync_command_attrs_def pys_def)

lemma sleep_ns_fits_iff: "sleep_ns_fits n \<longleftrightarrow> -9223372036 \<le> n \<and> n \<le> 9223372036"
  by (auto simp: sleep_ns_fits_def)

lemma watch_sleep_Inr:
  "watch_sleep interrupt i n st = Inr st' \<longleftrightarrow>
     n \<in> {0..9223372036} \<and> interrupt \<noteq> Some i \<and> st' = st\<lparr>trace := trace st @ [Sleep n]\<rparr>"
  by (auto simp: watch_sleep_def sleep_ns_fits_iff Let_def)

lemma watch_sleep_last: "watch_sleep (Some i) i n st \<noteq> Inr st'"
  by (simp add: watch_sleep_Inr)

lemma watch_loop_returns:
  "i \<le> k \<Longrightarrow> watch_loop method md5 envs interval (Some k) i st \<noteq> None"
proof (induction "k - i" arbitrary: i st "method")
  case 0
  then have "i = k" by simp
  then show ?case
    by (subst watch_loop.simps)
       (auto simp: watch_sleep_last Let_def split: option.splits sum.splits)
next
  case (Suc n)
  then have "Suc i \<le> k" "n = k - Suc i" by simp_all
  then have IH: "\<And>st m. watch_loop m md5 envs interval (Some k) (Suc i) st \<noteq> None"
    using Suc.hyps(1) by blast
  show ?case
    by (subst watch_loop.simps) (auto simp: IH Let_def simp del: not_None_eq split: option.splits sum.splits)
qed

lemma watch_mode_attribute_error:
  "watch_mode cmd advanced_find_claude_md md5 envs interrupt =
     Some (Raised AttributeError, \<lparr>last_check = [], trace = [Print watch_banner]\<rparr>)"
  by (simp add: watch_mode_def advanced_find_claude_md_def watch_loop.simps)

lemma watch_loop_returns_cause:
  assumes ret: "watch_loop method md5 envs interval interrupt i st = Some r"
  shows "\<forall>g. method = Some g \<longrightarrow> (\<exists>j\<ge>i. interrupt = Some j \<or> g (envs j) \<noteq> None)"
proof (rule watch_loop.raw_induct
    [where P = "\<lambda>m h e v intr i st r. \<forall>g. m = Some g \<longrightarrow> (\<exists>j\<ge>i. intr = Some j \<or> g (e j) \<noteq> None)",
     OF _ ret])
  fix w :: "(sys_env \<Rightarrow> path option) option \<Rightarrow> (nat list \<Rightarrow> pystr) \<Rightarrow> (nat \<Rightarrow> sys_env) \<Rightarrow> int \<Rightarrow>
       nat option \<Rightarrow> nat \<Rightarrow> watch_state \<Rightarrow> (watch_exit \<times> watch_state) option"
  fix m h e v intr i st r
  assume IH: "\<And>m h e v intr i st r. w m h e v intr i st = Some r \<Longrightarrow>
                \<forall>g. m = Some g \<longrightarrow> (\<exists>j\<ge>i. intr = Some j \<or> g (e j) \<noteq> None)"
  assume eq: "(case m of None \<Rightarrow> Some (Raised AttributeError, st)
      | Some find_claude_md \<Rightarrow>
          (case find_claude_md (e i) of
             None \<Rightarrow>
               (case watch_sleep intr i 5 (st\<lparr>trace := trace st @ [Print waiting_line]\<rparr>) of
                  Inl r \<Rightarrow> Some r
                | Inr st \<Rightarrow> w m h e v intr (Suc i) st)
           | Some claude_path \<Rightarrow>
               (case read_bytes (e i) claude_path of
                  Inl ex \<Rightarrow> Some (Raised (OSError ex), st)
                | Inr bs \<Rightarrow>
                    let current_hash = h bs;
                        key = path_str claude_path;
                        st = (if map_of (last_check st) key = Some current_hash then st
                              else st\<lparr>trace := trace st @ [ClearScreen, RunCheck],
                                      last_check := py_dict_set key current_hash (last_check st)\<rparr>)
                    in (case watch_sleep intr i v st of
                          Inl r \<Rightarrow> Some r
                        | Inr st \<Rightarrow> w m h e v intr (Suc i) st)))) = Some r"
  show "\<forall>g. m = Some g \<longrightarrow> (\<exists>j\<ge>i. intr = Some j \<or> g (e j) \<noteq> None)"
  proof (intro allI impI)
    fix g
    assume m: "m = Some g"
    show "\<exists>j\<ge>i. intr = Some j \<or> g (e j) \<noteq> None"
    proof (cases "g (e i) = None \<and> intr \<noteq> Some i")
      case False
      then show ?thesis by auto
    next
      case True
      then have "watch_sleep intr i 5 (st\<lparr>trace := trace st @ [Print waiting_line]\<rparr>) =
                 Inr (st\<lparr>trace := trace st @ [Print waiting_line, Sleep 5]\<rparr>)"
        by (simp add: watch_sleep_Inr)
      with eq m True have "w m h e v intr (Suc i) (st\<lparr>trace := trace st @ [Print waiting_line, Sleep 5]\<rparr>) = Some r"
        by simp
      from IH [OF this] m obtain j where "j \<ge> Suc i" "intr = Some j \<or> g (e j) \<noteq> None"
        by blast
      then show ?thesis by (intro exI [of _ j]) simp
    qed
  qed
qed



lemma md_issue_lines_concat_length: "length (concat (map md_issue_lines xs)) = 2 * length xs"
  by (induction xs) (simp_all add: md_issue_lines_def)

lemma md_level_lines_length:
  "length (md_level_lines issues l) =
     (if \<exists>i \<in> set issues. md_level i = l then 1 + 2 * length (filter (\<lambda>i. md_level i = l) issues) else 0)"
  by (auto simp: md_level_lines_def md_issue_lines_concat_length filter_empty_conv Let_def)

lemma sum_list_length_filter_eq:
  "distinct ls \<Longrightarrow> (\<Sum>l\<leftarrow>ls. length (filter (\<lambda>x. f x = l) xs)) = length (filter (\<lambda>x. f x \<in> set ls) xs)"
proof (induction xs)
  case (Cons x xs)
  have "(\<Sum>l\<leftarrow>ls. length (filter (\<lambda>y. f y = l) (x # xs))) =
          (\<Sum>l\<leftarrow>ls. (if f x = l then 1 else 0) + length (filter (\<lambda>y. f y = l) xs))"
    by (intro arg_cong [where f = sum_list] map_cong) auto
  moreover have "(\<Sum>l\<leftarrow>ls. (if f x = l then 1 else 0) :: nat) = (if f x \<in> set ls then 1 else 0)"
    using Cons.prems by (simp add: sum_list_distinct_conv_sum_set)
  ultimately show ?case using Cons by (simp add: sum_list_addf)
qed simp

(* ------------------------------------------------------------------------ *)

subsection \<open>Properties of the advanced command\<close>

text \<open>
  C21. Composition: what \<open>sync-advanced.py\<close> does for each command line.  \<open>--help\<close>
  ends with status 0 and a command line \<open>argparse\<close> rejects with status 2, before any
  other code runs; with \<open>--cache\<close> a cache directory that cannot be created ends the
  run with status 1; otherwise \<open>--watch\<close> prints the banner and dies with
  \<open>AttributeError\<close> (status 1), and without it \<open>main\<close> calls \<open>run_check\<close>, whose body is
  \<open>pass\<close>, so nothing is printed and the status is 0.  No command line makes it loop.
\<close>

theorem sync_advanced_main_outcomes:
  "sync_advanced_main home md5 envs interrupt argv =
     (case parse_adv_args argv of
        ShowHelp \<Rightarrow> Some ([], 0)
      | ParseError e \<Rightarrow> Some ([], 2)
      | Parsed a \<Rightarrow>
          Some (if args_cache a \<and> isl (new_sync_cache home None (fs (envs 0)) :: io_error + ((unit, unit) sync_cache \<times> file_system))
                then ([], 1)
                else if args_watch a then ([Print watch_banner], 1) else ([], 0)))"
  by (auto simp: sync_advanced_main_def advanced_main_def new_advanced_sync_command_def
        watch_mode_attribute_error run_check_def split: parse_outcome.splits sum.splits)

text \<open>
  Error: \<open>output_json\<close> prints an object it cannot serialise as its \<open>str()\<close>
  (\<open>default=str\<close>), but the same object as the key of a nested dictionary makes
  \<open>json.dumps\<close> raise \<open>TypeError\<close>: \<open>default\<close> is never applied to keys.
\<close>

theorem output_json_object_key:
  "output_json [(k, PyDict [(PyObj obj, v)])] = Inl TypeError \<and>
   output_json [(k, PyObj obj)] = Inr (json_render 0 (JObj [(k, JStr obj)]))"
  by (simp add: output_json_def json_dumps_def)

text \<open>
  Finding: \<open>sync-advanced.py\<close> never checks anything.  Whatever the project and
  the environment, without \<open>--watch\<close> it prints nothing and exits with status 0
  (\<open>run_check\<close> is a placeholder); with \<open>--watch\<close> it prints the banner and dies
  with \<open>AttributeError\<close>, status 1, because the class has no \<open>find_claude_md\<close>.
\<close>

theorem advanced_main_no_check:
  "advanced_main home md5 envs interrupt (args\<lparr>args_cache := False\<rparr>) =
     Some (if args_watch args then ([Print watch_banner], 1) else ([], 0))"
  by (simp add: advanced_main_def new_advanced_sync_command_def watch_mode_attribute_error run_check_def)

text \<open>
  C16. Termination: once an interrupt arrives, at whatever iteration, watch mode returns,
  whatever the method lookup, the files and the interval.
\<close>

theorem watch_mode_terminates: "watch_mode cmd method md5 envs (Some k) \<noteq> None"
  by (simp add: watch_mode_def watch_loop_returns)

text \<open>
  C26. Without an interrupt the polling never ends while no context file is found: the
  loop returns only when interrupted or after it has found a file.
\<close>

theorem watch_loop_polls_forever:
  "\<forall>j. find_claude_md (envs j) = None \<Longrightarrow>
     watch_loop (Some find_claude_md) md5 envs interval None i st = None"
proof (rule ccontr)
  assume none: "\<forall>j. find_claude_md (envs j) = None"
    and "watch_loop (Some find_claude_md) md5 envs interval None i st \<noteq> None"
  then obtain r where "watch_loop (Some find_claude_md) md5 envs interval None i st = Some r" by auto
  from watch_loop_returns_cause [OF this] none show False by auto
qed

theorem watch_loop_polls_forever_witness:
  "watch_loop (Some (\<lambda>_. None)) (\<lambda>bs. bs) (\<lambda>_. \<lparr>cwd = [], fs = \<lambda>_. None, git = \<lambda>_. None\<rparr>) 5 None 0
     \<lparr>last_check = [], trace = []\<rparr> = None"
  using watch_loop_polls_forever [of "\<lambda>_. None" "\<lambda>_. \<lparr>cwd = [], fs = \<lambda>_. None, git = \<lambda>_. None\<rparr>"]
  by simp

text \<open>
  C32. The interval reaches \<open>time.sleep\<close> unchecked (\<open>--interval\<close> is any \<open>int\<close>): when
  the method \<open>find_claude_md\<close>, once resolved, finds a readable file, watch mode runs the
  check once and then dies at its first sleep, with \<open>OverflowError\<close> for an interval
  beyond the signed 64-bit nanosecond range and with \<open>ValueError\<close> for a negative one
  within it, whether or not an interrupt would come.
\<close>

theorem watch_mode_bad_interval:
  assumes "find_claude_md (envs 0) = Some p" and "fs (envs 0) p = Some (File bs)"
    and "args_interval (adv_command_args cmd) \<notin> {0..9223372036}"
  shows "watch_mode cmd (Some find_claude_md) md5 envs interrupt =
           Some (Raised (if args_interval (adv_command_args cmd) < -9223372036 \<or>
                            9223372036 < args_interval (adv_command_args cmd)
                         then OverflowError else ValueError),
                 \<lparr>last_check = [(path_str p, md5 bs)], trace = [Print watch_banner, ClearScreen, RunCheck]\<rparr>)"
  using assms
  by (subst watch_mode_def, subst watch_loop.simps)
     (auto simp: watch_sleep_def sleep_ns_fits_iff read_bytes_def Let_def)

theorem watch_mode_bad_interval_witness:
  "watch_mode (\<lparr>adv_command_args = default_adv_args\<lparr>args_interval := 10000000000\<rparr>, adv_command_cache = None\<rparr>
                 :: (unit, unit) advanced_sync_command)
      (Some (\<lambda>_. Some [pys ''R''])) (\<lambda>bs. bs)
      (\<lambda>j. \<lparr>cwd = [], fs = (\<lambda>q. if q = [pys ''R''] then Some (File [65]) else None), git = \<lambda>_. None\<rparr>) None =
     Some (Raised OverflowError,
           \<lparr>last_check = [(path_str [pys ''R''], [65])], trace = [Print watch_banner, ClearScreen, RunCheck]\<rparr>)"
  using watch_mode_bad_interval
    [of "\<lambda>_. Some [pys ''R'']"
        "\<lambda>j. \<lparr>cwd = [], fs = (\<lambda>q. if q = [pys ''R''] then Some (File [65]) else None), git = \<lambda>_. None\<rparr>"
        "[pys ''R'']" "[65]"
        "\<lparr>adv_command_args = default_adv_args\<lparr>args_interval := 10000000000\<rparr>, adv_command_cache = None\<rparr>
           :: (unit, unit) advanced_sync_command" "\<lambda>bs. bs" None]
  by simp



text \<open>
  C33. \<open>output_markdown\<close> lists the issues of the levels critical, warning and suggestion
  only, two lines each, under one heading per level present: after the four lines of
  the header and the one of the issue summary, the report has one line per level
  present and two per issue of those levels.  An issue of any other level, such as
  \<open>AlignmentLevel.ALIGNED\<close> of \<open>sync.py\<close>, is counted in "Issues Found" and never shown.
\<close>

theorem markdown_lines_length:
  "length (markdown_lines now data) =
     5 + length (filter (\<lambda>l. \<exists>i \<in> set (md_issues data). md_level i = l)
                   (map pys [''critical'', ''warning'', ''suggestion'']))
       + 2 * length (filter (\<lambda>i. md_level i \<in> set (map pys [''critical'', ''warning'', ''suggestion'']))
                       (md_issues data))"
proof -
  let ?ls = "map pys [''critical'', ''warning'', ''suggestion'']"
  have d: "distinct ?ls" by (simp add: pys_def)
  have "length (concat (map (md_level_lines (md_issues data)) ?ls)) =
          length (filter (\<lambda>l. \<exists>i \<in> set (md_issues data). md_level i = l) ?ls) +
          2 * (\<Sum>l\<leftarrow>?ls. length (filter (\<lambda>i. md_level i = l) (md_issues data)))"
    by (simp add: length_concat md_level_lines_length)
  also have "(\<Sum>l\<leftarrow>?ls. length (filter (\<lambda>i. md_level i = l) (md_issues data))) =
               length (filter (\<lambda>i. md_level i \<in> set ?ls) (md_issues data))"
    by (rule sum_list_length_filter_eq [OF d])
  finally show ?thesis
    by (simp add: markdown_lines_def del: set_map)
qed

theorem markdown_lines_length_witness:
  "length (markdown_lines (pys ''T'')
     \<lparr>md_project_name = pys ''proj'', md_context_file = pys ''/proj/README.md'',
      md_issues = [\<lparr>md_level = pys ''critical'', md_category = pys ''workflow'',
                     md_description = pys ''d'', md_suggestion = pys ''s''\<rparr>,
                   \<lparr>md_level = pys ''aligned'', md_category = pys ''location'',
                     md_description = pys ''e'', md_suggestion = pys ''t''\<rparr>]\<rparr>) = 8"
  using markdown_lines_length [of "pys ''T''"
     "\<lparr>md_project_name = pys ''proj'', md_context_file = pys ''/proj/README.md'',
       md_issues = [\<lparr>md_level = pys ''critical'', md_category = pys ''workflow'',
                      md_description = pys ''d'', md_suggestion = pys ''s''\<rparr>,
                    \<lparr>md_level = pys ''aligned'', md_category = pys ''location'',
                      md_description = pys ''e'', md_suggestion = pys ''t''\<rparr>]\<rparr>"]
  by (simp add: pys_def)

end
