(* ===== verification/Spec2Isabelle.thy ===== *)
theory Spec2Isabelle
  imports Sync_Command Rule_Scorer Task_Inference Advanced_Command
begin

text \<open>
  \<^bold>\<open>A verification development of the project-context sync scripts.\<close>

  \<^bold>\<open>The program.\<close>  Two Python scripts.  \<open>src/docs/rules/scripts/sync.py\<close> finds a
  README-like context file (\<open>SyncCommand.find_claude_md\<close>), parses it into a
  \<open>ProjectContext\<close> (\<open>ContextParser\<close>: purpose, section items, inline imperative rules,
  a directory-structure map read from fenced tree drawings), runs four checks against
  the working directory and git (\<open>AlignmentChecker\<close>), prints a report and exits with 0,
  1 or 2.  \<open>src/content/scripts/sync-advanced.py\<close> adds a scoring parser
  (\<open>AdvancedContextParser\<close>), a reader of the git state (\<open>TaskInference\<close>), an engine of
  next-step suggestions (\<open>AlignmentEngine\<close>), a context cache (\<open>SyncCache\<close>), JSON
  and Markdown reports, and a command-line front end (\<open>argparse\<close>, \<open>main\<close>) whose
  main path is still a placeholder.

  \<^bold>\<open>Theories.\<close>  Each theory models one part, its definitions in the order of the code.
  \<^item> \<open>Prelude\<close>: Python \<open>str\<close> as code-point lists (\<open>pystr\<close>) and the built-ins the
    scripts call: \<open>isspace\<close>, ASCII \<open>lower\<close>, \<open>strip\<close>, \<open>startswith\<close>, \<open>in\<close>, \<open>split\<close>,
    \<open>join\<close>, the insertion-ordered \<open>dict\<close> and CPython's \<open>sort(reverse=True)\<close>.
  \<^item> \<open>Py_Builtins\<close>: the exceptions (\<open>py_exc\<close>) and CPython's \<open>int.__repr__\<close>
    (\<open>py_str_int\<close>) and \<open>int(s)\<close> (\<open>py_int\<close>: Unicode digits and white space,
    underscores, the 4300-digit limit), with \<open>int(str(i)) = i\<close>.
  \<^item> \<open>Environment\<close>: the constant environment of one run (\<open>sys_env\<close>: working
    directory, file system, the three \<open>git\<close> queries, \<open>None\<close> when \<open>subprocess.run\<close>
    raises) and the \<open>pathlib\<close> operations on absolute paths.
  \<^item> \<open>Text_IO\<close>: \<open>Path.read_bytes\<close> and \<open>Path.read_text(encoding='utf-8')\<close>: strict
    UTF-8 decoding (\<open>utf8_decode\<close>) then universal newlines; the exceptions as
    \<open>io_error\<close>.
  \<^item> \<open>Section_Extractor\<close>, \<open>Structure_Extractor\<close>, \<open>Context_Parser\<close>: \<open>ContextParser\<close>
    of \<open>sync.py\<close> (\<open>_extract_section_items\<close> as a fold of \<open>section_step\<close> over the
    lines, \<open>_extract_inline_rules\<close>, \<open>_extract_purpose\<close>, \<open>_extract_structure\<close> with
    \<open>findall_blocks\<close> for \<open>re.findall\<close>, and \<open>parse\<close>); the regular expressions are
    translated into the predicates and rewrites they compute.
  \<^item> \<open>Rule_Scorer\<close>: \<open>AdvancedContextParser\<close> (\<open>extract_semantic_rules\<close>,
    \<open>infer_project_type\<close>).
  \<^item> \<open>Alignment_Checker\<close>: \<open>AlignmentChecker\<close>, its state (context, issue list) passed
    explicitly, with the specification \<open>alignment_spec\<close> it refines.
  \<^item> \<open>Sync_Command\<close>: \<open>SyncCommand\<close> (\<open>find_claude_md\<close>, \<open>load_context\<close>,
    \<open>analyze_alignment\<close>, \<open>format_output\<close> as the list of report lines, \<open>run\<close> giving
    the printed strings and the exit status), with the search specification
    \<open>find_spec\<close>.
  \<^item> \<open>Task_Inference\<close>: \<open>TaskContext\<close>, \<open>TaskInference.get_current_task_context\<close>
    (\<open>task_context_try\<close> returns \<open>Inl\<close> the partial context when the \<open>try\<close> block
    raises) and \<open>AlignmentEngine\<close>, with the table-driven task-type specification.
  \<^item> \<open>Sync_Cache\<close>: \<open>ContextCache\<close>, \<open>SyncCache\<close> (\<open>mkdir_parents\<close>, \<open>get\<close>, \<open>set\<close>),
    the digest function, clock and home directory as parameters.
  \<^item> \<open>Json_Output\<close>: \<open>json.dumps(indent=2, default=str)\<close> as CPython's Python
    encoder runs it (\<open>json_enc\<close>, \<open>json_items\<close>, \<open>json_members\<close> for \<open>_iterencode\<close>,
    \<open>_iterencode_list\<close>, \<open>_iterencode_dict\<close>; \<open>escape_char\<close> for \<open>ensure_ascii\<close>), with a
    reference side written from the documentation of \<open>json\<close>, sharing no layout or
    escape function with the encoder: the document a value denotes (\<open>json_doc\<close>), its
    printer (\<open>json_render\<close>, two spaces per level, one element per line, UTF-16
    \<open>\u\<close> escapes) and a JSON reader (\<open>json_loads\<close>).
  \<^item> \<open>Cli_Args\<close>: \<open>OutputFormat\<close>, the namespace (\<open>adv_args\<close>) and
    \<open>parser.parse_args()\<close> (\<open>parse_adv_args\<close>) as CPython 3.11.10's \<open>argparse\<close> runs it
    over the options \<open>main\<close> declares: classification of the strings, then the consume
    loop with chained flags, actions in order, help and errors as exits.
  \<^item> \<open>Advanced_Command\<close>: \<open>AdvancedSyncCommand\<close> (construction with the cache,
    \<open>watch_mode\<close> as the polling loop \<open>watch_loop\<close> over a sequence of environments,
    with \<open>time.sleep\<close>'s conversion to a signed 64-bit nanosecond count
    (\<open>sleep_ns_fits\<close>) and its errors, \<open>output_json\<close>, \<open>run_check\<close>, \<open>output_markdown\<close>), \<open>main\<close> after \<open>parse_args\<close>
    (\<open>advanced_main\<close>) and on the command line (\<open>sync_advanced_main\<close>); the loop's
    observable behaviour is a trace of events.
  \<^item> this theory: properties that span the search, the loader, the parser and the
    checker.

  \<^bold>\<open>What is proved.\<close>  Refinements: \<open>check_current_state\<close> returns \<open>alignment_spec\<close>
  whatever the checker held; \<open>find_claude_md\<close> is the first file of \<open>find_spec\<close>;
  \<open>run\<close>'s exit status composes search, loading, parsing and checking; the if-chain of
  the task type implements the priority table and the scope its four bands; the
  encoder of \<open>json.dumps\<close> prints exactly what the reference printer prints for the
  document of the value.  Functional and error behaviour of each
  check, the exit codes, the report, the section scanner, the purpose loop, rule
  scoring and typing, and every error branch of \<open>read_text\<close> and of the task inference.
  Invariants: every parsed context is well formed (items non-empty, stripped,
  substrings of the document; structure keys distinct words); the cache keeps its keys
  consistent.  Equivalence: CPython's reverse sort is the stable sort by descending
  importance.  Round trips: UTF-8 decoding inverts encoding exactly on scalar values,
  CRLF files read as LF, cache \<open>set\<close> then \<open>get\<close>; a JSON reader gives back the document
  of every value \<open>json.dumps\<close> prints (surrogate pairs included), which the encoder
  prints exactly when it exists (refinement of \<open>json_render\<close> after \<open>json_doc\<close>);
  \<open>parse_args\<close> gives back every namespace from its long-option spelling, negative
  intervals included.  Termination and liveness of watch
  mode: it returns once interrupted, polls forever without an interrupt while no file
  is found, and calls \<open>run_check\<close> once per change of the file's digest.  Bounds: the
  size of the report and the depth of the file found; \<open>json.dumps\<close> prints only
  printable ASCII and line feeds; the Markdown report has two lines per issue of the
  three listed levels and none for the others.  Errors: watch mode dies at its first
  sleep when the interval is negative (\<open>ValueError\<close>) or beyond the nanosecond range
  (\<open>OverflowError\<close>).  Composition: the outcome and exit status of
  \<open>sync-advanced.py\<close> for every command line (help 0, rejected 2, cache failure 1,
  watch banner then \<open>AttributeError\<close> 1, otherwise the empty \<open>run_check\<close> and 0);
  \<open>-h\<close> first wins over every later error but an ambiguous abbreviation.  Findings
  of the code are also stated as theorems on concrete inputs (misaligned fences, items
  with their section's trigger dropped, the git check skipped in subdirectories,
  \<open>docs/README.md\<close> warned about at the project root, file names with spaces, a
  dictionary key \<open>output_json\<close> cannot print).

  \<^bold>\<open>Loops, bounds and fuel.\<close>  The program's loops use no fuel.  Loops over lists are folds or
  structural recursion; \<open>str.split()\<close>, \<open>re.findall\<close> and \<open>mkdir(parents=True)\<close> are
  \<open>function\<close>s with termination proofs on the length of what remains.  The
  \<open>while True\<close> loop of watch mode may run forever, so it is a
  \<open>partial_function (option)\<close>; its termination once an interrupt arrives is proved by
  induction on the iterations left, and its non-termination without one, while no file
  is found, by its partial-correctness induction rule.  The interrupt is modelled as
  arriving during a sleep, the only place the loop waits.  The search loop
  \<open>for _ in range(6)\<close> is \<open>find_loop\<close> with the code's own counter 6, which covers the
  working directory and five ancestors; the search specification shows it stops at
  the root when that comes first.  The JSON reader of the reference side runs on fuel,
  one unit per nested value, list element or member, started at the length of its
  input plus one: every such step consumes at least one character, and the round-trip
  theorem proves that this fuel always suffices on the encoder's output.

  \<^bold>\<open>Modelling choices.\<close>  \<open>str.lower\<close>, \<open>re.I\<close>, \<open>\d\<close> and \<open>\w\<close> are modelled on ASCII
  (the documents' keywords are ASCII; non-ASCII letters are left unchanged).  Float
  weights are rationals, exact because every weight is a multiple of one half.  The
  environment does not change during a run, so every call of a query sees the same
  answer.  A caught exception's message is represented by its class name.  The
  library code the scripts call on the command line and in \<open>output_json\<close> (\<open>argparse\<close>,
  \<open>int\<close>, \<open>json\<close>) is modelled from CPython 3.11.10's sources, and the models were run
  against that interpreter on the same inputs.

  \<^bold>\<open>Not modelled.\<close>  Floats in \<open>json.dumps\<close> (no code builds the dictionary that
  \<open>output_json\<close> prints, since \<open>run_check\<close> is \<open>pass\<close>); the texts of \<open>argparse\<close>'s usage,
  help and error messages (the outcome and its exit status are modelled); terminal
  clearing and sleeping (events of the trace), the MD5 algorithm and the clock
  (parameters).  \<open>run_check\<close> is \<open>pass\<close>, so \<open>output_json\<close> and \<open>output_markdown\<close> are
  modelled but unreachable, and \<open>watch_mode\<close> fails on its first statement since the
  class lacks \<open>find_claude_md\<close>: the loop's theorems about a resolved method describe
  the loop's own logic.
\<close>

(* ------------------------------------------------------------------------ *)

subsection \<open>Properties across components\<close>

text \<open>
  Finding: a project whose only context file is \<open>docs/README.md\<close> is reported as
  misaligned when the command runs in the project's root: the context directory is
  \<open>docs\<close>, which is not an ancestor of the root, so the run prints a location warning and
  exits with status 1.
\<close>

theorem docs_readme_location_warning:
  "run \<lparr>cwd = [pys ''proj''],
        fs = (\<lambda>q. if q = [pys ''proj'', pys ''docs'', pys ''README.md''] then Some (File []) else None),
        git = \<lambda>_. None\<rparr> new_sync_command =
     ([format_output (parse [] [pys ''proj'', pys ''docs'', pys ''README.md''])
                     [location_issue [pys ''proj'', pys ''docs'']]], 1)"
  by (simp add: run_def find_claude_md_def claude_locations_def path_join_def path_exists_def
      path_is_file_def path_parent_def load_context_def read_text_def read_bytes_def analyze_alignment_def
      new_sync_command_def check_current_state_issues alignment_spec_def directory_issues_def
      workflow_issues_def rule_issues_def structure_issues_def parse_fields exit_code_def
      issue_levels parse_eval)

end
